(* ===== verification/Prelude.thy ===== *)
theory Prelude
  imports Complex_Main "HOL-Library.Multiset"
begin

text \<open>
  Shared vocabulary of the development.  Python's \<open>str\<close> is a sequence of Unicode code
  points; the model writes it as \<open>ustr\<close>, a list of code points (\<open>nat\<close>), so that
  characters outside Latin-1 such as the en dash U+2013 used by the source's regular
  expressions are representable.  \<open>u ''abc''\<close> converts an ASCII literal.

  The character classes below are those the source relies on: Python's \<open>str.isspace\<close>
  (which is also \<open>\s\<close> of \<open>re\<close>), the ASCII classes of the patterns, \<open>\w\<close> (used by
  \<open>\b\<close>) and \<open>str.lower\<close>.  Whitespace is exact for all of Unicode; letters, digits
  and case mapping are exact on Latin-1 (code points below 256).  Code points from 256 up
  that are not whitespace are treated as non-word characters that \<open>lower\<close> leaves
  unchanged, and only ASCII digits are decimal digits.
\<close>

named_theorems pychar "definitions of the Python character classes, unfolded to evaluate"

type_synonym ustr = "nat list"

abbreviation u :: "string \<Rightarrow> ustr" where
  "u s \<equiv> map of_char s"

section \<open>Character classes\<close>

definition py_isspace :: "nat \<Rightarrow> bool" where
  "py_isspace c \<longleftrightarrow>
     (9 \<le> c \<and> c \<le> 13) \<or> (28 \<le> c \<and> c \<le> 32) \<or> c = 133 \<or> c = 160 \<or> c = 5760 \<or>
     (8192 \<le> c \<and> c \<le> 8202) \<or> c = 8232 \<or> c = 8233 \<or> c = 8239 \<or> c = 8287 \<or> c = 12288"

definition is_ascii_digit :: "nat \<Rightarrow> bool" where
  "is_ascii_digit c \<longleftrightarrow> 48 \<le> c \<and> c \<le> 57"

definition is_ascii_upper :: "nat \<Rightarrow> bool" where
  "is_ascii_upper c \<longleftrightarrow> 65 \<le> c \<and> c \<le> 90"

definition is_ascii_lower :: "nat \<Rightarrow> bool" where
  "is_ascii_lower c \<longleftrightarrow> 97 \<le> c \<and> c \<le> 122"

definition is_ascii_alpha :: "nat \<Rightarrow> bool" where
  "is_ascii_alpha c \<longleftrightarrow> is_ascii_upper c \<or> is_ascii_lower c"

text \<open>Latin-1 capitals that \<open>str.lower\<close> maps to their small letter (U+00C0 to U+00DE
  without the multiplication sign U+00D7).\<close>

definition is_latin1_upper :: "nat \<Rightarrow> bool" where
  "is_latin1_upper c \<longleftrightarrow> 192 \<le> c \<and> c \<le> 222 \<and> c \<noteq> 215"

text \<open>\<open>str.isalnum\<close> on Latin-1: ASCII letters and digits, the feminine and masculine
  ordinals, micro sign, superscript digits, vulgar fractions and the accented letters.\<close>

definition py_isalnum :: "nat \<Rightarrow> bool" where
  "py_isalnum c \<longleftrightarrow>
     is_ascii_alpha c \<or> is_ascii_digit c \<or> c = 170 \<or> c = 178 \<or> c = 179 \<or> c = 181 \<or>
     c = 185 \<or> c = 186 \<or> (188 \<le> c \<and> c \<le> 190) \<or> (192 \<le> c \<and> c \<le> 255 \<and> c \<noteq> 215 \<and> c \<noteq> 247)"

text \<open>\<open>\w\<close> of \<open>re\<close> on \<open>str\<close>: alphanumeric or the underscore.\<close>

definition py_isword :: "nat \<Rightarrow> bool" where
  "py_isword c \<longleftrightarrow> py_isalnum c \<or> c = 95"

definition py_lower_char :: "nat \<Rightarrow> nat" where
  "py_lower_char c = (if is_ascii_upper c \<or> is_latin1_upper c then c + 32 else c)"

declare py_isspace_def [pychar] is_ascii_digit_def [pychar] is_ascii_upper_def [pychar]
  is_ascii_lower_def [pychar] is_ascii_alpha_def [pychar] is_latin1_upper_def [pychar]
  py_isalnum_def [pychar] py_isword_def [pychar] py_lower_char_def [pychar]

section \<open>String operations of Python's \<open>str\<close>\<close>

definition py_lower :: "ustr \<Rightarrow> ustr" where
  "py_lower s = map py_lower_char s"

definition py_strip :: "ustr \<Rightarrow> ustr" where
  "py_strip s = rev (dropWhile py_isspace (rev (dropWhile py_isspace s)))"

definition py_endswith :: "ustr \<Rightarrow> ustr \<Rightarrow> bool" where
  "py_endswith s t \<longleftrightarrow> length t \<le> length s \<and> drop (length s - length t) s = t"

text \<open>\<open>t in s\<close>, substring containment.\<close>

fun py_in :: "ustr \<Rightarrow> ustr \<Rightarrow> bool" where
  "py_in t [] \<longleftrightarrow> t = []"
| "py_in t (c # cs) \<longleftrightarrow> take (length t) (c # cs) = t \<or> py_in t cs"

text \<open>\<open>int(s)\<close> on a string of ASCII digits.\<close>

definition digits_value :: "ustr \<Rightarrow> nat" where
  "digits_value s = foldl (\<lambda>n c. 10 * n + (c - 48)) 0 s"

text \<open>A string value (of a dict lookup or \<open>os.getenv\<close>) Python treats as true: present and
  not the empty string.\<close>

definition truthy :: "ustr option \<Rightarrow> bool" where
  "truthy v \<longleftrightarrow> (case v of None \<Rightarrow> False | Some s \<Rightarrow> s \<noteq> [])"

text \<open>Python exceptions the modelled code can raise.\<close>

datatype py_exc = KeyError | ValueError

section \<open>Shared lemmas\<close>

lemma py_lower_char_idem [simp]: "py_lower_char (py_lower_char c) = py_lower_char c"
  by (simp add: pychar)

lemma py_lower_idem [simp]: "py_lower (py_lower s) = py_lower s"
  by (simp add: py_lower_def)

lemma length_py_lower [simp]: "length (py_lower s) = length s"
  by (simp add: py_lower_def)

lemma py_lower_append [simp]: "py_lower (s @ t) = py_lower s @ py_lower t"
  by (simp add: py_lower_def)

lemma py_lower_Nil [simp]: "py_lower [] = []"
  by (simp add: py_lower_def)

lemma py_lower_Cons [simp]: "py_lower (c # s) = py_lower_char c # py_lower s"
  by (simp add: py_lower_def)

lemma py_lower_char_fixed:
  "\<not> is_ascii_upper c \<Longrightarrow> \<not> is_latin1_upper c \<Longrightarrow> py_lower_char c = c"
  by (simp add: py_lower_char_def)

lemma py_lower_char_not_upper [simp]: "\<not> is_ascii_upper (py_lower_char c)"
  by (simp add: pychar)

lemma py_lower_char_alpha [simp]: "is_ascii_alpha (py_lower_char c) \<longleftrightarrow> is_ascii_alpha c"
  by (auto simp: pychar)

lemma py_lower_char_digit [simp]: "is_ascii_digit (py_lower_char c) \<longleftrightarrow> is_ascii_digit c"
  by (auto simp: pychar)

lemma py_lower_char_space [simp]: "py_isspace (py_lower_char c) \<longleftrightarrow> py_isspace c"
  by (auto simp: pychar)

lemma truthy_simps [simp]: "truthy None = False" "truthy (Some s) \<longleftrightarrow> s \<noteq> []"
  by (simp_all add: truthy_def)

lemma py_strip_Nil [simp]: "py_strip [] = []"
  by (simp add: py_strip_def)

text \<open>The harmonic mean of \<open>x/b\<close> and \<open>x/a\<close> (an F1 of precision and recall).\<close>

lemma harmonic_mean_ratio:
  fixes x a b :: real
  assumes x: "x > 0" and a: "a > 0" and b: "b > 0"
  shows "2 * (x / b * (x / a)) / (x / b + x / a) = 2 * x / (a + b)"
proof -
  have "0 < a * x + b * x" using x a b by (intro add_pos_pos mult_pos_pos)
  then have "a * x + b * x \<noteq> 0" by simp
  with x a b show ?thesis by (simp add: divide_simps) (simp add: algebra_simps)
qed

lemma set_map_filter: "set (List.map_filter f xs) = {y. \<exists>x\<in>set xs. f x = Some y}"
  by (induction xs) (auto split: option.splits)

lemma digits_value_append:
  "digits_value (s @ [c]) = 10 * digits_value s + (c - 48)"
  by (simp add: digits_value_def)

end
