(* ===== verification/PyRe.thy ===== *)
theory PyRe
  imports Prelude
begin

text \<open>
  A model of the part of Python's \<open>re\<close> module the program uses: \<open>re.search\<close>,
  \<open>re.findall\<close> and \<open>re.sub\<close> over backtracking patterns built from literals, character
  classes, greedy and bounded repetition of a class, the lazy \<open>.*?\<close> (under
  \<open>re.DOTALL\<close>), alternation, concatenation, \<open>\b\<close> and \<open>\Z\<close>.

  A pattern is a list-of-successes parser over a zipper: the input is the consumed prefix,
  reversed, and the rest of the string, so that \<open>\b\<close> can look one character back.  The
  successes are listed in the order in which Python's backtracking engine tries them
  (greedy repetition longest first, the left alternative first, depth first through a
  concatenation), so the first success is the match \<open>re\<close> reports.  The value of a
  success carries the captured groups the caller uses.  A scan that meets an empty match
  emits it and moves on by one character; none of the program's patterns matches the empty
  string.
\<close>

named_theorems rx_defs "definitions of the pattern combinators, unfolded to evaluate"

type_synonym rin = "ustr \<times> ustr"
type_synonym 'a rx = "rin \<Rightarrow> ('a \<times> rin) list"

section \<open>Pattern combinators\<close>

text \<open>One character of a class, \<open>[...]\<close>.\<close>

definition rx_cls :: "(nat \<Rightarrow> bool) \<Rightarrow> nat rx" where
  "rx_cls P = (\<lambda>(ps, rs). case rs of [] \<Rightarrow> [] | c # cs \<Rightarrow> if P c then [(c, (c # ps, cs))] else [])"

text \<open>A literal; the value is the text matched.  \<open>rx_lit_ci\<close> is the literal under
  \<open>re.IGNORECASE\<close>.\<close>

definition rx_lit :: "ustr \<Rightarrow> ustr rx" where
  "rx_lit w = (\<lambda>(ps, rs).
     if take (length w) rs = w then [(w, (rev w @ ps, drop (length w) rs))] else [])"

definition rx_lit_ci :: "ustr \<Rightarrow> ustr rx" where
  "rx_lit_ci w = (\<lambda>(ps, rs). let v = take (length w) rs in
     if length v = length w \<and> py_lower v = py_lower w then [(v, (rev v @ ps, drop (length w) rs))]
     else [])"

text \<open>Greedy repetition of a class between \<open>lo\<close> and \<open>hi\<close> times (\<open>None\<close>: no upper
  bound): \<open>P*\<close>, \<open>P+\<close>, \<open>P?\<close>, \<open>P{m,n}\<close>.  Longest first.\<close>

definition rx_rep :: "(nat \<Rightarrow> bool) \<Rightarrow> nat \<Rightarrow> nat option \<Rightarrow> ustr rx" where
  "rx_rep P lo hi = (\<lambda>(ps, rs).
     let n = length (takeWhile P rs); m = (case hi of None \<Rightarrow> n | Some h \<Rightarrow> min h n)
     in map (\<lambda>k. (take k rs, (rev (take k rs) @ ps, drop k rs))) (rev [lo..<Suc m]))"

text \<open>\<open>.*?\<close> with \<open>re.DOTALL\<close>: any text, shortest first.\<close>

definition rx_lazy_any :: "ustr rx" where
  "rx_lazy_any = (\<lambda>(ps, rs).
     map (\<lambda>k. (take k rs, (rev (take k rs) @ ps, drop k rs))) [0..<Suc (length rs)])"

definition rx_alt :: "'a rx \<Rightarrow> 'a rx \<Rightarrow> 'a rx" where
  "rx_alt p q = (\<lambda>i. p i @ q i)"

definition rx_seq :: "'a rx \<Rightarrow> 'b rx \<Rightarrow> ('a \<times> 'b) rx" where
  "rx_seq p q = (\<lambda>i. concat (map (\<lambda>(a, j). map (\<lambda>(b, k). ((a, b), k)) (q j)) (p i)))"

definition rx_map :: "('a \<Rightarrow> 'b) \<Rightarrow> 'a rx \<Rightarrow> 'b rx" where
  "rx_map f p = (\<lambda>i. map (\<lambda>(a, j). (f a, j)) (p i))"

text \<open>\<open>\b\<close>: a word character on exactly one side.\<close>

definition is_word_at :: "ustr \<Rightarrow> bool" where
  "is_word_at s = (case s of [] \<Rightarrow> False | c # _ \<Rightarrow> py_isword c)"

definition rx_bound :: "unit rx" where
  "rx_bound = (\<lambda>(ps, rs). if is_word_at ps \<noteq> is_word_at rs then [((), (ps, rs))] else [])"

text \<open>\<open>\Z\<close>: the end of the string.\<close>

definition rx_eos :: "unit rx" where
  "rx_eos = (\<lambda>(ps, rs). if rs = [] then [((), (ps, rs))] else [])"

text \<open>Derived forms: an alternation of several patterns, a concatenation whose value is
  the text of both parts, and concatenations that keep the value of one side.\<close>

definition rx_alts :: "'a rx list \<Rightarrow> 'a rx" where
  "rx_alts ps = foldr rx_alt ps (\<lambda>_. [])"

definition rx_cat :: "ustr rx \<Rightarrow> ustr rx \<Rightarrow> ustr rx" where
  "rx_cat p q = rx_map (\<lambda>(a, b). a @ b) (rx_seq p q)"

definition rx_then :: "'a rx \<Rightarrow> 'b rx \<Rightarrow> 'b rx" where
  "rx_then p q = rx_map snd (rx_seq p q)"

definition rx_before :: "'a rx \<Rightarrow> 'b rx \<Rightarrow> 'a rx" where
  "rx_before p q = rx_map fst (rx_seq p q)"

declare rx_alts_def [rx_defs] rx_cat_def [rx_defs] rx_then_def [rx_defs] rx_before_def [rx_defs]

declare rx_cls_def [rx_defs] rx_lit_def [rx_defs] rx_lit_ci_def [rx_defs] rx_rep_def [rx_defs]
  rx_lazy_any_def [rx_defs] rx_alt_def [rx_defs] rx_seq_def [rx_defs] rx_map_def [rx_defs]
  is_word_at_def [rx_defs] rx_bound_def [rx_defs] rx_eos_def [rx_defs]

section \<open>search, findall, sub\<close>

text \<open>\<open>re.search\<close>: the first success at the leftmost position that has one.\<close>

fun rx_search_at :: "'a rx \<Rightarrow> ustr \<Rightarrow> ustr \<Rightarrow> 'a option" where
  "rx_search_at p ps [] = (case p (ps, []) of [] \<Rightarrow> None | (a, _) # _ \<Rightarrow> Some a)"
| "rx_search_at p ps (c # cs) =
     (case p (ps, c # cs) of [] \<Rightarrow> rx_search_at p (c # ps) cs | (a, _) # _ \<Rightarrow> Some a)"

definition rx_search :: "'a rx \<Rightarrow> ustr \<Rightarrow> 'a option" where
  "rx_search p s = rx_search_at p [] s"

text \<open>\<open>re.findall\<close>: successive non-overlapping matches, left to right.\<close>

function rx_scan :: "'a rx \<Rightarrow> ustr \<Rightarrow> ustr \<Rightarrow> 'a list" where
  "rx_scan p ps rs =
     (case p (ps, rs) of
        [] \<Rightarrow> (case rs of [] \<Rightarrow> [] | c # cs \<Rightarrow> rx_scan p (c # ps) cs)
      | (a, (ps', rs')) # _ \<Rightarrow>
          a # (if length rs' < length rs then rx_scan p ps' rs'
               else (case rs of [] \<Rightarrow> [] | c # cs \<Rightarrow> rx_scan p (c # ps) cs)))"
  by pat_completeness auto
termination
  by (relation "measure (\<lambda>(p, ps, rs). length rs)") auto

definition rx_findall :: "'a rx \<Rightarrow> ustr \<Rightarrow> 'a list" where
  "rx_findall p s = rx_scan p [] s"

text \<open>\<open>re.sub\<close>: each match replaced by the text the replacement computes from its groups,
  the characters between matches copied.\<close>

function rx_subst :: "'a rx \<Rightarrow> ('a \<Rightarrow> ustr) \<Rightarrow> ustr \<Rightarrow> ustr \<Rightarrow> ustr" where
  "rx_subst p f ps rs =
     (case p (ps, rs) of
        [] \<Rightarrow> (case rs of [] \<Rightarrow> [] | c # cs \<Rightarrow> c # rx_subst p f (c # ps) cs)
      | (a, (ps', rs')) # _ \<Rightarrow>
          f a @ (if length rs' < length rs then rx_subst p f ps' rs'
                 else (case rs of [] \<Rightarrow> [] | c # cs \<Rightarrow> c # rx_subst p f (c # ps) cs)))"
  by pat_completeness auto
termination
  by (relation "measure (\<lambda>(p, f, ps, rs). length rs)") auto

definition rx_sub :: "'a rx \<Rightarrow> ('a \<Rightarrow> ustr) \<Rightarrow> ustr \<Rightarrow> ustr" where
  "rx_sub p f s = rx_subst p f [] s"

declare rx_scan.simps [simp del] rx_subst.simps [simp del]

text \<open>A reference for \<open>re.sub\<close> of a repeated class: every maximal run of the class
  replaced by \<open>r\<close>.\<close>

function collapse_runs :: "(nat \<Rightarrow> bool) \<Rightarrow> ustr \<Rightarrow> ustr \<Rightarrow> ustr" where
  "collapse_runs P r [] = []"
| "collapse_runs P r (c # cs) =
     (if P c then r @ collapse_runs P r (dropWhile P cs) else c # collapse_runs P r cs)"
  by pat_completeness auto
termination
  by (relation "measure (\<lambda>(P, r, s). length s)") (auto simp: le_imp_less_Suc length_dropWhile_le)

section \<open>Lemmas on the combinators\<close>

lemma take_length_takeWhile [simp]: "take (length (takeWhile P xs)) xs = takeWhile P xs"
  by (induction xs) auto

lemma drop_length_takeWhile [simp]: "drop (length (takeWhile P xs)) xs = dropWhile P xs"
  by (induction xs) auto

lemma rx_cls_Nil [simp]: "rx_cls P (ps, []) = []"
  by (simp add: rx_cls_def)

lemma rx_cls_Cons [simp]:
  "rx_cls P (ps, c # cs) = (if P c then [(c, (c # ps, cs))] else [])"
  by (simp add: rx_cls_def)

lemma rx_rep_plus_Nil [simp]: "rx_rep P (Suc 0) hi (ps, []) = []"
  by (simp add: rx_rep_def split: option.split)

lemma rx_rep_plus_stop [simp]: "\<not> P c \<Longrightarrow> rx_rep P (Suc 0) hi (ps, c # cs) = []"
  by (simp add: rx_rep_def split: option.split)

lemma rx_cls_mem:
  "(a, (ps', rs')) \<in> set (rx_cls P (ps, rs)) \<longleftrightarrow> rs = a # rs' \<and> P a \<and> ps' = a # ps"
  by (cases rs) auto

lemma rx_lit_mem:
  "(a, (ps', rs')) \<in> set (rx_lit w (ps, rs)) \<longleftrightarrow> a = w \<and> rs = w @ rs' \<and> ps' = rev w @ ps"
  by (auto simp: rx_lit_def) (metis append_take_drop_id)

lemma rx_alts_mem:
  "x \<in> set (rx_alts ps i) \<longleftrightarrow> (\<exists>p\<in>set ps. x \<in> set (p i))"
  by (induction ps) (auto simp: rx_alts_def rx_alt_def)

lemma rx_map_mem:
  "(b, j) \<in> set (rx_map f p i) \<longleftrightarrow> (\<exists>a. b = f a \<and> (a, j) \<in> set (p i))"
  by (auto simp: rx_map_def)

lemma rx_seq_mem:
  "((a, b), k) \<in> set (rx_seq p q i) \<longleftrightarrow> (\<exists>j. (a, j) \<in> set (p i) \<and> (b, k) \<in> set (q j))"
  by (force simp: rx_seq_def)

text \<open>Every value \<open>re.findall\<close> returns is the value of some match of the pattern.\<close>

lemma rx_scan_values:
  "x \<in> set (rx_scan p ps rs) \<Longrightarrow> \<exists>i j. (x, j) \<in> set (p i)"
proof (induction p ps rs rule: rx_scan.induct)
  case (1 p ps rs)
  show ?case
  proof (cases "p (ps, rs)")
    case Nil
    with "1.prems" show ?thesis
      using "1.IH"(1) [OF Nil] by (subst (asm) rx_scan.simps) (auto split: list.splits)
  next
    case (Cons m ms)
    obtain a ps' rs' where m: "m = (a, (ps', rs'))" by (cases m) auto
    with Cons have hd: "p (ps, rs) = (a, (ps', rs')) # ms" by simp
    show ?thesis
    proof (cases "x = a")
      case True
      with hd show ?thesis by (metis list.set_intros(1))
    next
      case False
      with "1.prems" hd "1.IH"(2) [OF hd refl refl] "1.IH"(3) [OF hd refl refl] show ?thesis
        by (subst (asm) rx_scan.simps) (auto split: if_splits list.splits)
    qed
  qed
qed

lemma rx_findall_values: "x \<in> set (rx_findall p s) \<Longrightarrow> \<exists>i j. (x, j) \<in> set (p i)"
  unfolding rx_findall_def by (rule rx_scan_values)

text \<open>An unbounded \<open>P+\<close> first takes the whole run.\<close>

lemma rx_rep_plus_run:
  assumes "P c"
  shows "\<exists>rest. rx_rep P (Suc 0) None (ps, c # cs) =
     (c # takeWhile P cs, (rev (c # takeWhile P cs) @ ps, dropWhile P cs)) # rest"
proof -
  let ?n = "length (takeWhile P cs)"
  have "rev [Suc 0..<Suc (Suc ?n)] = Suc ?n # rev [Suc 0..<Suc ?n]" by simp
  then show ?thesis using assms by (simp add: rx_rep_def)
qed

section \<open>Lemmas on substitution\<close>

text \<open>Deleting every character of a class (\<open>re.sub('[...]', '', s)\<close>) is a filter.\<close>

lemma rx_subst_cls_delete:
  "rx_subst (rx_cls P) (\<lambda>_. []) ps rs = filter (\<lambda>c. \<not> P c) rs"
proof (induction rs arbitrary: ps)
  case Nil
  show ?case by (subst rx_subst.simps) simp
next
  case (Cons c cs)
  show ?case by (subst rx_subst.simps) (simp add: Cons.IH)
qed

lemma rx_sub_cls_delete [simp]: "rx_sub (rx_cls P) (\<lambda>_. []) s = filter (\<lambda>c. \<not> P c) s"
  by (simp add: rx_sub_def rx_subst_cls_delete)

text \<open>Replacing each maximal run of a class (\<open>re.sub('[...]+', r, s)\<close>).\<close>

lemma rx_subst_collapse:
  "rx_subst (rx_rep P (Suc 0) None) (\<lambda>_. r) ps rs = collapse_runs P r rs"
proof (induction P r rs arbitrary: ps rule: collapse_runs.induct)
  case (1 P r)
  show ?case by (subst rx_subst.simps) (simp add: rx_rep_def)
next
  case (2 P r c cs)
  show ?case
  proof (cases "P c")
    case True
    then obtain rest where run: "rx_rep P (Suc 0) None (ps, c # cs) =
        (c # takeWhile P cs, (rev (c # takeWhile P cs) @ ps, dropWhile P cs)) # rest"
      using rx_rep_plus_run by blast
    have len: "length (dropWhile P cs) < length (c # cs)"
      by (simp add: le_imp_less_Suc length_dropWhile_le)
    show ?thesis
      using True len "2.IH"(1) by (subst rx_subst.simps) (simp add: run)
  next
    case False
    then show ?thesis
      using "2.IH"(2) by (subst rx_subst.simps) simp
  qed
qed

lemma rx_sub_collapse [simp]:
  "rx_sub (rx_rep P (Suc 0) None) (\<lambda>_. r) s = collapse_runs P r s"
  by (simp add: rx_sub_def rx_subst_collapse)

text \<open>A substitution whose replacement is the matched text itself changes nothing.\<close>

lemma rx_subst_ident:
  "(\<And>ps rs a ps' rs'. (a, (ps', rs')) \<in> set (p (ps, rs)) \<Longrightarrow> rs = f a @ rs') \<Longrightarrow>
   rx_subst p f ps rs = rs"
proof (induction p f ps rs rule: rx_subst.induct)
  case (1 p f ps rs)
  show ?case
  proof (cases "p (ps, rs)")
    case Nil
    then show ?thesis
      using "1.IH"(1) [OF Nil] "1.prems" by (subst rx_subst.simps) (simp split: list.split)
  next
    case (Cons m ms)
    obtain a ps' rs' where m: "m = (a, (ps', rs'))" by (cases m) auto
    with Cons have hd: "p (ps, rs) = (a, (ps', rs')) # ms" by simp
    have split: "rs = f a @ rs'" using "1.prems" [of a ps' rs' ps rs] hd by simp
    show ?thesis
    proof (cases "length rs' < length rs")
      case True
      then show ?thesis
        using "1.IH"(2) [OF hd refl refl] "1.prems" split hd by (subst rx_subst.simps) simp
    next
      case False
      with split have "f a = []" "rs' = rs" by auto
      then show ?thesis
        using "1.IH"(3) [OF hd refl refl] "1.prems" False hd
        by (subst rx_subst.simps) (simp split: list.split)
    qed
  qed
qed

end
