(* ===== verification/TextNorm.thy ===== *)
theory TextNorm
  imports PyRe
begin

text \<open>
  The text normalizers of \<open>src/utils/resume_utils.py\<close>: \<open>preprocess_text\<close> (the cleaning
  before embedding), \<open>normalize_skill\<close> and \<open>normalize_qualification\<close> (the canonical keys
  of the requirement matching).  Each \<open>re.sub\<close> of the source is an \<open>rx_sub\<close> of its pattern.
\<close>

section \<open>preprocess_text\<close>

text \<open>\<open>([a-zA-Z])\.([a-zA-Z])\<close>, replaced by \<open>\1.\2\<close>.\<close>

definition abbrev_dot_pat :: "(nat \<times> nat) rx" where
  "abbrev_dot_pat =
     rx_map (\<lambda>((a, _), b). (a, b)) (rx_seq (rx_seq (rx_cls is_ascii_alpha) (rx_lit [46])) (rx_cls is_ascii_alpha))"

definition abbrev_dot_repl :: "nat \<times> nat \<Rightarrow> ustr" where
  "abbrev_dot_repl = (\<lambda>(a, b). [a, 46, b])"

text \<open>The characters \<open>[^a-zA-Z0-9_\s]\<close> deletes are those outside \<open>keep_char\<close>.\<close>

definition keep_char :: "nat \<Rightarrow> bool" where
  "keep_char c \<longleftrightarrow> is_ascii_alpha c \<or> is_ascii_digit c \<or> c = 95 \<or> py_isspace c"

definition preprocess_text :: "ustr \<Rightarrow> ustr" where
  "preprocess_text text =
     (let text = rx_sub abbrev_dot_pat abbrev_dot_repl text;
          text = py_lower text;
          text = rx_sub (rx_cls (\<lambda>c. \<not> keep_char c)) (\<lambda>_. []) text
      in py_strip (rx_sub (rx_rep py_isspace 1 None) (\<lambda>_. [32]) text))"

section \<open>normalize_skill\<close>

definition skill_sep :: "nat \<Rightarrow> bool" where
  "skill_sep c \<longleftrightarrow> py_isspace c \<or> c = 46 \<or> c = 45"

definition skill_char :: "nat \<Rightarrow> bool" where
  "skill_char c \<longleftrightarrow> is_ascii_lower c \<or> is_ascii_digit c"

definition normalize_skill :: "ustr \<Rightarrow> ustr" where
  "normalize_skill skill =
     (let skill = py_lower skill;
          skill = rx_sub (rx_cls skill_sep) (\<lambda>_. []) skill;
          skill = (if py_endswith skill (u ''js'') then take (length skill - 2) skill else skill)
      in rx_sub (rx_cls (\<lambda>c. \<not> skill_char c)) (\<lambda>_. []) skill)"

section \<open>normalize_qualification\<close>

definition bachelor_terms :: "ustr list" where
  "bachelor_terms = map u [''bachelor'', ''bs'', ''b.sc'', ''bsc'', ''bachelors'']"

definition master_terms :: "ustr list" where
  "master_terms = map u [''master'', ''ms'', ''msc'', ''m.sc'', ''m.tech'', ''mtech'', ''masters'']"

definition phd_terms :: "ustr list" where
  "phd_terms = map u [''phd'', ''ph.d'', ''m.phil'']"

definition normalize_qualification :: "ustr \<Rightarrow> ustr" where
  "normalize_qualification q =
     (let q = py_lower q in
      if q \<in> set bachelor_terms then u ''bachelor''
      else if q \<in> set master_terms then u ''master''
      else if q \<in> set phd_terms then u ''phd''
      else if q = u ''mba'' then u ''mba''
      else if q = u ''bba'' then u ''bba''
      else q)"

lemmas qual_terms = bachelor_terms_def master_terms_def phd_terms_def

section \<open>Lemmas\<close>

lemma abbrev_dot_pat_match:
  "(x, (ps', rs')) \<in> set (abbrev_dot_pat (ps, rs)) \<Longrightarrow> rs = abbrev_dot_repl x @ rs'"
  by (auto simp: abbrev_dot_pat_def abbrev_dot_repl_def rx_map_def rx_seq_def rx_cls_mem rx_lit_mem)

lemma abbrev_dot_fixup_ident [simp]: "rx_sub abbrev_dot_pat abbrev_dot_repl t = t"
  unfolding rx_sub_def by (rule rx_subst_ident) (rule abbrev_dot_pat_match)

lemma keep_char_lower [simp]: "keep_char (py_lower_char c) \<longleftrightarrow> keep_char c"
  by (auto simp: keep_char_def pychar)

lemma set_collapse_runs: "set (collapse_runs P r s) \<subseteq> set r \<union> {c \<in> set s. \<not> P c}"
proof (induction P r s rule: collapse_runs.induct)
  case (2 P r c cs)
  have "set (dropWhile P cs) \<subseteq> set cs" by (rule set_dropWhileD [THEN subsetI])
  with 2 show ?case by auto
qed simp

lemma set_py_strip: "set (py_strip s) \<subseteq> set s"
  by (auto simp: py_strip_def dest!: set_dropWhileD)

lemma skill_sep_lower [simp]: "skill_sep (py_lower_char c) \<longleftrightarrow> skill_sep c"
  by (auto simp: skill_sep_def pychar)

lemma skill_char_lower [simp]: "skill_char c \<Longrightarrow> py_lower_char c = c"
  by (auto simp: skill_char_def pychar)

lemma skill_char_not_sep: "skill_char c \<Longrightarrow> \<not> skill_sep c"
  by (auto simp: skill_char_def skill_sep_def pychar)

lemma py_lower_skill_chars: "set t \<subseteq> Collect skill_char \<Longrightarrow> py_lower t = t"
  by (induction t) auto

lemma filter_skill_chars:
  "set t \<subseteq> Collect skill_char \<Longrightarrow> filter (\<lambda>c. \<not> skill_sep c) t = t"
  "set t \<subseteq> Collect skill_char \<Longrightarrow> filter skill_char t = t"
  by (auto simp: filter_id_conv skill_char_not_sep)

lemma set_take_subset_skill: "set t \<subseteq> A \<Longrightarrow> set (take n t) \<subseteq> A"
  using set_take_subset by fast

lemma normalize_skill_chars: "set (normalize_skill s) \<subseteq> Collect skill_char"
  by (auto simp: normalize_skill_def Let_def)

text \<open>On a canonical key, \<open>normalize_skill\<close> only drops a trailing \<open>js\<close> once more.\<close>

lemma normalize_skill_on_key:
  assumes "set t \<subseteq> Collect skill_char"
  shows "normalize_skill t = (if py_endswith t (u ''js'') then take (length t - 2) t else t)"
proof -
  have "set (take (length t - 2) t) \<subseteq> Collect skill_char"
    using assms by (rule set_take_subset_skill)
  then show ?thesis
    using assms by (simp add: normalize_skill_def Let_def py_lower_skill_chars filter_skill_chars)
qed

lemma py_lower_qual_result:
  "py_lower (normalize_qualification q) = normalize_qualification q"
  by (simp add: normalize_qualification_def Let_def pychar)

lemma preprocess_text_unfold:
  "preprocess_text t = py_strip (collapse_runs py_isspace [32] (filter keep_char (py_lower t)))"
  by (simp add: preprocess_text_def Let_def One_nat_def)

section \<open>Properties\<close>

text \<open>C21: \<open>preprocess_text\<close> is lower-casing, deleting every character outside
  \<open>[a-zA-Z0-9_\s]\<close>, collapsing each whitespace run to one space and stripping: the
  abbreviation fix-up \<open>re.sub(r'([a-zA-Z])\.([a-zA-Z])', r'\1.\2', text)\<close> replaces each
  match by itself and so changes nothing, and the period it was meant to keep is deleted by
  the next step (\<open>B.Tech\<close> becomes \<open>btech\<close>).\<close>

theorem preprocess_text_reference:
  "preprocess_text text = py_strip (collapse_runs py_isspace (u '' '') (filter keep_char (py_lower text)))
   \<and> preprocess_text (u ''B.Tech'') = u ''btech''"
proof
  show "preprocess_text text = py_strip (collapse_runs py_isspace (u '' '') (filter keep_char (py_lower text)))"
    by (simp add: preprocess_text_unfold)
  show "preprocess_text (u ''B.Tech'') = u ''btech''"
    by (simp add: preprocess_text_def keep_char_def pychar py_strip_def)
qed

text \<open>C29: the cleaned text consists of lower-case ASCII letters, digits, the
  underscore and single spaces only.\<close>

theorem preprocess_text_alphabet:
  "set (preprocess_text text) \<subseteq> {c. is_ascii_lower c \<or> is_ascii_digit c \<or> c = 95 \<or> c = 32}"
proof -
  let ?f = "filter keep_char (py_lower text)"
  have "set (preprocess_text text) \<subseteq> set (collapse_runs py_isspace [32] ?f)"
    by (simp only: preprocess_text_unfold set_py_strip)
  also have "\<dots> \<subseteq> set [32] \<union> {c \<in> set ?f. \<not> py_isspace c}"
    by (rule set_collapse_runs)
  also have "\<dots> \<subseteq> {c. is_ascii_lower c \<or> is_ascii_digit c \<or> c = 95 \<or> c = 32}"
    by (auto simp: keep_char_def py_lower_def is_ascii_alpha_def)
  finally show ?thesis .
qed

text \<open>C4: \<open>normalize_skill\<close> is idempotent exactly on the inputs whose key does
  not end in \<open>js\<close>: normalizing a key again strips a trailing \<open>js\<close> once more
  (\<open>Node.js)\<close> gives \<open>nodejs\<close>, which gives \<open>node\<close>), so the spec's idempotence property fails.\<close>

theorem normalize_skill_idempotent_iff:
  "normalize_skill (normalize_skill s) = normalize_skill s \<longleftrightarrow>
   \<not> py_endswith (normalize_skill s) (u ''js'')"
proof -
  let ?k = "normalize_skill s"
  have "normalize_skill ?k = (if py_endswith ?k (u ''js'') then take (length ?k - 2) ?k else ?k)"
    using normalize_skill_chars by (rule normalize_skill_on_key)
  moreover have "py_endswith ?k (u ''js'') \<Longrightarrow> take (length ?k - 2) ?k \<noteq> ?k"
  proof
    assume e: "py_endswith ?k (u ''js'')" and t: "take (length ?k - 2) ?k = ?k"
    from e have "2 \<le> length ?k" by (simp add: py_endswith_def)
    moreover from t have "length (take (length ?k - 2) ?k) = length ?k" by (rule arg_cong [where f = length])
    ultimately show False by simp
  qed
  ultimately show ?thesis by auto
qed

text \<open>The spec's example: \<open>ReactJS\<close> and \<open>react\<close> have the same key, and
  \<open>Node.js)\<close> is a key that changes when normalized again.\<close>

theorem normalize_skill_examples:
  "normalize_skill (u ''ReactJS'') = u ''react'' \<and> normalize_skill (u ''react'') = u ''react'' \<and>
   normalize_skill (u ''Node.js)'') = u ''nodejs'' \<and> normalize_skill (u ''nodejs'') = u ''node''"
  by (simp add: normalize_skill_def skill_sep_def skill_char_def pychar py_endswith_def)

text \<open>\<open>normalize_qualification\<close> is idempotent: every key it returns is
  returned unchanged by a second normalization.\<close>

theorem normalize_qualification_idempotent:
  "normalize_qualification (normalize_qualification q) = normalize_qualification q"
  by (simp add: normalize_qualification_def Let_def qual_terms pychar)

text \<open>The spec's example: \<open>B.Sc\<close> and \<open>bachelors\<close> both normalize to
  \<open>bachelor\<close>, and \<open>M.Tech\<close> to \<open>master\<close>; but \<open>B.Tech\<close>, which the extractor finds,
  is left as \<open>b.tech\<close> and never matches a \<open>bachelor\<close> requirement.\<close>

theorem normalize_qualification_examples:
  "normalize_qualification (u ''B.Sc'') = u ''bachelor'' \<and>
   normalize_qualification (u ''bachelors'') = u ''bachelor'' \<and>
   normalize_qualification (u ''M.Tech'') = u ''master'' \<and>
   normalize_qualification (u ''B.Tech'') = u ''b.tech''"
  by (simp add: normalize_qualification_def Let_def qual_terms pychar)

end
