(* ===== verification/Extract.thy ===== *)
theory Extract
  imports TextNorm
begin

text \<open>
  The signal extractors of \<open>src/utils/resume_utils.py\<close>: \<open>extract_qualifications\<close> (a
  whole-word vocabulary match), \<open>extract_experience\<close> (three duration patterns) and
  \<open>extract_skills_dynamic\<close> (spaCy's noun chunks and entities, filtered).  The spaCy
  pipeline is a collaborator: its results for a text are the parameter \<open>nlp\<close> and its
  stop-word test the parameter \<open>is_stop\<close>.  \<open>list(set(xs))\<close> is \<open>remdups xs\<close>: Python's set
  iteration order is unspecified and the model fixes the order of first occurrence; every
  consumer of these lists depends only on their elements (and, for the skills, their number).
\<close>

section \<open>extract_qualifications\<close>

text \<open>The alternatives of the pattern, in the source's order.\<close>

definition qual_vocab :: "ustr list" where
  "qual_vocab = map u [''bachelor'', ''bachelors'', ''bachelor's'', ''bs'', ''b.tech'', ''bsc'',
     ''master'', ''masters'', ''master's'', ''ms'', ''m.tech'', ''msc'', ''phd'', ''ph.d'', ''m.phil'',
     ''mba'', ''bba'', ''computer science'', ''engineering'', ''it'', ''software'', ''cs'']"

text \<open>\<open>\b(bachelor|...|cs)\b\<close>.\<close>

definition qual_pat :: "ustr rx" where
  "qual_pat = rx_before (rx_then rx_bound (rx_alts (map rx_lit qual_vocab))) rx_bound"

definition extract_qualifications :: "ustr \<Rightarrow> ustr list" where
  "extract_qualifications text = remdups (rx_findall qual_pat (py_lower text))"

section \<open>extract_experience\<close>

definition ws_pat :: "ustr rx" where
  "ws_pat = rx_rep py_isspace 0 None"

definition digits_pat :: "ustr rx" where
  "digits_pat = rx_rep is_ascii_digit 1 None"

text \<open>\<open>(?:to|-|\<dash>)\<close>; code point 8211 is the en dash.\<close>

definition range_sep_pat :: "ustr rx" where
  "range_sep_pat = rx_alts [rx_lit (u ''to''), rx_lit (u ''-''), rx_lit [8211]]"

text \<open>\<open>year\<close> or \<open>month\<close> followed by an optional \<open>s\<close> (\<open>years?\<close>).\<close>

definition unit_pat :: "ustr \<Rightarrow> ustr rx" where
  "unit_pat w = rx_cat (rx_lit w) (rx_rep (\<lambda>c. c = 115) 0 (Some 1))"

definition years_months_pat :: "ustr rx" where
  "years_months_pat = rx_alt (unit_pat (u ''year'')) (unit_pat (u ''month''))"

text \<open>\<open>fresh\s*(?:to|-|\<dash>)\s*\d+\s*(?:years?|months?)\<close>\<close>

definition fresh_pat :: "ustr rx" where
  "fresh_pat = rx_cat (rx_lit (u ''fresh'')) (rx_cat ws_pat (rx_cat range_sep_pat
     (rx_cat ws_pat (rx_cat digits_pat (rx_cat ws_pat years_months_pat)))))"

text \<open>\<open>\d+\s*(?:to|-|\<dash>)\s*\d+\s*(?:years?|months?)\<close>\<close>

definition range_pat :: "ustr rx" where
  "range_pat = rx_cat digits_pat (rx_cat ws_pat (rx_cat range_sep_pat
     (rx_cat ws_pat (rx_cat digits_pat (rx_cat ws_pat years_months_pat)))))"

text \<open>\<open>\d+\s*(?:years?|months?)\<close>\<close>

definition duration_pat :: "ustr rx" where
  "duration_pat = rx_cat digits_pat (rx_cat ws_pat years_months_pat)"

definition extract_experience :: "ustr \<Rightarrow> ustr list" where
  "extract_experience text =
     remdups (rx_findall fresh_pat (py_lower text) @ rx_findall range_pat (py_lower text) @
              rx_findall duration_pat (py_lower text))"

section \<open>extract_skills_dynamic\<close>

text \<open>What spaCy returns for a text: the noun chunks' texts and the entities with labels.\<close>

record nlp_doc =
  noun_chunks :: "ustr list"
  ents :: "(ustr \<times> ustr) list"

definition extract_skills_dynamic :: "(ustr \<Rightarrow> nlp_doc) \<Rightarrow> (ustr \<Rightarrow> bool) \<Rightarrow> ustr \<Rightarrow> ustr list" where
  "extract_skills_dynamic nlp is_stop text =
     (let doc = nlp text;
          skills = map (\<lambda>c. py_lower (py_strip c))
                     (filter (\<lambda>c. 1 < length c \<and> length c < 40) (noun_chunks doc)) @
                   map (\<lambda>(t, l). py_lower (py_strip t))
                     (filter (\<lambda>(t, l). l = u ''SKILL'' \<or> l = u ''LANGUAGE'') (ents doc));
          skills = filter (\<lambda>s. \<not> is_stop s \<and> 2 < length s) skills;
          qualifications = extract_qualifications text
      in remdups (filter (\<lambda>s. s \<notin> set qualifications) skills))"

lemmas exp_pats = fresh_pat_def range_pat_def duration_pat_def ws_pat_def digits_pat_def
  range_sep_pat_def unit_pat_def years_months_pat_def

section \<open>Lemmas\<close>

lemma qual_pat_values: "(x, j) \<in> set (qual_pat i) \<Longrightarrow> x \<in> set qual_vocab"
  by (auto simp: qual_pat_def rx_before_def rx_then_def rx_map_mem rx_seq_mem rx_alts_mem rx_lit_mem)

section \<open>Properties\<close>

text \<open>C27: every qualification extracted from a text is one of the pattern's
  vocabulary words, so the normalized qualification keys of a text are among
  \<open>bachelor, master, phd, mba, bba, b.tech, bachelor's, master's\<close> and the field words.\<close>

theorem extract_qualifications_vocab:
  "set (extract_qualifications text) \<subseteq> set qual_vocab \<and>
   set (map normalize_qualification (extract_qualifications text)) \<subseteq>
     set (map u [''bachelor'', ''master'', ''phd'', ''mba'', ''bba'', ''b.tech'', ''bachelor's'',
       ''master's'', ''computer science'', ''engineering'', ''it'', ''software'', ''cs''])"
proof -
  have voc: "set (extract_qualifications text) \<subseteq> set qual_vocab"
    by (auto simp: extract_qualifications_def dest!: rx_findall_values qual_pat_values)
  have "set (map normalize_qualification qual_vocab) \<subseteq>
     set (map u [''bachelor'', ''master'', ''phd'', ''mba'', ''bba'', ''b.tech'', ''bachelor's'',
       ''master's'', ''computer science'', ''engineering'', ''it'', ''software'', ''cs''])"
    by (simp add: qual_vocab_def normalize_qualification_def Let_def qual_terms pychar)
  with voc show ?thesis by auto
qed

text \<open>C26: the extracted skills are disjoint from the qualifications
  extracted from the same text, and each is longer than two characters and not a stop word.\<close>

theorem extract_skills_disjoint:
  "set (extract_skills_dynamic nlp is_stop text) \<inter> set (extract_qualifications text) = {} \<and>
   list_all (\<lambda>s. 2 < length s \<and> \<not> is_stop s) (extract_skills_dynamic nlp is_stop text)"
  by (auto simp: extract_skills_dynamic_def Let_def list_all_iff)

text \<open>Whole-word matching of the vocabulary finds qualifications that are not
  degrees and misses degrees written with periods: the pronoun \<open>it\<close> is the qualification
  \<open>it\<close>, \<open>MS Office\<close> yields a master's degree, and \<open>B.Sc\<close> yields nothing.\<close>

theorem extract_qualifications_examples:
  "extract_qualifications (u ''make it work'') = [u ''it''] \<and>
   map normalize_qualification (extract_qualifications (u ''MS Office'')) = [u ''master''] \<and>
   extract_qualifications (u ''B.Sc'') = []"
  by (simp add: extract_qualifications_def rx_findall_def rx_scan.simps qual_pat_def qual_vocab_def
      normalize_qualification_def qual_terms Let_def rx_defs pychar)

text \<open>Duration phrases: \<open>1-2 years\<close> yields the range and, inside it, the
  duration \<open>2 years\<close>; the common \<open>2+ years\<close> yields no phrase at all.\<close>

theorem extract_experience_examples:
  "extract_experience (u ''1-2 years'') = [u ''1-2 years'', u ''2 years''] \<and>
   extract_experience (u ''2+ years'') = []"
  by (simp add: extract_experience_def rx_findall_def rx_scan.simps exp_pats rx_defs pychar)

end
