(* ===== verification/ExpWindow.thy ===== *)
theory ExpWindow
  imports Extract
begin

text \<open>
  \<open>parse_required_experience\<close> of \<open>src/utils/resume_utils.py\<close>: each extracted phrase adds
  a minimum (and possibly a maximum) in months to the lists \<open>all_mins\<close> and \<open>all_maxs\<close>;
  the window is the least minimum and the greatest maximum, \<open>None\<close> for an empty list.
  The loop is a \<open>foldl\<close> of \<open>parse_step\<close> over the phrases, each branch of the \<open>if\<close> chain
  (with its \<open>continue\<close>) one branch of \<open>parse_step\<close>.
\<close>

section \<open>Patterns\<close>

text \<open>\<open>(?:-|to|\<dash>)\<close>, the separator in the order of these patterns.\<close>

definition dash_sep_pat :: "ustr rx" where
  "dash_sep_pat = rx_alts [rx_lit (u ''-''), rx_lit (u ''to''), rx_lit [8211]]"

text \<open>\<open>fresh\s*(?:to|-|\<dash>)\s*(\d+)\s*months?\<close>: the value is group 1.\<close>

definition fresh_max_pat :: "ustr rx" where
  "fresh_max_pat = rx_then (rx_lit (u ''fresh'')) (rx_then ws_pat (rx_then range_sep_pat
     (rx_then ws_pat (rx_before digits_pat (rx_then ws_pat (unit_pat (u ''month'')))))))"

text \<open>\<open>(\d+)\s*(?:-|to|\<dash>)\s*(\d+)\s*w\<close> for \<open>w\<close> one of \<open>months?\<close>, \<open>years?\<close>: groups 1 and 2.\<close>

definition range_groups_pat :: "ustr \<Rightarrow> (ustr \<times> ustr) rx" where
  "range_groups_pat w = rx_seq digits_pat (rx_then ws_pat (rx_then dash_sep_pat
     (rx_then ws_pat (rx_before digits_pat (rx_then ws_pat (unit_pat w))))))"

text \<open>\<open>(\d+)\s*w\<close>: group 1.\<close>

definition count_group_pat :: "ustr \<Rightarrow> ustr rx" where
  "count_group_pat w = rx_before digits_pat (rx_then ws_pat (unit_pat w))"

lemmas window_pats = dash_sep_pat_def fresh_max_pat_def range_groups_pat_def count_group_pat_def

section \<open>The loop\<close>

definition parse_step :: "nat list \<times> nat list \<Rightarrow> ustr \<Rightarrow> nat list \<times> nat list" where
  "parse_step acc exp0 =
     (let (all_mins, all_maxs) = acc; exp = py_lower exp0 in
      if py_in (u ''fresh'') exp then
        (all_mins @ [0],
         case rx_search fresh_max_pat exp of
           Some n \<Rightarrow> all_maxs @ [digits_value n]
         | None \<Rightarrow> all_maxs)
      else case rx_search (range_groups_pat (u ''month'')) exp of
        Some (a, b) \<Rightarrow> (all_mins @ [digits_value a], all_maxs @ [digits_value b])
      | None \<Rightarrow> (case rx_search (range_groups_pat (u ''year'')) exp of
        Some (a, b) \<Rightarrow> (all_mins @ [digits_value a * 12], all_maxs @ [digits_value b * 12])
      | None \<Rightarrow> (case rx_search (count_group_pat (u ''year'')) exp of
        Some a \<Rightarrow> (all_mins @ [digits_value a * 12], all_maxs @ [digits_value a * 12])
      | None \<Rightarrow> (case rx_search (count_group_pat (u ''month'')) exp of
        Some a \<Rightarrow> (all_mins @ [digits_value a], all_maxs @ [digits_value a])
      | None \<Rightarrow> (all_mins, all_maxs)))))"

definition parse_required_experience :: "ustr list \<Rightarrow> nat option \<times> nat option" where
  "parse_required_experience job_exps =
     (let (all_mins, all_maxs) = foldl parse_step ([], []) job_exps
      in (if all_mins = [] then None else Some (Min (set all_mins)),
          if all_maxs = [] then None else Some (Max (set all_maxs))))"

section \<open>Lemmas\<close>

text \<open>A phrase's contribution does not depend on what was collected before it.\<close>

lemma parse_step_append:
  "parse_step (mins, maxs) e = (mins @ fst (parse_step ([], []) e), maxs @ snd (parse_step ([], []) e))"
  by (simp add: parse_step_def Let_def split: option.split prod.split)

lemma foldl_parse_step:
  "foldl parse_step (mins, maxs) es =
     (mins @ concat (map (\<lambda>e. fst (parse_step ([], []) e)) es),
      maxs @ concat (map (\<lambda>e. snd (parse_step ([], []) e)) es))"
proof (induction es arbitrary: mins maxs)
  case (Cons e es)
  show ?case by (simp add: parse_step_append [of mins maxs e] Cons.IH)
qed simp

text \<open>Every phrase that contributes a maximum also contributes a minimum.\<close>

lemma parse_step_max_has_min:
  "snd (parse_step ([], []) e) \<noteq> [] \<Longrightarrow> fst (parse_step ([], []) e) \<noteq> []"
  by (auto simp: parse_step_def Let_def split: option.splits prod.splits if_splits)

lemma parse_required_experience_sets:
  "parse_required_experience es =
     (let mins = \<Union>e\<in>set es. set (fst (parse_step ([], []) e));
          maxs = \<Union>e\<in>set es. set (snd (parse_step ([], []) e))
      in (if mins = {} then None else Some (Min mins), if maxs = {} then None else Some (Max maxs)))"
  by (simp add: parse_required_experience_def foldl_parse_step Let_def)

lemmas window_eval = parse_required_experience_def parse_step_def window_pats exp_pats rx_search_def
  rx_defs pychar digits_value_def

section \<open>Properties\<close>

text \<open>The spec's examples: \<open>1-2 years\<close> gives the window 12 to 24 months,
  \<open>fresh to 6 months\<close> 0 to 6, and \<open>2 years\<close> with \<open>3-5 years\<close> 24 to 60.\<close>

theorem parse_required_experience_examples:
  "parse_required_experience [u ''1-2 years''] = (Some 12, Some 24) \<and>
   parse_required_experience [u ''fresh to 6 months''] = (Some 0, Some 6) \<and>
   parse_required_experience [u ''2 years'', u ''3-5 years''] = (Some 24, Some 60)"
  by (simp add: window_eval)

text \<open>C18: the window depends only on the set of phrases, not on their order or
  repetition, so the unspecified iteration order of \<open>list(set(matches))\<close> in
  \<open>extract_experience\<close> cannot change it.\<close>

theorem parse_required_experience_set_invariant:
  assumes "set xs = set ys"
  shows "parse_required_experience xs = parse_required_experience ys"
  using assms by (simp only: parse_required_experience_sets)

theorem parse_required_experience_set_invariant_witness:
  "set [u ''2 years'', u ''3-5 years''] = set [u ''3-5 years'', u ''2 years'', u ''2 years''] \<and>
   parse_required_experience [u ''2 years'', u ''3-5 years''] =
     parse_required_experience [u ''3-5 years'', u ''2 years'', u ''2 years'']"
proof -
  have h: "set [u ''2 years'', u ''3-5 years''] = set [u ''3-5 years'', u ''2 years'', u ''2 years'']"
    by auto
  show ?thesis using h parse_required_experience_set_invariant [OF h] by blast
qed

text \<open>C28: a maximum is never found without a minimum: when the minimum is
  unspecified, so is the maximum (every branch that records a maximum records a minimum).\<close>

theorem parse_required_experience_max_needs_min:
  assumes "fst (parse_required_experience es) = None"
  shows "snd (parse_required_experience es) = None"
proof -
  let ?mins = "\<Union>e\<in>set es. set (fst (parse_step ([], []) e))"
  let ?maxs = "\<Union>e\<in>set es. set (snd (parse_step ([], []) e))"
  have fst_eq: "fst (parse_required_experience es) = (if ?mins = {} then None else Some (Min ?mins))"
    by (simp only: parse_required_experience_sets Let_def fst_conv)
  have snd_eq: "snd (parse_required_experience es) = (if ?maxs = {} then None else Some (Max ?maxs))"
    by (simp only: parse_required_experience_sets Let_def snd_conv)
  from assms fst_eq have mins: "?mins = {}" by (simp split: if_splits)
  have "snd (parse_step ([], []) e) = []" if "e \<in> set es" for e
  proof (rule ccontr)
    assume "snd (parse_step ([], []) e) \<noteq> []"
    then have "fst (parse_step ([], []) e) \<noteq> []" by (rule parse_step_max_has_min)
    with that mins show False by (simp only: SUP_bot_conv set_empty) blast
  qed
  then have "?maxs = {}" by (simp only: SUP_bot_conv set_empty) blast
  with snd_eq show ?thesis by simp
qed

theorem parse_required_experience_max_needs_min_witness:
  "fst (parse_required_experience [u ''a senior role'']) = None \<and>
   snd (parse_required_experience [u ''a senior role'']) = None"
proof -
  have h: "fst (parse_required_experience [u ''a senior role'']) = None"
    by (simp add: window_eval)
  show ?thesis using h parse_required_experience_max_needs_min [OF h] by blast
qed

text \<open>A descending range is taken as written: \<open>5-3 years\<close> gives the
  minimum 60 above the maximum 36 (the spec requires the maximum to be at least the
  minimum; nothing checks it).\<close>

theorem parse_required_experience_inverted:
  "parse_required_experience [u ''5-3 years''] = (Some 60, Some 36)"
  by (simp add: window_eval)

end
