(* ===== verification/WorkHistory.thy ===== *)
theory WorkHistory
  imports Extract "HOL-Library.Product_Lexorder" "HOL-Library.While_Combinator"
begin

text \<open>
  The candidate side of the experience signal in \<open>src/utils/resume_utils.py\<close>:
  \<open>extract_work_experience_section\<close> (two \<open>re.search\<close>es under \<open>re.DOTALL | re.IGNORECASE\<close>),
  \<open>extract_work_periods\<close> (two \<open>re.findall\<close>es, then for each pair of dates
  \<open>date_parser.parse\<close>, the comparison, \<open>relativedelta\<close> and the \<open>[0, 600]\<close> filter),
  \<open>total_experience_in_months\<close> and \<open>format_months\<close>.

  \<open>dateutil\<close>'s parser and \<open>datetime.today()\<close> are collaborators: the parser is the
  parameter \<open>parse\<close> (\<open>None\<close> where it raises, which the \<open>except\<close> turns into a skipped
  pair) and the current instant the parameter \<open>today\<close>.  \<open>parse_month_year\<close> models what
  \<open>dateutil\<close> returns for the two shapes the patterns let through; it is used for the
  examples and for the theorem on whole-month counts.  A datetime is the tuple
  \<open>(year, month, day, second of the day)\<close>, ordered lexicographically as Python orders
  datetimes.  Under \<open>re.IGNORECASE\<close> the class \<open>[A-Z]\<close> is the ASCII letters (the four
  non-Latin-1 code points it also matches are outside the character model).
\<close>

section \<open>extract_work_experience_section\<close>

text \<open>\<open>(WORK EXPERIENCE|EXPERIENCE|EMPLOYMENT HISTORY)[:\s\n]*\<close>, the header and the
  separator the two searches share.\<close>

definition sec_header_pat :: "ustr rx" where
  "sec_header_pat = rx_then (rx_alts [rx_lit_ci (u ''WORK EXPERIENCE''), rx_lit_ci (u ''EXPERIENCE''),
     rx_lit_ci (u ''EMPLOYMENT HISTORY'')]) (rx_rep (\<lambda>c. c = 58 \<or> py_isspace c \<or> c = 10) 0 None)"

text \<open>\<open>(?:\n[A-Z][A-Z\s]+:|\Z)\<close>\<close>

definition sec_end_pat :: "unit rx" where
  "sec_end_pat = rx_alt
     (rx_map (\<lambda>_. ()) (rx_then (rx_lit [10]) (rx_then (rx_cls is_ascii_alpha)
        (rx_then (rx_rep (\<lambda>c. is_ascii_alpha c \<or> py_isspace c) 1 None) (rx_lit (u '':''))))))
     rx_eos"

text \<open>The first search, group 2 \<open>(.*?)\<close>; the second search, group 2 \<open>(.*)\<close>.\<close>

definition section_pat :: "ustr rx" where
  "section_pat = rx_then sec_header_pat (rx_before rx_lazy_any sec_end_pat)"

definition section_rest_pat :: "ustr rx" where
  "section_rest_pat = rx_then sec_header_pat (rx_rep (\<lambda>_. True) 0 None)"

definition extract_work_experience_section :: "ustr \<Rightarrow> ustr" where
  "extract_work_experience_section text =
     (case rx_search section_pat text of
        Some g \<Rightarrow> g
      | None \<Rightarrow> (case rx_search section_rest_pat text of Some g \<Rightarrow> g | None \<Rightarrow> []))"

section \<open>Dates\<close>

type_synonym dtime = "int \<times> nat \<times> nat \<times> nat"

definition is_leap :: "int \<Rightarrow> bool" where
  "is_leap y \<longleftrightarrow> 4 dvd y \<and> (\<not> 100 dvd y \<or> 400 dvd y)"

definition days_in_month :: "int \<Rightarrow> nat \<Rightarrow> nat" where
  "days_in_month y m =
     (if m = 2 then (if is_leap y then 29 else 28) else if m \<in> {4, 6, 9, 11} then 30 else 31)"

definition valid_dt :: "dtime \<Rightarrow> bool" where
  "valid_dt dt = (case dt of (y, m, d, s) \<Rightarrow>
     1 \<le> m \<and> m \<le> 12 \<and> 1 \<le> d \<and> d \<le> days_in_month y m \<and> s < 86400)"

text \<open>\<open>dt + relativedelta(months=k)\<close>: shift the month, clamp the day to the new month.\<close>

definition add_months :: "dtime \<Rightarrow> int \<Rightarrow> dtime" where
  "add_months dt k = (case dt of (y, m, d, s) \<Rightarrow>
     let i = y * 12 + (int m - 1) + k; y' = i div 12; m' = nat (i mod 12) + 1
     in (y', m', min d (days_in_month y' m'), s))"

text \<open>The month count of \<open>relativedelta(dt1, dt2)\<close> (\<open>years * 12 + months\<close>): the calendar
  month difference, then the loop that steps it back while \<open>dt2\<close> shifted by it overshoots
  \<open>dt1\<close> (forward when \<open>dt1 < dt2\<close>).  \<open>None\<close> would be a loop that does not end.\<close>

definition rd_months :: "dtime \<Rightarrow> dtime \<Rightarrow> int option" where
  "rd_months dt1 dt2 = (case (dt1, dt2) of ((y1, m1, _), (y2, m2, _)) \<Rightarrow>
     let k0 = (y1 - y2) * 12 + (int m1 - int m2) in
     if dt1 < dt2 then while_option (\<lambda>k. add_months dt2 k < dt1) (\<lambda>k. k + 1) k0
     else while_option (\<lambda>k. dt1 < add_months dt2 k) (\<lambda>k. k - 1) k0)"

section \<open>extract_work_periods\<close>

text \<open>\<open>[A-Za-z]{3,9} \d{4}\<close>, \<open>\d{2}[/\-]\d{4}\<close>, \<open>(?:\<dash>|-|to)\<close> and
  \<open>current|present\<close>, all under \<open>re.IGNORECASE\<close>.\<close>

definition month_year_pat :: "ustr rx" where
  "month_year_pat = rx_cat (rx_rep is_ascii_alpha 3 (Some 9)) (rx_cat (rx_lit [32]) (rx_rep is_ascii_digit 4 (Some 4)))"

definition mm_yyyy_pat :: "ustr rx" where
  "mm_yyyy_pat = rx_cat (rx_rep is_ascii_digit 2 (Some 2))
     (rx_cat (rx_map (\<lambda>c. [c]) (rx_cls (\<lambda>c. c = 47 \<or> c = 45))) (rx_rep is_ascii_digit 4 (Some 4)))"

definition period_sep_pat :: "ustr rx" where
  "period_sep_pat = rx_alts [rx_lit [8211], rx_lit (u ''-''), rx_lit_ci (u ''to'')]"

definition ongoing_pat :: "ustr rx" where
  "ongoing_pat = rx_alt (rx_lit_ci (u ''current'')) (rx_lit_ci (u ''present''))"

text \<open>\<open>(start)\s*(?:\<dash>|-|to)\s*(end|current|present)\<close>: the pair of groups.\<close>

definition period_pat :: "ustr rx \<Rightarrow> (ustr \<times> ustr) rx" where
  "period_pat d = rx_seq d (rx_then ws_pat (rx_then period_sep_pat (rx_then ws_pat (rx_alt d ongoing_pat))))"

text \<open>\<open>datetime.today() if end.lower() in ['current', 'present'] else date_parser.parse(end)\<close>\<close>

definition resolve_end :: "(ustr \<Rightarrow> dtime option) \<Rightarrow> dtime \<Rightarrow> ustr \<Rightarrow> dtime option" where
  "resolve_end parse today end =
     (if py_lower end \<in> {u ''current'', u ''present''} then Some today else parse end)"

text \<open>The body of the loop over the pairs: the months of one period, \<open>None\<close> where the
  source skips it (\<open>continue\<close>, a parse error caught by \<open>except\<close>, or a count outside
  \<open>[0, 600]\<close>).\<close>

definition period_months :: "(ustr \<Rightarrow> dtime option) \<Rightarrow> dtime \<Rightarrow> ustr \<times> ustr \<Rightarrow> nat option" where
  "period_months parse today pr = (case pr of (start, end) \<Rightarrow>
     (case parse start of
        None \<Rightarrow> None
      | Some start_date \<Rightarrow>
          (case resolve_end parse today end of
             None \<Rightarrow> None
           | Some end_date \<Rightarrow>
               if end_date < start_date then None
               else (case rd_months end_date start_date of
                       None \<Rightarrow> None
                     | Some total_months \<Rightarrow>
                         if 0 \<le> total_months \<and> total_months \<le> 600 then Some (nat total_months) else None))))"

definition extract_work_periods :: "(ustr \<Rightarrow> dtime option) \<Rightarrow> dtime \<Rightarrow> ustr \<Rightarrow> nat list" where
  "extract_work_periods parse today text =
     (let matches = rx_findall (period_pat month_year_pat) text @ rx_findall (period_pat mm_yyyy_pat) text
      in List.map_filter (period_months parse today) matches)"

definition total_experience_in_months :: "nat list \<Rightarrow> nat" where
  "total_experience_in_months periods = sum_list periods"

section \<open>The two date shapes as dateutil reads them\<close>

text \<open>dateutil's month names (matched without case), January first.\<close>

definition month_names :: "ustr list list" where
  "month_names = map (map u) [[''jan'', ''january''], [''feb'', ''february''], [''mar'', ''march''],
     [''apr'', ''april''], [''may''], [''jun'', ''june''], [''jul'', ''july''], [''aug'', ''august''],
     [''sep'', ''sept'', ''september''], [''oct'', ''october''], [''nov'', ''november''],
     [''dec'', ''december'']]"

definition month_of_name :: "ustr \<Rightarrow> nat option" where
  "month_of_name w = map_option fst (find (\<lambda>(i, ns). py_lower w \<in> set ns) (enumerate 1 month_names))"

text \<open>A field dateutil does not find is taken from its default, today at midnight, the day
  clamped to the length of the month; a month outside \<open>1..12\<close> or the year 0 raises.\<close>

definition parse_month_year :: "dtime \<Rightarrow> ustr \<Rightarrow> dtime option" where
  "parse_month_year today s =
     (let w = takeWhile is_ascii_alpha s; r = dropWhile is_ascii_alpha s;
          mo = (if w \<noteq> [] \<and> length r = 5 \<and> hd r = 32 \<and> list_all is_ascii_digit (tl r)
                then map_option (\<lambda>m. (m, digits_value (tl r))) (month_of_name w)
                else if length s = 7 \<and> list_all is_ascii_digit (take 2 s) \<and> s ! 2 \<in> {47, 45} \<and>
                        list_all is_ascii_digit (drop 3 s)
                then Some (digits_value (take 2 s), digits_value (drop 3 s)) else None)
      in case mo of
           None \<Rightarrow> None
         | Some (m, y) \<Rightarrow>
             if 1 \<le> m \<and> m \<le> 12 \<and> 1 \<le> y
             then Some (int y, m, min (fst (snd (snd today))) (days_in_month (int y) m), 0) else None)"

section \<open>format_months\<close>

text \<open>\<open>str(n)\<close> of a natural number.\<close>

function nat_str :: "nat \<Rightarrow> ustr" where
  "nat_str n = (if n < 10 then [48 + n] else nat_str (n div 10) @ [48 + n mod 10])"
  by auto
termination
  by (relation "measure id") auto

declare nat_str.simps [simp del]

definition format_months :: "nat \<Rightarrow> ustr" where
  "format_months months =
     (let years = months div 12; rem_months = months mod 12 in
      if years > 0 then
        py_strip (nat_str years @ u '' year'' @ (if years > 1 then u ''s'' else []) @ [32] @
                  nat_str rem_months @ u '' month'' @ (if rem_months \<noteq> 1 then u ''s'' else []))
      else nat_str rem_months @ u '' month'' @ (if rem_months \<noteq> 1 then u ''s'' else []))"

text \<open>Reading the months back from \<open>format_months\<close>'s text: the leading number, and when
  a year clause follows it, the number after the next space.\<close>

definition months_of_format :: "ustr \<Rightarrow> nat" where
  "months_of_format s =
     (let a = takeWhile is_ascii_digit s; r = dropWhile is_ascii_digit s in
      if take 5 r = u '' year''
      then 12 * digits_value a +
             digits_value (takeWhile is_ascii_digit (drop 1 (dropWhile (\<lambda>c. c \<noteq> 32) (drop 5 r))))
      else digits_value a)"

section \<open>Lemmas\<close>

subsection \<open>relativedelta\<close>

lemma div_mod_12:
  fixes y r :: int
  assumes "0 \<le> r" "r < 12"
  shows "(y * 12 + r) div 12 = y" "(y * 12 + r) mod 12 = r"
proof -
  have "r div 12 = 0" "r mod 12 = r" using assms by simp_all
  then show "(y * 12 + r) div 12 = y" "(y * 12 + r) mod 12 = r" by simp_all
qed

lemma add_months_index:
  "add_months (y2, m2, d2, s2) ((y1 - y2) * 12 + (int m1 - int m2) - j) =
     (let i = y1 * 12 + (int m1 - 1 - j); y' = i div 12; m' = nat (i mod 12) + 1
      in (y', m', min d2 (days_in_month y' m'), s2))"
proof -
  have "y2 * 12 + (int m2 - 1) + ((y1 - y2) * 12 + (int m1 - int m2) - j) = y1 * 12 + (int m1 - 1 - j)"
    by (simp add: algebra_simps)
  then show ?thesis by (simp only: add_months_def prod.case)
qed

lemma add_months_same_month:
  assumes "1 \<le> m1" "m1 \<le> 12"
  shows "add_months (y2, m2, d2, s2) ((y1 - y2) * 12 + (int m1 - int m2)) = (y1, m1, min d2 (days_in_month y1 m1), s2)"
proof -
  have r: "0 \<le> int m1 - 1 - 0" "int m1 - 1 - 0 < 12" using assms by simp_all
  have "nat (int m1 - 1 - 0) + 1 = m1" using assms by simp
  then show ?thesis using add_months_index [of y2 m2 d2 s2 y1 m1 0] div_mod_12 [OF r, of y1] by (simp add: Let_def)
qed

lemma add_months_prev_month:
  assumes "1 \<le> m1" "m1 \<le> 12"
  shows "add_months (y2, m2, d2, s2) ((y1 - y2) * 12 + (int m1 - int m2) - 1) < (y1, m1, d1, s1)"
proof (cases "m1 = 1")
  case True
  have "(y1 * 12 + (int m1 - 1 - 1)) div 12 = y1 - 1" using True by simp
  then show ?thesis using add_months_index [of y2 m2 d2 s2 y1 m1 1] by (simp add: Let_def)
next
  case False
  then have r: "0 \<le> int m1 - 1 - 1" "int m1 - 1 - 1 < 12" using assms by simp_all
  have "nat (int m1 - 1 - 1) + 1 < m1" using False assms by simp
  then show ?thesis using add_months_index [of y2 m2 d2 s2 y1 m1 1] div_mod_12 [OF r, of y1] by (simp add: Let_def)
qed

lemma rd_months_closed:
  assumes "1 \<le> m1" "m1 \<le> 12" "(y2, m2, d2, s2) \<le> (y1, m1, d1, s1)"
  shows "rd_months (y1, m1, d1, s1) (y2, m2, d2, s2) =
    Some (let k0 = (y1 - y2) * 12 + (int m1 - int m2) in
          if (y1, m1, d1, s1) < add_months (y2, m2, d2, s2) k0 then k0 - 1 else k0)"
proof -
  let ?k0 = "(y1 - y2) * 12 + (int m1 - int m2)"
  let ?b = "\<lambda>k. (y1, m1, d1, s1) < add_months (y2, m2, d2, s2) k"
  have ne: "\<not> (y1, m1, d1, s1) < (y2, m2, d2, s2)" using assms(3) by (simp only: not_less)
  have rd: "rd_months (y1, m1, d1, s1) (y2, m2, d2, s2) = while_option ?b (\<lambda>k. k - 1) ?k0"
    by (simp only: rd_months_def prod.case Let_def ne if_False)
  have nb: "\<not> ?b (?k0 - 1)"
    using add_months_prev_month [OF assms(1,2)] by (simp only: not_less order.strict_implies_order)
  have last: "while_option ?b (\<lambda>k. k - 1) (?k0 - 1) = Some (?k0 - 1)"
    by (subst while_option_unfold) (simp only: nb if_False)
  have "while_option ?b (\<lambda>k. k - 1) ?k0 = (if ?b ?k0 then Some (?k0 - 1) else Some ?k0)"
    by (subst while_option_unfold) (simp only: last)
  then show ?thesis by (simp only: rd Let_def if_distrib [of Some])
qed

lemma rd_months_calendar:
  assumes "1 \<le> m1" "m1 \<le> 12" "(y2, m2, d2, s2) \<le> (y1, m1, d1, s1)"
    and "\<not> (d1, s1) < (min d2 (days_in_month y1 m1), s2)"
  shows "rd_months (y1, m1, d1, s1) (y2, m2, d2, s2) = Some ((y1 - y2) * 12 + (int m1 - int m2))"
proof -
  have am: "add_months (y2, m2, d2, s2) ((y1 - y2) * 12 + (int m1 - int m2)) =
      (y1, m1, min d2 (days_in_month y1 m1), s2)"
    by (rule add_months_same_month [OF assms(1,2)])
  have "\<not> (y1, m1, d1, s1) < (y1, m1, min d2 (days_in_month y1 m1), s2)"
    using assms(4) by (simp add: less_prod_def)
  then have "\<not> (y1, m1, d1, s1) < add_months (y2, m2, d2, s2) ((y1 - y2) * 12 + (int m1 - int m2))"
    unfolding am .
  then show ?thesis by (simp only: rd_months_closed [OF assms(1-3)] Let_def if_False)
qed

subsection \<open>The parsed dates\<close>

lemma parse_month_year_shape:
  assumes "parse_month_year today s = Some dt"
  shows "\<exists>y m. dt = (y, m, min (fst (snd (snd today))) (days_in_month y m), 0) \<and> 1 \<le> m \<and> m \<le> 12"
  using assms by (auto simp: parse_month_year_def Let_def split: option.splits if_splits)

subsection \<open>The loop over the periods\<close>

lemma period_months_le_600: "period_months parse today pr = Some n \<Longrightarrow> n \<le> 600"
  by (auto simp: period_months_def split: prod.splits option.splits if_splits)

lemma map_filter_bounded:
  assumes "\<And>x n. f x = Some n \<Longrightarrow> n \<le> (b :: nat)"
  shows "list_all (\<lambda>n. n \<le> b) (List.map_filter f xs) \<and> sum_list (List.map_filter f xs) \<le> b * length xs"
  by (induction xs) (auto split: option.split dest: assms)

subsection \<open>The two section searches\<close>

lemma rx_search_at_None_mono:
  "(\<And>i. q i \<noteq> [] \<Longrightarrow> p i \<noteq> []) \<Longrightarrow> rx_search_at p ps rs = None \<Longrightarrow> rx_search_at q ps rs = None"
  by (induction rs arbitrary: ps) (auto split: list.splits)

lemma rx_then_nonempty: "rx_then p q i \<noteq> [] \<longleftrightarrow> (\<exists>(a, j)\<in>set (p i). q j \<noteq> [])"
  by (force simp: rx_then_def rx_map_def rx_seq_def)

lemma rx_before_nonempty: "rx_before p q i \<noteq> [] \<longleftrightarrow> (\<exists>(a, j)\<in>set (p i). q j \<noteq> [])"
  by (force simp: rx_before_def rx_map_def rx_seq_def)

lemma section_body_nonempty: "rx_before rx_lazy_any sec_end_pat j \<noteq> []"
proof -
  obtain ps rs where j: "j = (ps, rs)" by fastforce
  have "(rs, (rev rs @ ps, [])) \<in> set (rx_lazy_any (ps, rs))"
    by (force simp: rx_lazy_any_def)
  moreover have "sec_end_pat (rev rs @ ps, []) \<noteq> []"
    by (simp add: sec_end_pat_def rx_alt_def rx_eos_def)
  ultimately show ?thesis unfolding j rx_before_nonempty by blast
qed

lemma section_rest_implies_section: "section_rest_pat i \<noteq> [] \<Longrightarrow> section_pat i \<noteq> []"
  unfolding section_rest_pat_def section_pat_def rx_then_nonempty
  using section_body_nonempty by fastforce

subsection \<open>format_months\<close>

lemma nat_str_digits: "list_all is_ascii_digit (nat_str n) \<and> nat_str n \<noteq> []"
proof (induction n rule: nat_str.induct)
  case (1 n)
  then show ?case by (cases "n < 10") (simp_all add: nat_str.simps [of n] is_ascii_digit_def)
qed

lemma digits_value_nat_str [simp]: "digits_value (nat_str n) = n"
proof (induction n rule: nat_str.induct)
  case (1 n)
  then show ?case by (cases "n < 10") (simp_all add: nat_str.simps [of n] digits_value_append digits_value_def)
qed

lemma takeWhile_digits_append:
  "takeWhile is_ascii_digit (nat_str n @ c # s) = (if is_ascii_digit c then nat_str n @ takeWhile is_ascii_digit (c # s) else nat_str n)"
  "dropWhile is_ascii_digit (nat_str n @ c # s) = dropWhile is_ascii_digit (c # s)"
  using nat_str_digits [of n] by (simp_all add: takeWhile_append2 dropWhile_append2 list_all_iff)

lemma py_strip_id:
  assumes "s \<noteq> []" "\<not> py_isspace (hd s)" "\<not> py_isspace (last s)"
  shows "py_strip s = s"
proof -
  have "dropWhile py_isspace s = s" using assms(1,2) by (cases s) simp_all
  moreover have "dropWhile py_isspace (rev s) = rev s" using assms(1,3) by (cases "rev s") (simp_all add: last_rev [symmetric])
  ultimately show ?thesis by (simp add: py_strip_def)
qed

lemma nat_str_hd_not_space: "\<not> py_isspace (hd (nat_str n @ xs))"
proof -
  obtain c cs where "nat_str n = c # cs" "is_ascii_digit c"
    using nat_str_digits [of n] by (cases "nat_str n") auto
  then show ?thesis by (simp add: pychar)
qed

lemma format_months_years:
  assumes "0 < n div 12"
  shows "format_months n =
     nat_str (n div 12) @ u '' year'' @ (if n div 12 > 1 then u ''s'' else []) @ [32] @
     nat_str (n mod 12) @ u '' month'' @ (if n mod 12 \<noteq> 1 then u ''s'' else [])"
    (is "_ = ?s")
proof -
  have "py_strip ?s = ?s"
  proof (rule py_strip_id)
    show "?s \<noteq> []" by simp
    show "\<not> py_isspace (hd ?s)" by (rule nat_str_hd_not_space)
    show "\<not> py_isspace (last ?s)" by (simp add: pychar)
  qed
  with assms show ?thesis by (simp only: format_months_def Let_def if_True)
qed

lemmas work_eval = extract_work_periods_def period_pat_def month_year_pat_def mm_yyyy_pat_def
  period_sep_pat_def ongoing_pat_def ws_pat_def rx_findall_def rx_scan.simps rx_defs pychar
  period_months_def resolve_end_def parse_month_year_def month_of_name_def month_names_def
  days_in_month_def is_leap_def rd_months_def while_option_unfold add_months_def digits_value_def
  total_experience_in_months_def

lemmas section_eval = extract_work_experience_section_def section_pat_def section_rest_pat_def
  sec_header_pat_def sec_end_pat_def rx_search_def rx_defs pychar

section \<open>Properties\<close>

text \<open>The spec's example: \<open>Jan 2020 - Dec 2021\<close> inside an \<open>EXPERIENCE\<close>
  section gives 23 months, and a period whose end precedes its start contributes nothing
  (dates read as dateutil reads them, on 9 November 2026).\<close>

theorem work_history_spec_example:
  "total_experience_in_months (extract_work_periods (parse_month_year (2026, 11, 9, 36000)) (2026, 11, 9, 36000)
     (extract_work_experience_section (u ''EXPERIENCE'' @ [10] @ u ''Jan 2020 - Dec 2021''))) = 23 \<and>
   total_experience_in_months (extract_work_periods (parse_month_year (2026, 11, 9, 36000)) (2026, 11, 9, 36000)
     (extract_work_experience_section (u ''EXPERIENCE'' @ [10] @ u ''Dec 2021 - Jan 2020''))) = 0"
proof -
  have "extract_work_experience_section (u ''EXPERIENCE'' @ [10] @ u ''Jan 2020 - Dec 2021'') = u ''Jan 2020 - Dec 2021''"
    by (simp add: section_eval)
  moreover have "extract_work_experience_section (u ''EXPERIENCE'' @ [10] @ u ''Dec 2021 - Jan 2020'') = u ''Dec 2021 - Jan 2020''"
    by (simp add: section_eval)
  moreover have "total_experience_in_months (extract_work_periods (parse_month_year (2026, 11, 9, 36000))
      (2026, 11, 9, 36000) (u ''Jan 2020 - Dec 2021'')) = 23"
    by (simp add: work_eval)
  moreover have "total_experience_in_months (extract_work_periods (parse_month_year (2026, 11, 9, 36000))
      (2026, 11, 9, 36000) (u ''Dec 2021 - Jan 2020'')) = 0"
    by (simp add: work_eval)
  ultimately show ?thesis by (simp only:)
qed

text \<open>Under \<open>re.IGNORECASE\<close> the section ends at the first line that starts
  with letters and spaces followed by a colon, not only at an all-caps header: a \<open>Role: dev\<close>
  line inside the experience section drops every period after it.\<close>

theorem section_stops_at_label_line:
  "extract_work_experience_section (u ''EXPERIENCE'' @ [10] @ u ''Jan 2020 - Dec 2021'' @ [10] @
      u ''Role: dev'' @ [10] @ u ''Mar 2022 - Present'') = u ''Jan 2020 - Dec 2021''"
  by (simp add: section_eval)

text \<open>C24: the second search of \<open>extract_work_experience_section\<close> never
  changes the result: whenever a header is present the first search succeeds (its \<open>\Z\<close>
  alternative lets the lazy group run to the end of the text), so the section is the first
  search's group or empty.\<close>

theorem extract_work_experience_section_fallback_dead:
  "extract_work_experience_section text = (case rx_search section_pat text of Some g \<Rightarrow> g | None \<Rightarrow> [])"
proof (cases "rx_search section_pat text")
  case None
  have "\<And>i. section_rest_pat i \<noteq> [] \<Longrightarrow> section_pat i \<noteq> []"
    by (rule section_rest_implies_section)
  from rx_search_at_None_mono [OF this] None have "rx_search section_rest_pat text = None"
    by (simp only: rx_search_def)
  with None show ?thesis by (simp add: extract_work_experience_section_def)
qed (simp add: extract_work_experience_section_def)

text \<open>C23: every kept period lies in \<open>[0, 600]\<close> months, whatever the date
  parser and the current date, so the total is at most 600 times the number of date ranges
  the patterns find.\<close>

theorem extract_work_periods_bounded:
  "list_all (\<lambda>n. n \<le> 600) (extract_work_periods parse today text) \<and>
   total_experience_in_months (extract_work_periods parse today text) \<le>
     600 * length (rx_findall (period_pat month_year_pat) text @ rx_findall (period_pat mm_yyyy_pat) text)"
proof -
  have "\<And>x n. period_months parse today x = Some n \<Longrightarrow> n \<le> 600"
    by (rule period_months_le_600)
  from map_filter_bounded [OF this] show ?thesis
    by (simp only: extract_work_periods_def total_experience_in_months_def Let_def)
qed

text \<open>C22: the month loop of \<open>relativedelta\<close> ends on every pair of valid dates in
  order (at most one step back from the calendar month difference), with a count that is not
  negative.\<close>

theorem rd_months_terminates:
  assumes "valid_dt (y1, m1, d1, s1)" "valid_dt (y2, m2, d2, s2)" "(y2, m2, d2, s2) \<le> (y1, m1, d1, s1)"
  shows "\<exists>k. rd_months (y1, m1, d1, s1) (y2, m2, d2, s2) = Some k \<and> 0 \<le> k \<and>
    (y1 - y2) * 12 + (int m1 - int m2) - 1 \<le> k \<and> k \<le> (y1 - y2) * 12 + (int m1 - int m2)"
proof -
  let ?k0 = "(y1 - y2) * 12 + (int m1 - int m2)"
  have m: "1 \<le> m1" "m1 \<le> 12" "1 \<le> m2" "m2 \<le> 12" using assms(1,2) by (simp_all add: valid_dt_def)
  have ym: "y2 < y1 \<or> (y2 = y1 \<and> m2 < m1) \<or> (y2 = y1 \<and> m2 = m1 \<and> (d2, s2) \<le> (d1, s1))"
    using assms(3) by (auto simp: less_eq_prod_def)
  have k: "rd_months (y1, m1, d1, s1) (y2, m2, d2, s2) =
      Some (if (y1, m1, d1, s1) < add_months (y2, m2, d2, s2) ?k0 then ?k0 - 1 else ?k0)"
    using rd_months_closed [OF m(1,2) assms(3)] by (simp only: Let_def)
  show ?thesis
  proof (cases "y2 = y1 \<and> m2 = m1")
    case True
    with ym have "\<not> (d1, s1) < (min d2 (days_in_month y1 m1), s2)"
      by (auto simp: less_prod_def less_eq_prod_def)
    with True show ?thesis using rd_months_calendar [OF m(1,2) assms(3)] by simp
  next
    case False
    with ym m have "1 \<le> ?k0" by auto
    with k show ?thesis by auto
  qed
qed

theorem rd_months_terminates_witness:
  "valid_dt (2021, 3, 1, 0) \<and> valid_dt (2021, 1, 31, 0) \<and> ((2021::int), (1::nat), (31::nat), (0::nat)) \<le> (2021, 3, 1, 0) \<and>
   (\<exists>k. rd_months (2021, 3, 1, 0) (2021, 1, 31, 0) = Some k \<and> 0 \<le> k \<and>
     (2021 - 2021) * 12 + (int 3 - int 1) - 1 \<le> k \<and> k \<le> (2021 - 2021) * 12 + (int 3 - int 1))"
proof -
  have h: "valid_dt (2021, 3, 1, 0)" "valid_dt (2021, 1, 31, 0)" "((2021::int), (1::nat), (31::nat), (0::nat)) \<le> (2021, 3, 1, 0)"
    by (simp_all add: valid_dt_def days_in_month_def)
  show ?thesis using h rd_months_terminates [OF h] by blast
qed

text \<open>C14: for dates in the two shapes the patterns accept, read as dateutil
  reads them, a period counts the calendar month difference, ignoring the day of the month as
  the spec says, whichever day of the month the service runs on (dateutil fills the missing
  day from the current date and clamps it to the month's length).\<close>

theorem period_months_calendar:
  assumes "valid_dt today" "parse_month_year today start = Some (ys, ms, ds, ss)"
    and "resolve_end (parse_month_year today) today end = Some (ye, me, de, se)"
    and "(ys, ms, ds, ss) \<le> (ye, me, de, se)"
  shows "period_months (parse_month_year today) today (start, end) =
    (let n = (ye - ys) * 12 + (int me - int ms) in if n \<le> 600 then Some (nat n) else None)"
proof -
  obtain yt mt dt st where t: "today = (yt, mt, dt, st)" by (cases today) auto
  from parse_month_year_shape [OF assms(2)] t
  have sd: "ds = min dt (days_in_month ys ms)" "ss = 0" "1 \<le> ms" "ms \<le> 12" by auto
  have ed: "1 \<le> me \<and> me \<le> 12 \<and> \<not> (de, se) < (min ds (days_in_month ye me), ss)"
  proof (cases "py_lower end \<in> {u ''current'', u ''present''}")
    case True
    then have "today = (ye, me, de, se)" using assms(3) by (simp add: resolve_end_def)
    then show ?thesis using assms(1) sd t by (auto simp: valid_dt_def less_prod_def)
  next
    case False
    then have "parse_month_year today end = Some (ye, me, de, se)" using assms(3) by (simp add: resolve_end_def)
    from parse_month_year_shape [OF this] show ?thesis using sd t by (auto simp: less_prod_def)
  qed
  then have rd: "rd_months (ye, me, de, se) (ys, ms, ds, ss) = Some ((ye - ys) * 12 + (int me - int ms))"
    using rd_months_calendar [OF _ _ assms(4)] by blast
  have nonneg: "0 \<le> (ye - ys) * 12 + (int me - int ms)"
    using assms(4) sd(3,4) ed by (auto simp: less_eq_prod_def)
  have nlt: "\<not> (ye, me, de, se) < (ys, ms, ds, ss)" using assms(4) by (simp only: not_less)
  have "period_months (parse_month_year today) today (start, end) =
      (if 0 \<le> (ye - ys) * 12 + (int me - int ms) \<and> (ye - ys) * 12 + (int me - int ms) \<le> 600
       then Some (nat ((ye - ys) * 12 + (int me - int ms))) else None)"
    by (simp only: period_months_def prod.case assms(2,3) option.case nlt if_False rd)
  with nonneg show ?thesis by (simp only: Let_def simp_thms)
qed

theorem period_months_calendar_witness:
  "valid_dt (2026, 11, 9, 36000) \<and>
   parse_month_year (2026, 11, 9, 36000) (u ''Jan 2020'') = Some (2020, 1, 9, 0) \<and>
   resolve_end (parse_month_year (2026, 11, 9, 36000)) (2026, 11, 9, 36000) (u ''Dec 2021'') = Some (2021, 12, 9, 0) \<and>
   ((2020::int), (1::nat), (9::nat), (0::nat)) \<le> (2021, 12, 9, 0) \<and>
   period_months (parse_month_year (2026, 11, 9, 36000)) (2026, 11, 9, 36000) (u ''Jan 2020'', u ''Dec 2021'') =
     (let n = (2021 - 2020) * 12 + (int 12 - int 1) in if n \<le> 600 then Some (nat n) else None)"
proof -
  have h: "valid_dt (2026, 11, 9, 36000)"
    "parse_month_year (2026, 11, 9, 36000) (u ''Jan 2020'') = Some (2020, 1, 9, 0)"
    "resolve_end (parse_month_year (2026, 11, 9, 36000)) (2026, 11, 9, 36000) (u ''Dec 2021'') = Some (2021, 12, 9, 0)"
    "((2020::int), (1::nat), (9::nat), (0::nat)) \<le> (2021, 12, 9, 0)"
    by (simp_all add: valid_dt_def work_eval)
  show ?thesis using h period_months_calendar [OF h] by blast
qed

text \<open>C25: \<open>format_months\<close> loses nothing: the number of months is read back from its
  text (so two different totals are never displayed alike).\<close>

theorem format_months_roundtrip: "months_of_format (format_months n) = n"
proof (cases "0 < n div 12")
  case True
  then show ?thesis
    by (simp add: format_months_years months_of_format_def Let_def takeWhile_digits_append pychar)
next
  case False
  then have "n < 12" by simp
  then show ?thesis
    by (simp add: format_months_def months_of_format_def Let_def takeWhile_digits_append pychar)
qed

text \<open>The display format of the spec: the years clause is omitted below a
  year, and each unit is singular exactly for 1.\<close>

theorem format_months_examples:
  "format_months 13 = u ''1 year 1 month'' \<and> format_months 24 = u ''2 years 0 months'' \<and>
   format_months 23 = u ''1 year 11 months'' \<and> format_months 5 = u ''5 months'' \<and>
   format_months 1 = u ''1 month'' \<and> format_months 0 = u ''0 months''"
  by (simp add: format_months_def nat_str.simps py_strip_def pychar)


end
