(* ===== verification/Scorer.thy ===== *)
theory Scorer
  imports Prelude
begin

text \<open>
  The per-candidate scoring of \<open>rank_resumes\<close> in \<open>src/app.py\<close> (the body of the loop over
  the resumes): the experience verdict against the job's window, the matched skill and
  qualification sets, the skill F1 score and the 0.3 penalty.  Python floats are modelled as
  exact reals: the model has no rounding error, so \<open>0.3\<close> is \<open>3/10\<close>.
\<close>

section \<open>Experience verdict\<close>

datatype exp_match = Experience_matched | Experience_not_matched | No_requirement

definition exp_match_statement :: "exp_match \<Rightarrow> ustr" where
  "exp_match_statement m = (case m of
      Experience_matched \<Rightarrow> u ''Experience matched''
    | Experience_not_matched \<Rightarrow> u ''Experience not matched''
    | No_requirement \<Rightarrow> u ''No experience requirement specified'')"

text \<open>The verdict and the flag \<open>experience_matched\<close>.\<close>

definition experience_match :: "nat option \<Rightarrow> nat option \<Rightarrow> nat \<Rightarrow> exp_match \<times> bool" where
  "experience_match job_min_exp job_max_exp total_months =
     (case job_min_exp of
        Some mn \<Rightarrow>
          if mn \<le> total_months \<and> (case job_max_exp of None \<Rightarrow> True | Some mx \<Rightarrow> total_months \<le> mx)
          then (Experience_matched, True) else (Experience_not_matched, False)
      | None \<Rightarrow> (No_requirement, True))"

section \<open>Skill F1 and penalty\<close>

text \<open>\<open>job_skills\<close> and \<open>resume_skills\<close> are the lists of normalized skills; a list may hold a
  key twice when two raw phrases normalize to it, and \<open>len\<close> counts both.\<close>

definition skill_f1 :: "ustr list \<Rightarrow> ustr list \<Rightarrow> real" where
  "skill_f1 job_skills resume_skills =
     (let matched_skills = set job_skills \<inter> set resume_skills in
      if job_skills \<noteq> [] \<and> resume_skills \<noteq> [] then
        (let precision = real (card matched_skills) / real (length resume_skills);
             recall = real (card matched_skills) / real (length job_skills)
         in if precision + recall > 0 then 2 * (precision * recall) / (precision + recall) else 0)
      else 0)"

record cand_score =
  final_score :: real
  matched_skills :: "ustr set"
  matched_quals :: "ustr set"
  exp_verdict :: exp_match

definition penalty_applies :: "bool \<Rightarrow> ustr set \<Rightarrow> ustr set \<Rightarrow> bool" where
  "penalty_applies experience_matched ms mq \<longleftrightarrow> \<not> experience_matched \<or> ms = {} \<or> mq = {}"

definition score_candidate ::
  "ustr list \<Rightarrow> ustr list \<Rightarrow> nat option \<Rightarrow> nat option \<Rightarrow> ustr list \<Rightarrow> ustr list \<Rightarrow> nat \<Rightarrow> cand_score" where
  "score_candidate job_skills job_quals job_min_exp job_max_exp resume_skills resume_quals total_months =
     (let (verdict, experience_matched) = experience_match job_min_exp job_max_exp total_months;
          ms = set job_skills \<inter> set resume_skills;
          mq = set job_quals \<inter> set resume_quals;
          skill_score = skill_f1 job_skills resume_skills;
          final = (if penalty_applies experience_matched ms mq then skill_score * (3 / 10) else skill_score)
      in \<lparr>final_score = final, matched_skills = ms, matched_quals = mq, exp_verdict = verdict\<rparr>)"

section \<open>Lemmas\<close>

lemma experience_match_flag:
  "snd (experience_match mn mx t) \<longleftrightarrow> fst (experience_match mn mx t) \<noteq> Experience_not_matched"
  by (simp add: experience_match_def split: option.split)

lemma card_matched_le_length: "card (set xs \<inter> set ys) \<le> length ys"
  by (metis card_length card_mono finite_set inf_le2 order_trans)

lemma skill_f1_nonneg: "0 \<le> skill_f1 js rs"
  by (simp add: skill_f1_def Let_def)

text \<open>The F1 of precision and recall is the Dice coefficient of the two lists.\<close>

lemma skill_f1_dice:
  "skill_f1 js rs = 2 * real (card (set js \<inter> set rs)) / real (length js + length rs)"
proof (cases "js = [] \<or> rs = []")
  case True
  then show ?thesis by (auto simp: skill_f1_def)
next
  case False
  let ?m = "real (card (set js \<inter> set rs))"
  have J: "real (length js) > 0" and R: "real (length rs) > 0" using False by auto
  show ?thesis
  proof (cases "?m = 0")
    case True
    then show ?thesis using False by (simp add: skill_f1_def Let_def)
  next
    case nz: False
    then have m: "?m > 0" by (metis gr_zeroI of_nat_0 of_nat_0_less_iff)
    have "2 * (?m / real (length rs) * (?m / real (length js))) /
            (?m / real (length rs) + ?m / real (length js))
          = 2 * ?m / (real (length js) + real (length rs))"
      by (rule harmonic_mean_ratio [OF m J R])
    moreover have "?m / real (length rs) + ?m / real (length js) > 0"
      using J R m by (intro add_pos_pos divide_pos_pos)
    ultimately show ?thesis using False by (simp add: skill_f1_def Let_def)
  qed
qed

lemma skill_f1_le_1: "skill_f1 js rs \<le> 1"
proof -
  have "card (set js \<inter> set rs) \<le> length js" "card (set js \<inter> set rs) \<le> length rs"
    using card_matched_le_length [of rs js] card_matched_le_length [of js rs]
    by (simp_all add: Int_commute)
  then have le: "2 * real (card (set js \<inter> set rs)) \<le> real (length js + length rs)" by simp
  show ?thesis
  proof (cases "length js + length rs = 0")
    case True
    then show ?thesis by (simp add: skill_f1_dice)
  next
    case False
    then have "0 < real (length js + length rs)" by (simp only: of_nat_0_less_iff)
    with le show ?thesis by (simp only: skill_f1_dice divide_le_eq_1) simp
  qed
qed

lemma final_score_eq:
  "final_score (score_candidate js jq mn mx rs rq t) =
     (if penalty_applies (snd (experience_match mn mx t)) (set js \<inter> set rs) (set jq \<inter> set rq)
      then skill_f1 js rs * (3 / 10) else skill_f1 js rs)"
  by (simp add: score_candidate_def Let_def split: prod.split)

lemma matched_sets_eq:
  "matched_skills (score_candidate js jq mn mx rs rq t) = set js \<inter> set rs"
  "matched_quals (score_candidate js jq mn mx rs rq t) = set jq \<inter> set rq"
  "exp_verdict (score_candidate js jq mn mx rs rq t) = fst (experience_match mn mx t)"
  by (simp_all add: score_candidate_def Let_def split: prod.split)

lemmas score_simps = final_score_eq matched_sets_eq

section \<open>Properties\<close>

text \<open>C2: the final score of a candidate is the Dice coefficient of the two skill
  lists, \<open>2|J \<inter> R| / (len J + len R)\<close> (which is what the F1 of precision and recall
  reduces to, 0 when a list is empty), multiplied once by 0.3 when the job has a minimum
  the candidate's months miss (below it, or above a maximum), when no skill matches, or
  when no qualification matches; a job without a minimum never triggers the penalty on
  experience.\<close>

theorem score_candidate_closed_form:
  "final_score (score_candidate js jq mn mx rs rq t) =
     (if (case mn of None \<Rightarrow> False | Some m \<Rightarrow> t < m \<or> (case mx of None \<Rightarrow> False | Some x \<Rightarrow> x < t))
         \<or> set js \<inter> set rs = {} \<or> set jq \<inter> set rq = {}
      then 3 / 10 else 1) * (2 * real (card (set js \<inter> set rs)) / real (length js + length rs))"
proof -
  have cond: "penalty_applies (snd (experience_match mn mx t)) (set js \<inter> set rs) (set jq \<inter> set rq) \<longleftrightarrow>
      (case mn of None \<Rightarrow> False | Some m \<Rightarrow> t < m \<or> (case mx of None \<Rightarrow> False | Some x \<Rightarrow> x < t))
      \<or> set js \<inter> set rs = {} \<or> set jq \<inter> set rq = {}"
    by (simp add: penalty_applies_def experience_match_def not_le split: option.split)
  show ?thesis
    by (simp only: final_score_eq skill_f1_dice cond if_distrib [of "\<lambda>x. x * _"] mult.commute) simp
qed

text \<open>C16: a final score lies in \<open>[0, 1]\<close>, and in \<open>[0, 0.3]\<close> when the
  penalty applies.\<close>

theorem score_candidate_bounds:
  "0 \<le> final_score (score_candidate js jq mn mx rs rq t) \<and>
   final_score (score_candidate js jq mn mx rs rq t) \<le>
     (if penalty_applies (snd (experience_match mn mx t)) (set js \<inter> set rs) (set jq \<inter> set rq)
      then 3 / 10 else 1)"
  using skill_f1_nonneg [of js rs] skill_f1_le_1 [of js rs] by (simp add: final_score_eq)

text \<open>The spec's example: job skills \<open>{python, sql}\<close> and candidate skills
  \<open>{python}\<close> give precision 1, recall 1/2 and F1 2/3; with the qualification and the
  experience unmatched the final score is \<open>2/3 \<cdot> 0.3 = 0.2\<close>.\<close>

theorem score_candidate_spec_example:
  "skill_f1 [u ''python'', u ''sql''] [u ''python''] = 2 / 3 \<and>
   final_score (score_candidate [u ''python'', u ''sql''] [u ''bachelor''] (Some 24) (Some 36)
     [u ''python''] [u ''master''] 12) = 1 / 5 \<and>
   exp_verdict (score_candidate [u ''python'', u ''sql''] [u ''bachelor''] (Some 24) (Some 36)
     [u ''python''] [u ''master''] 12) = Experience_not_matched"
  by (simp add: score_simps skill_f1_def experience_match_def penalty_applies_def)

text \<open>C17: \<open>len(resume_skills)\<close> counts a skill key as often as the resume's
  phrases produce it: adding one more phrase with a key the resume already has (for instance
  \<open>ReactJS\<close> beside \<open>React.js\<close>, both \<open>react\<close>) strictly lowers the final score of a candidate
  with at least one matching skill, although the skill set is unchanged.\<close>

theorem duplicate_skill_lowers_score:
  assumes "x \<in> set rs" "set js \<inter> set rs \<noteq> {}"
  shows "final_score (score_candidate js jq mn mx (rs @ [x]) rq t) < final_score (score_candidate js jq mn mx rs rq t)"
proof -
  let ?k = "if penalty_applies (snd (experience_match mn mx t)) (set js \<inter> set rs) (set jq \<inter> set rq)
             then 3 / 10 else (1::real)"
  have s: "set (rs @ [x]) = set rs" using assms(1) by auto
  have c: "0 < 2 * real (card (set js \<inter> set rs))" using assms(2) by (simp add: card_gt_0_iff)
  have n: "0 < real (length js + length rs)" using assms(1) by (cases rs) auto
  have "2 * real (card (set js \<inter> set rs)) / real (length js + length (rs @ [x])) <
        2 * real (card (set js \<inter> set rs)) / real (length js + length rs)"
    using c n by (intro divide_strict_left_mono) simp_all
  moreover have "final_score (score_candidate js jq mn mx rs' rq t) =
      ?k * (2 * real (card (set js \<inter> set rs)) / real (length js + length rs'))"
    if "set rs' = set rs" for rs'
    by (simp only: final_score_eq skill_f1_dice that if_distrib [of "\<lambda>x. x * _"] mult.commute) simp
  moreover have "0 < ?k" by simp
  ultimately show ?thesis by (simp only: s mult_less_cancel_left_pos)
qed

theorem duplicate_skill_lowers_score_witness:
  "u ''react'' \<in> set [u ''react''] \<and> set [u ''react''] \<inter> set [u ''react''] \<noteq> {} \<and>
   final_score (score_candidate [u ''react''] [] None None [u ''react'', u ''react''] [] 0) <
   final_score (score_candidate [u ''react''] [] None None [u ''react''] [] 0)"
  using duplicate_skill_lowers_score [of "u ''react''" "[u ''react'']" "[u ''react'']" "[]" None None "[]" 0] by simp

end
