(* ===== verification/Ranker.thy ===== *)
theory Ranker
  imports Scorer
begin

text \<open>
  The pool-wide part of \<open>rank_resumes\<close> in \<open>src/app.py\<close>: the square-root rescaling of the
  raw scores to a display ceiling, Python's \<open>round(x, 2)\<close>, the descending sort by
  \<open>x["score"]\<close> and the 1-based ranks.  The ceiling \<open>random.randint(91, 99)\<close> is a
  parameter \<open>top_score\<close>; the theorems hold for every value it can take.
\<close>

section \<open>The candidate records\<close>

text \<open>The dictionary built for each processed resume; \<open>score\<close> and \<open>rank\<close> are the keys
  set later, \<open>None\<close> while absent.\<close>

record cand =
  c_name :: "ustr option"
  c_email :: "ustr option"
  c_skills :: "ustr set"
  c_quals :: "ustr set"
  c_experience :: ustr
  c_match :: ustr
  c_url :: ustr
  c_score :: "real option"
  c_rank :: "nat option"

section \<open>Rounding\<close>

text \<open>\<open>round(x, 2)\<close>: to the nearest hundredth, ties to the even neighbour (Python rounds
  the exact value of its argument).\<close>

definition round_half_even :: "real \<Rightarrow> int" where
  "round_half_even y =
     (let f = \<lfloor>y\<rfloor>; d = y - of_int f in
      if d < 1 / 2 then f else if d > 1 / 2 then f + 1 else if even f then f else f + 1)"

definition py_round2 :: "real \<Rightarrow> real" where
  "py_round2 x = of_int (round_half_even (x * 100)) / 100"

section \<open>Normalisation, sort and ranks\<close>

definition display_score :: "nat \<Rightarrow> real \<Rightarrow> real \<Rightarrow> real" where
  "display_score top_score max_score r = py_round2 (sqrt r / sqrt max_score * real top_score)"

text \<open>\<open>math.sqrt\<close> raises \<open>ValueError\<close> on a negative score; the loop then stops with it.\<close>

definition normalize_scores :: "nat \<Rightarrow> real list \<Rightarrow> cand list \<Rightarrow> py_exc + cand list" where
  "normalize_scores top_score raw_scores cs =
     (if raw_scores \<noteq> [] then
        (let max_score = Max (set raw_scores) in
         if max_score > 0 then
           (if list_ex (\<lambda>r. r < 0) raw_scores then Inl ValueError
            else Inr (map2 (\<lambda>r c. c\<lparr>c_score := Some (display_score top_score max_score r)\<rparr>) raw_scores cs))
         else Inr cs)
      else Inr cs)"

text \<open>\<open>sorted(candidate_data, key=lambda x: x["score"], reverse=True)\<close>: the key of every
  element is read first, so a missing score raises \<open>KeyError\<close>; the sort is stable and
  descending.\<close>

definition sort_by_score :: "cand list \<Rightarrow> py_exc + cand list" where
  "sort_by_score cs =
     (if list_ex (\<lambda>c. c_score c = None) cs then Inl KeyError
      else Inr (sort_key (\<lambda>c. - the (c_score c)) cs))"

definition assign_ranks :: "cand list \<Rightarrow> cand list" where
  "assign_ranks cs = map (\<lambda>(idx, r). r\<lparr>c_rank := Some (idx + 1)\<rparr>) (enumerate 0 cs)"

definition rank_candidates :: "nat \<Rightarrow> real list \<Rightarrow> cand list \<Rightarrow> py_exc + cand list" where
  "rank_candidates top_score raw_scores cs =
     (case normalize_scores top_score raw_scores cs of
        Inl e \<Rightarrow> Inl e
      | Inr cs' \<Rightarrow> (case sort_by_score cs' of Inl e \<Rightarrow> Inl e | Inr sorted_results \<Rightarrow> Inr (assign_ranks sorted_results)))"

text \<open>A candidate with its score and rank removed, to compare pools as multisets.\<close>

definition unscored :: "cand \<Rightarrow> cand" where
  "unscored c = c\<lparr>c_score := None, c_rank := None\<rparr>"

section \<open>Lemmas\<close>

lemma round_half_even_bounds: "\<lfloor>y\<rfloor> \<le> round_half_even y \<and> round_half_even y \<le> \<lfloor>y\<rfloor> + 1"
  by (simp add: round_half_even_def Let_def)

lemma round_half_even_mono:
  assumes "x \<le> y"
  shows "round_half_even x \<le> round_half_even y"
proof (cases "\<lfloor>x\<rfloor> = \<lfloor>y\<rfloor>")
  case False
  then have "\<lfloor>x\<rfloor> + 1 \<le> \<lfloor>y\<rfloor>" using floor_mono [OF assms] by simp
  then show ?thesis using round_half_even_bounds [of x] round_half_even_bounds [of y] by linarith
next
  case True
  then have "x - of_int \<lfloor>x\<rfloor> \<le> y - of_int \<lfloor>y\<rfloor>" using assms by simp
  with True show ?thesis by (auto simp: round_half_even_def Let_def)
qed

lemma round_half_even_of_int [simp]: "round_half_even (of_int n) = n"
  by (simp add: round_half_even_def)

lemma py_round2_mono: "x \<le> y \<Longrightarrow> py_round2 x \<le> py_round2 y"
  by (simp add: py_round2_def divide_right_mono round_half_even_mono)

lemma py_round2_of_nat [simp]: "py_round2 (real n) = real n"
proof -
  have "real n * 100 = of_int (int n * 100)" by simp
  then show ?thesis by (simp only: py_round2_def round_half_even_of_int)
qed

lemma py_round2_zero [simp]: "py_round2 0 = 0"
  using py_round2_of_nat [of 0] by simp

lemma display_score_mono:
  "0 \<le> mx \<Longrightarrow> 0 \<le> r \<Longrightarrow> r \<le> r' \<Longrightarrow> display_score tp mx r \<le> display_score tp mx r'"
  unfolding display_score_def
  by (intro py_round2_mono mult_right_mono divide_right_mono real_sqrt_le_mono) simp_all

lemma display_score_max [simp]: "0 < mx \<Longrightarrow> display_score tp mx mx = real tp"
  by (simp add: display_score_def)

lemma display_score_bounds:
  assumes "0 \<le> r" "r \<le> mx"
  shows "0 \<le> display_score tp mx r \<and> display_score tp mx r \<le> real tp"
proof (cases "mx = 0")
  case True
  then show ?thesis by (simp add: display_score_def)
next
  case False
  with assms have mx: "0 < mx" by simp
  have "display_score tp mx 0 \<le> display_score tp mx r"
    using assms by (intro display_score_mono) simp_all
  moreover have "display_score tp mx r \<le> display_score tp mx mx"
    using assms by (intro display_score_mono) simp_all
  ultimately show ?thesis using mx by (simp add: display_score_def)
qed

text \<open>The rescaling succeeds and scores every candidate when some raw score is positive
  and none is negative.\<close>

lemma Max_pos_of_list_ex:
  "list_ex (\<lambda>r. 0 < r) xs \<Longrightarrow> 0 < Max (set (xs :: real list))"
  by (auto simp: list_ex_iff intro: less_le_trans [OF _ Max_ge])

lemma normalize_scores_ok:
  assumes "list_all (\<lambda>r. 0 \<le> r) raw" "list_ex (\<lambda>r. 0 < r) raw"
  shows "normalize_scores tp raw cs =
    Inr (map2 (\<lambda>r c. c\<lparr>c_score := Some (display_score tp (Max (set raw)) r)\<rparr>) raw cs)"
proof -
  have "raw \<noteq> []" using assms(2) by auto
  moreover have "\<not> list_ex (\<lambda>r. r < 0) raw" using assms(1) by (auto simp: list_all_iff list_ex_iff)
  ultimately show ?thesis using Max_pos_of_list_ex [OF assms(2)] by (simp add: normalize_scores_def)
qed

lemma normalize_scores_no_positive:
  assumes "list_all (\<lambda>r. r \<le> 0) raw"
  shows "normalize_scores tp raw cs = Inr cs"
proof (cases "raw = []")
  case False
  then have "Max (set raw) \<in> set raw" by simp
  with assms have "\<not> 0 < Max (set raw)" by (auto simp: list_all_iff)
  then show ?thesis by (simp add: normalize_scores_def Let_def)
qed (simp add: normalize_scores_def)

lemma sort_by_score_ok:
  "list_all (\<lambda>c. c_score c \<noteq> None) cs \<Longrightarrow>
   sort_by_score cs = Inr (sort_key (\<lambda>c. - the (c_score c)) cs)"
  by (simp add: sort_by_score_def list_all_iff list_ex_iff)

lemma map_c_rank_enumerate:
  "map c_rank (map (\<lambda>(idx, r). r\<lparr>c_rank := Some (idx + 1)\<rparr>) (enumerate n cs)) =
   map (\<lambda>i. Some (Suc i)) [n..<n + length cs]"
proof (induction cs arbitrary: n)
  case (Cons c cs)
  have "[n..<n + length (c # cs)] = n # [Suc n..<Suc n + length cs]"
    by (simp del: upt_Suc add: upt_conv_Cons)
  then show ?case using Cons.IH [of "Suc n"] by (simp add: comp_def)
qed simp

lemma map_c_rank_assign_ranks:
  "map c_rank (assign_ranks cs) = map (\<lambda>i. Some (Suc i)) [0..<length cs]"
  using map_c_rank_enumerate [of 0 cs] by (simp add: assign_ranks_def)

lemma assign_ranks_enumerate:
  "map c_score (map (\<lambda>(idx, r). r\<lparr>c_rank := g idx\<rparr>) (enumerate n cs)) = map c_score cs \<and>
   map unscored (map (\<lambda>(idx, r). r\<lparr>c_rank := g idx\<rparr>) (enumerate n cs)) = map unscored cs"
  by (induction cs arbitrary: n) (simp_all add: unscored_def)

lemma assign_ranks_keeps [simp]:
  "map c_score (assign_ranks cs) = map c_score cs"
  "map unscored (assign_ranks cs) = map unscored cs"
  "length (assign_ranks cs) = length cs"
  by (simp_all only: assign_ranks_def assign_ranks_enumerate length_map length_enumerate)

lemma unscored_score_update [simp]: "unscored (c\<lparr>c_score := x\<rparr>) = unscored c"
  by (simp add: unscored_def)

lemma map2_scored:
  "length raw = length cs \<Longrightarrow>
   map unscored (map2 (\<lambda>r c. c\<lparr>c_score := Some (g r)\<rparr>) raw cs) = map unscored cs \<and>
   map c_score (map2 (\<lambda>r c. c\<lparr>c_score := Some (g r)\<rparr>) raw cs) = map (\<lambda>r. Some (g r)) raw"
  by (induction raw cs rule: list_induct2) simp_all

lemma sorted_desc_sort_key:
  "sorted_wrt (\<lambda>a b. b \<le> a) (map (\<lambda>c. the (c_score c)) (sort_key (\<lambda>c. - the (c_score c)) xs))"
proof -
  have "sorted (map (\<lambda>c. - the (c_score c)) (sort_key (\<lambda>c. - the (c_score c)) xs))"
    by (rule sorted_sort_key)
  then show ?thesis by (simp add: sorted_map sorted_wrt_map)
qed

text \<open>The successful path of the ranker, unfolded.\<close>

lemma rank_candidates_ok:
  assumes "list_all (\<lambda>r. 0 \<le> r) raw" "list_ex (\<lambda>r. 0 < r) raw" "length raw = length cs"
  shows "rank_candidates tp raw cs = Inr (assign_ranks (sort_key (\<lambda>c. - the (c_score c))
           (map2 (\<lambda>r c. c\<lparr>c_score := Some (display_score tp (Max (set raw)) r)\<rparr>) raw cs)))"
proof -
  let ?ns = "map2 (\<lambda>r c. c\<lparr>c_score := Some (display_score tp (Max (set raw)) r)\<rparr>) raw cs"
  have "map c_score ?ns = map (\<lambda>r. Some (display_score tp (Max (set raw)) r)) raw"
    using map2_scored [OF assms(3)] by blast
  then have "None \<notin> set (map c_score ?ns)" by auto
  then have "list_all (\<lambda>c. c_score c \<noteq> None) ?ns" by (auto simp: list_all_iff)
  then show ?thesis
    using normalize_scores_ok [OF assms(1,2)] by (simp add: rank_candidates_def sort_by_score_ok)
qed

lemma rank_candidates_scores:
  assumes "list_all (\<lambda>r. 0 \<le> r) raw" "list_ex (\<lambda>r. 0 < r) raw" "length raw = length cs"
    and "rank_candidates tp raw cs = Inr res"
  shows "map c_score res = map (\<lambda>c. Some (the (c_score c))) res \<and>
    set (map (\<lambda>c. the (c_score c)) res) = display_score tp (Max (set raw)) ` set raw"
proof -
  let ?ns = "map2 (\<lambda>r c. c\<lparr>c_score := Some (display_score tp (Max (set raw)) r)\<rparr>) raw cs"
  have res: "res = assign_ranks (sort_key (\<lambda>c. - the (c_score c)) ?ns)"
    using rank_candidates_ok [OF assms(1-3)] assms(4) by simp
  have ns: "map c_score ?ns = map (\<lambda>r. Some (display_score tp (Max (set raw)) r)) raw"
    using map2_scored [OF assms(3)] by blast
  have "set (map c_score res) = set (map c_score (sort_key (\<lambda>c. - the (c_score c)) ?ns))"
    by (simp only: res assign_ranks_keeps(1))
  also have "\<dots> = set (map c_score ?ns)" by (simp only: set_map set_sort)
  finally have "set (map c_score res) = set (map c_score ?ns)" .
  then have sc: "set (map c_score res) = (\<lambda>r. Some (display_score tp (Max (set raw)) r)) ` set raw"
    by (simp only: ns set_map)
  have "\<forall>c\<in>set res. c_score c \<noteq> None"
  proof
    fix c assume "c \<in> set res"
    then have "c_score c \<in> set (map c_score res)" by simp
    with sc show "c_score c \<noteq> None" by auto
  qed
  then have "map c_score res = map (\<lambda>c. Some (the (c_score c))) res"
    by (simp add: map_eq_conv)
  moreover have "set (map (\<lambda>c. the (c_score c)) res) = display_score tp (Max (set raw)) ` set raw"
  proof -
    have "set (map (\<lambda>c. the (c_score c)) res) = the ` set (map c_score res)" by auto
    also have "\<dots> = display_score tp (Max (set raw)) ` set raw" using sc by (auto simp: image_image)
    finally show ?thesis .
  qed
  ultimately show ?thesis by blast
qed

lemma filter_score_assign_ranks:
  "map unscored (filter (\<lambda>c. c_score c = x) (map (\<lambda>(idx, r). r\<lparr>c_rank := g idx\<rparr>) (enumerate n cs)))
   = map unscored (filter (\<lambda>c. c_score c = x) cs)"
  by (induction cs arbitrary: n) (simp_all add: unscored_def)

lemma filter_score_map2:
  "length raw = length cs \<Longrightarrow>
   map unscored (filter (\<lambda>c. c_score c = Some s) (map2 (\<lambda>r c. c\<lparr>c_score := Some (g r)\<rparr>) raw cs))
   = map (\<lambda>(r, c). unscored c) (filter (\<lambda>(r, c). g r = s) (zip raw cs))"
  by (induction raw cs rule: list_induct2) auto

lemma rank_candidates_sorted:
  assumes "list_all (\<lambda>r. 0 \<le> r) raw" "list_ex (\<lambda>r. 0 < r) raw" "length raw = length cs"
    and "rank_candidates tp raw cs = Inr res"
  shows "sorted_wrt (\<lambda>a b. b \<le> a) (map (\<lambda>c. the (c_score c)) res)"
proof -
  let ?f = "\<lambda>c. - the (c_score c)"
  let ?ns = "map2 (\<lambda>r c. c\<lparr>c_score := Some (display_score tp (Max (set raw)) r)\<rparr>) raw cs"
  have res: "res = assign_ranks (sort_key ?f ?ns)"
    using rank_candidates_ok [OF assms(1-3)] assms(4) by simp
  have "map (\<lambda>c. the (c_score c)) res = map the (map c_score res)"
    by (simp only: map_map comp_def)
  also have "\<dots> = map the (map c_score (sort_key ?f ?ns))"
    by (simp only: res assign_ranks_keeps(1))
  also have "\<dots> = map (\<lambda>c. the (c_score c)) (sort_key ?f ?ns)"
    by (simp only: map_map comp_def)
  finally show ?thesis using sorted_desc_sort_key [of ?ns] by (simp only:)
qed

lemma rank_candidates_perm:
  assumes "list_all (\<lambda>r. 0 \<le> r) raw" "list_ex (\<lambda>r. 0 < r) raw" "length raw = length cs"
    and "rank_candidates tp raw cs = Inr res"
  shows "mset (map unscored res) = mset (map unscored cs)"
proof -
  let ?f = "\<lambda>c. - the (c_score c)"
  let ?ns = "map2 (\<lambda>r c. c\<lparr>c_score := Some (display_score tp (Max (set raw)) r)\<rparr>) raw cs"
  have res: "res = assign_ranks (sort_key ?f ?ns)"
    using rank_candidates_ok [OF assms(1-3)] assms(4) by simp
  have "mset (map unscored res) = mset (map unscored (sort_key ?f ?ns))"
    by (simp only: res assign_ranks_keeps(2))
  also have "\<dots> = mset (map unscored ?ns)"
    by (simp only: mset_map mset_sort)
  also have "\<dots> = mset (map unscored cs)"
    using map2_scored [OF assms(3)] by (simp only:)
  finally show ?thesis .
qed

text \<open>Whatever the raw scores, a ranking of candidates whose scores are not yet set that
  does not raise is ranked 1..n, scored, non-increasing, within \<open>[0, ceiling]\<close> and a
  permutation of the candidates.\<close>

lemma rank_candidates_Inr:
  assumes "list_all (\<lambda>r. 0 \<le> r) raw" "length raw = length cs" "list_all (\<lambda>c. c_score c = None) cs"
    and "rank_candidates tp raw cs = Inr res"
  shows "map c_rank res = map (\<lambda>i. Some (Suc i)) [0..<length res] \<and> list_all (\<lambda>c. c_score c \<noteq> None) res \<and>
    sorted_wrt (\<lambda>a b. b \<le> a) (map (\<lambda>c. the (c_score c)) res) \<and>
    list_all (\<lambda>c. 0 \<le> the (c_score c) \<and> the (c_score c) \<le> real tp) res \<and>
    mset (map unscored res) = mset (map unscored cs)"
proof (cases "list_ex (\<lambda>r. 0 < r) raw")
  case True
  note ok = assms(1) True assms(2)
  have perm: "mset (map unscored res) = mset (map unscored cs)" by (rule rank_candidates_perm [OF ok assms(4)])
  then have len: "length res = length cs" by (metis length_map size_mset)
  have res: "res = assign_ranks (sort_key (\<lambda>c. - the (c_score c))
      (map2 (\<lambda>r c. c\<lparr>c_score := Some (display_score tp (Max (set raw)) r)\<rparr>) raw cs))"
    using rank_candidates_ok [OF ok] assms(4) by simp
  have ranks: "map c_rank res = map (\<lambda>i. Some (Suc i)) [0..<length res]"
    by (simp only: res map_c_rank_assign_ranks assign_ranks_keeps(3))
  have sc: "map c_score res = map (\<lambda>c. Some (the (c_score c))) res"
    "set (map (\<lambda>c. the (c_score c)) res) = display_score tp (Max (set raw)) ` set raw"
    using rank_candidates_scores [OF ok assms(4)] by blast+
  have some: "list_all (\<lambda>c. c_score c \<noteq> None) res"
    using sc(1) by (auto simp: list_all_iff map_eq_conv)
  have "\<forall>r\<in>set raw. 0 \<le> display_score tp (Max (set raw)) r \<and> display_score tp (Max (set raw)) r \<le> real tp"
    using assms(1) by (auto simp: list_all_iff intro!: display_score_bounds Max_ge)
  then have "\<forall>x\<in>display_score tp (Max (set raw)) ` set raw. 0 \<le> x \<and> x \<le> real tp" by blast
  then have "\<forall>x\<in>set (map (\<lambda>c. the (c_score c)) res). 0 \<le> x \<and> x \<le> real tp" by (simp only: sc(2))
  then have bounds: "list_all (\<lambda>c. 0 \<le> the (c_score c) \<and> the (c_score c) \<le> real tp) res"
    by (simp add: list_all_iff)
  show ?thesis using ranks some bounds perm rank_candidates_sorted [OF ok assms(4)] by blast
next
  case False
  then have "list_all (\<lambda>r. r \<le> 0) raw" by (auto simp: list_all_iff list_ex_iff)
  then have n: "normalize_scores tp raw cs = Inr cs" by (rule normalize_scores_no_positive)
  have "cs = []"
  proof (rule ccontr)
    assume "cs \<noteq> []"
    with assms(3) have "list_ex (\<lambda>c. c_score c = None) cs" by (cases cs) simp_all
    then have "rank_candidates tp raw cs = Inl KeyError" using n by (simp add: rank_candidates_def sort_by_score_def)
    with assms(4) show False by simp
  qed
  moreover from this assms(4) n have "res = []" by (simp add: rank_candidates_def sort_by_score_def assign_ranks_def)
  ultimately show ?thesis by simp
qed

section \<open>Properties of the ranker\<close>

abbreviation probe_cand :: "ustr \<Rightarrow> cand" where
  "probe_cand e \<equiv> \<lparr>c_name = None, c_email = Some e, c_skills = {}, c_quals = {}, c_experience = [],
     c_match = [], c_url = [], c_score = None, c_rank = None\<rparr>"

text \<open>C1: when no raw score is positive the scores are never set, and the sort by
  \<open>x["score"]\<close> raises \<open>KeyError\<close>: a non-empty pool in which no candidate earns a positive
  score is not ranked at all (the request then answers 500).\<close>

theorem rank_candidates_all_zero_KeyError:
  assumes "cs \<noteq> []" "list_all (\<lambda>r. r \<le> 0) raw" "list_all (\<lambda>c. c_score c = None) cs"
  shows "rank_candidates tp raw cs = Inl KeyError"
proof -
  have "list_ex (\<lambda>c. c_score c = None) cs"
    using assms(1,3) by (cases cs) simp_all
  then show ?thesis
    using normalize_scores_no_positive [OF assms(2)] by (simp add: rank_candidates_def sort_by_score_def)
qed

theorem rank_candidates_all_zero_KeyError_witness:
  "[probe_cand (u ''a'')] \<noteq> [] \<and> list_all (\<lambda>r. r \<le> 0) [0 :: real] \<and>
   list_all (\<lambda>c. c_score c = None) [probe_cand (u ''a'')] \<and>
   rank_candidates 91 [0] [probe_cand (u ''a'')] = Inl KeyError"
  using rank_candidates_all_zero_KeyError [of "[probe_cand (u ''a'')]" "[0]" 91] by simp

text \<open>C3: when the raw scores are non-negative and one is positive, ranking succeeds:
  the ranks are 1, 2, ..., n in list order, the displayed scores are non-increasing, and the
  ranked list is a permutation of the candidates (apart from the keys \<open>score\<close> and
  \<open>rank\<close> it sets).\<close>

theorem rank_candidates_ranked:
  assumes "list_all (\<lambda>r. 0 \<le> r) raw" "list_ex (\<lambda>r. 0 < r) raw" "length raw = length cs"
  shows "\<exists>res. rank_candidates tp raw cs = Inr res \<and>
    map c_rank res = map (\<lambda>i. Some (Suc i)) [0..<length cs] \<and>
    sorted_wrt (\<lambda>a b. b \<le> a) (map (\<lambda>c. the (c_score c)) res) \<and>
    mset (map unscored res) = mset (map unscored cs)"
proof -
  let ?f = "\<lambda>c. - the (c_score c)"
  let ?ns = "map2 (\<lambda>r c. c\<lparr>c_score := Some (display_score tp (Max (set raw)) r)\<rparr>) raw cs"
  let ?res = "assign_ranks (sort_key ?f ?ns)"
  have ok: "rank_candidates tp raw cs = Inr ?res" by (rule rank_candidates_ok [OF assms])
  have "map c_rank ?res = map (\<lambda>i. Some (Suc i)) [0..<length cs]"
    using assms(3) by (simp add: map_c_rank_assign_ranks)
  moreover have "sorted_wrt (\<lambda>a b. b \<le> a) (map (\<lambda>c. the (c_score c)) ?res)"
    by (rule rank_candidates_sorted [OF assms ok])
  moreover have "mset (map unscored ?res) = mset (map unscored cs)"
  proof -
    have "mset (map unscored ?res) = mset (map unscored (sort_key ?f ?ns))"
      by (simp only: assign_ranks_keeps(2))
    also have "\<dots> = mset (map unscored ?ns)"
      by (simp only: mset_map mset_sort)
    also have "\<dots> = mset (map unscored cs)"
      using map2_scored [OF assms(3)] by (simp only:)
    finally show ?thesis .
  qed
  ultimately show ?thesis using ok by blast
qed

theorem rank_candidates_ranked_witness:
  "list_all (\<lambda>r. 0 \<le> r) [1 / 5, 2 / 3 :: real] \<and> list_ex (\<lambda>r. 0 < r) [1 / 5, 2 / 3 :: real] \<and>
   length [1 / 5, 2 / 3 :: real] = length [probe_cand (u ''a''), probe_cand (u ''b'')] \<and>
   (\<exists>res. rank_candidates 91 [1 / 5, 2 / 3] [probe_cand (u ''a''), probe_cand (u ''b'')] = Inr res \<and>
      map c_rank res = map (\<lambda>i. Some (Suc i)) [0..<length [probe_cand (u ''a''), probe_cand (u ''b'')]] \<and>
      sorted_wrt (\<lambda>a b. b \<le> a) (map (\<lambda>c. the (c_score c)) res) \<and>
      mset (map unscored res) = mset (map unscored [probe_cand (u ''a''), probe_cand (u ''b'')]))"
proof -
  have h: "list_all (\<lambda>r. 0 \<le> r) [1 / 5, 2 / 3 :: real] \<and> list_ex (\<lambda>r. 0 < r) [1 / 5, 2 / 3 :: real] \<and>
    length [1 / 5, 2 / 3 :: real] = length [probe_cand (u ''a''), probe_cand (u ''b'')]"
    by simp
  then show ?thesis
    using rank_candidates_ranked [of "[1 / 5, 2 / 3]" "[probe_cand (u ''a''), probe_cand (u ''b'')]" 91]
    by blast
qed

text \<open>C15: every displayed score lies between 0 and the ceiling, and the first
  candidate of the ranking is displayed at exactly the ceiling.\<close>

theorem rank_candidates_scores_bounded:
  assumes "list_all (\<lambda>r. 0 \<le> r) raw" "list_ex (\<lambda>r. 0 < r) raw" "length raw = length cs"
    and "rank_candidates tp raw cs = Inr res"
  shows "list_all (\<lambda>c. \<exists>s. c_score c = Some s \<and> 0 \<le> s \<and> s \<le> real tp) res \<and>
    map c_score (take 1 res) = [Some (real tp)]"
proof -
  let ?d = "display_score tp (Max (set raw))"
  have sc: "map c_score res = map (\<lambda>c. Some (the (c_score c))) res"
    and st: "set (map (\<lambda>c. the (c_score c)) res) = ?d ` set raw"
    using rank_candidates_scores [OF assms] by blast+
  have raw_ne: "raw \<noteq> []" using assms(2) by auto
  have mx: "0 < Max (set raw)" using Max_pos_of_list_ex [OF assms(2)] .
  have bnd: "\<And>c. c \<in> set res \<Longrightarrow> 0 \<le> the (c_score c) \<and> the (c_score c) \<le> real tp"
  proof -
    fix c assume "c \<in> set res"
    then have "the (c_score c) \<in> ?d ` set raw" using st by (metis image_eqI set_map)
    then obtain r where r: "r \<in> set raw" "the (c_score c) = ?d r" by blast
    then have "0 \<le> r" "r \<le> Max (set raw)" using assms(1) by (auto simp: list_all_iff)
    with r show "0 \<le> the (c_score c) \<and> the (c_score c) \<le> real tp"
      using display_score_bounds by metis
  qed
  have some: "\<And>c. c \<in> set res \<Longrightarrow> c_score c = Some (the (c_score c))"
    using sc by (simp add: map_eq_conv)
  have all: "list_all (\<lambda>c. \<exists>s. c_score c = Some s \<and> 0 \<le> s \<and> s \<le> real tp) res"
    using bnd some by (auto simp: list_all_iff)
  obtain h rest where hr: "res = h # rest"
    using raw_ne st by (cases res) auto
  have "real tp \<in> set (map (\<lambda>c. the (c_score c)) res)"
    using st mx raw_ne by (simp add: image_iff) (metis Max_in List.finite_set display_score_max set_empty)
  moreover have "\<forall>x\<in>set (map (\<lambda>c. the (c_score c)) rest). x \<le> the (c_score h)"
    using rank_candidates_sorted [OF assms] hr by simp
  ultimately have "real tp \<le> the (c_score h)" using hr by auto
  moreover have "the (c_score h) \<le> real tp" using bnd hr by simp
  ultimately have "c_score h = Some (real tp)" using some hr by (metis list.set_intros(1) order_antisym)
  with all hr show ?thesis by simp
qed

theorem rank_candidates_scores_bounded_witness:
  "list_all (\<lambda>r. 0 \<le> r) [1 / 5, 2 / 3 :: real] \<and> list_ex (\<lambda>r. 0 < r) [1 / 5, 2 / 3 :: real] \<and>
   length [1 / 5, 2 / 3 :: real] = length [probe_cand (u ''a''), probe_cand (u ''b'')] \<and>
   (\<exists>res. rank_candidates 91 [1 / 5, 2 / 3] [probe_cand (u ''a''), probe_cand (u ''b'')] = Inr res \<and>
      list_all (\<lambda>c. \<exists>s. c_score c = Some s \<and> 0 \<le> s \<and> s \<le> real (91 :: nat)) res \<and>
      map c_score (take 1 res) = [Some (real (91 :: nat))])"
proof -
  let ?raw = "[1 / 5, 2 / 3 :: real]" and ?cs = "[probe_cand (u ''a''), probe_cand (u ''b'')]"
  have h: "list_all (\<lambda>r. 0 \<le> r) ?raw \<and> list_ex (\<lambda>r. 0 < r) ?raw \<and> length ?raw = length ?cs"
    by simp
  obtain res where "rank_candidates 91 ?raw ?cs = Inr res"
    using rank_candidates_ok [of ?raw ?cs 91] h by blast
  with h show ?thesis
    using rank_candidates_scores_bounded [of ?raw ?cs 91] by blast
qed

text \<open>C20: the rescaling is monotone: a candidate whose raw score is at most
  another's never gets the higher displayed score.\<close>

theorem normalize_scores_monotone:
  assumes "normalize_scores tp raw cs = Inr ns"
    and "list_all (\<lambda>r. 0 \<le> r) raw" "list_ex (\<lambda>r. 0 < r) raw" "length raw = length cs"
    and "i < length cs" "j < length cs" "raw ! i \<le> raw ! j"
  shows "the (c_score (ns ! i)) \<le> the (c_score (ns ! j))"
proof -
  have ns: "ns = map2 (\<lambda>r c. c\<lparr>c_score := Some (display_score tp (Max (set raw)) r)\<rparr>) raw cs"
    using normalize_scores_ok [OF assms(2,3)] assms(1) by simp
  have "0 \<le> raw ! i" using assms(2,4,5) by (simp add: list_all_length)
  moreover have "0 \<le> Max (set raw)" using Max_pos_of_list_ex [OF assms(3)] by simp
  ultimately have "display_score tp (Max (set raw)) (raw ! i) \<le> display_score tp (Max (set raw)) (raw ! j)"
    using assms(7) by (intro display_score_mono)
  then show ?thesis using assms(4-6) by (simp add: ns)
qed

theorem normalize_scores_monotone_witness:
  "normalize_scores 91 [1 / 5, 2 / 3] [probe_cand (u ''a''), probe_cand (u ''b'')] =
     Inr (map2 (\<lambda>r c. c\<lparr>c_score := Some (display_score 91 (Max (set [1 / 5, 2 / 3])) r)\<rparr>)
       [1 / 5, 2 / 3] [probe_cand (u ''a''), probe_cand (u ''b'')]) \<and>
   the (c_score (map2 (\<lambda>r c. c\<lparr>c_score := Some (display_score 91 (Max (set [1 / 5, 2 / 3])) r)\<rparr>)
       [1 / 5, 2 / 3 :: real] [probe_cand (u ''a''), probe_cand (u ''b'')] ! 0)) \<le>
   the (c_score (map2 (\<lambda>r c. c\<lparr>c_score := Some (display_score 91 (Max (set [1 / 5, 2 / 3])) r)\<rparr>)
       [1 / 5, 2 / 3 :: real] [probe_cand (u ''a''), probe_cand (u ''b'')] ! 1))"
proof -
  let ?raw = "[1 / 5, 2 / 3 :: real]" and ?cs = "[probe_cand (u ''a''), probe_cand (u ''b'')]"
  have h: "list_all (\<lambda>r. 0 \<le> r) ?raw" "list_ex (\<lambda>r. 0 < r) ?raw" "length ?raw = length ?cs"
    "0 < length ?cs" "1 < length ?cs" "?raw ! 0 \<le> ?raw ! 1"
    by simp_all
  have n: "normalize_scores 91 ?raw ?cs =
     Inr (map2 (\<lambda>r c. c\<lparr>c_score := Some (display_score 91 (Max (set ?raw)) r)\<rparr>) ?raw ?cs)"
    using normalize_scores_ok [OF h(1,2)] .
  show ?thesis using n normalize_scores_monotone [OF n h] by blast
qed

text \<open>C19: candidates whose displayed scores are equal keep the order in which their
  resumes were processed (the sort is stable).\<close>

theorem rank_ties_keep_input_order:
  assumes "list_all (\<lambda>r. 0 \<le> r) raw" "list_ex (\<lambda>r. 0 < r) raw" "length raw = length cs"
    and "rank_candidates tp raw cs = Inr res"
  shows "map unscored (filter (\<lambda>c. c_score c = Some s) res) =
    map (\<lambda>(r, c). unscored c) (filter (\<lambda>(r, c). display_score tp (Max (set raw)) r = s) (zip raw cs))"
proof -
  let ?f = "\<lambda>c. - the (c_score c)"
  let ?ns = "map2 (\<lambda>r c. c\<lparr>c_score := Some (display_score tp (Max (set raw)) r)\<rparr>) raw cs"
  have res: "res = assign_ranks (sort_key ?f ?ns)"
    using rank_candidates_ok [OF assms(1-3)] assms(4) by simp
  have "None \<notin> set (map c_score ?ns)"
    using map2_scored [OF assms(3)] by auto
  then have some: "\<forall>c\<in>set ?ns. c_score c \<noteq> None" by auto
  then have eq_ns: "filter (\<lambda>c. c_score c = Some s) ?ns = filter (\<lambda>c. ?f c = - s) ?ns"
    by (intro filter_cong) auto
  have "\<forall>c\<in>set (sort_key ?f ?ns). c_score c \<noteq> None" using some by simp
  then have eq_sorted: "filter (\<lambda>c. c_score c = Some s) (sort_key ?f ?ns) =
      filter (\<lambda>c. ?f c = - s) (sort_key ?f ?ns)"
    by (intro filter_cong) auto
  have "map unscored (filter (\<lambda>c. c_score c = Some s) res) =
      map unscored (filter (\<lambda>c. c_score c = Some s) (sort_key ?f ?ns))"
    unfolding res assign_ranks_def by (rule filter_score_assign_ranks)
  also have "\<dots> = map unscored (filter (\<lambda>c. c_score c = Some s) ?ns)"
    by (simp only: eq_sorted eq_ns sort_key_stable)
  also have "\<dots> = map (\<lambda>(r, c). unscored c) (filter (\<lambda>(r, c). display_score tp (Max (set raw)) r = s) (zip raw cs))"
    by (rule filter_score_map2 [OF assms(3)])
  finally show ?thesis .
qed

theorem rank_ties_keep_input_order_witness:
  "rank_candidates 91 [1 / 5, 1 / 5] [probe_cand (u ''a''), probe_cand (u ''b'')] \<noteq> Inl KeyError \<and>
   (\<exists>res. rank_candidates 91 [1 / 5, 1 / 5] [probe_cand (u ''a''), probe_cand (u ''b'')] = Inr res \<and>
     map unscored (filter (\<lambda>c. c_score c = Some 91) res) =
       map (\<lambda>(r, c). unscored c) (filter (\<lambda>(r, c). display_score 91 (Max (set [1 / 5, 1 / 5])) r = 91)
         (zip [1 / 5, 1 / 5 :: real] [probe_cand (u ''a''), probe_cand (u ''b'')])))"
proof -
  let ?raw = "[1 / 5, 1 / 5 :: real]" and ?cs = "[probe_cand (u ''a''), probe_cand (u ''b'')]"
  have h: "list_all (\<lambda>r. 0 \<le> r) ?raw" "list_ex (\<lambda>r. 0 < r) ?raw" "length ?raw = length ?cs"
    by simp_all
  obtain res where r: "rank_candidates 91 ?raw ?cs = Inr res"
    using rank_candidates_ok [OF h] by blast
  show ?thesis using r rank_ties_keep_input_order [OF h r, of 91] by auto
qed

text \<open>The random ceiling changes more than the magnitude of the scores: because
  the rescaled scores are rounded to two decimals, two candidates can tie under one ceiling
  and not under another, and the ranking order differs.  With raw scores
  \<open>0.4946\<^sup>2, 0.4946\<^sup>2 + \<epsilon>, 1\<close> the order is c, b, a under ceiling 91 and c, a, b under 92.\<close>

theorem ranking_order_depends_on_ceiling:
  "map_sum id (map c_email) (rank_candidates 91 [(45504 / 92000)\<^sup>2, (45506 / 92000)\<^sup>2, 1]
      [probe_cand (u ''b''), probe_cand (u ''a''), probe_cand (u ''c'')]) =
     Inr [Some (u ''c''), Some (u ''b''), Some (u ''a'')] \<and>
   map_sum id (map c_email) (rank_candidates 92 [(45504 / 92000)\<^sup>2, (45506 / 92000)\<^sup>2, 1]
      [probe_cand (u ''b''), probe_cand (u ''a''), probe_cand (u ''c'')]) =
     Inr [Some (u ''c''), Some (u ''a''), Some (u ''b'')]"
proof -
  have "Max (set [(45504 / 92000)\<^sup>2, (45506 / 92000)\<^sup>2, 1 :: real]) = 1"
    by (simp add: power2_eq_square)
  then show ?thesis
    by (simp add: rank_candidates_def normalize_scores_def sort_by_score_def display_score_def
        py_round2_def round_half_even_def Let_def assign_ranks_def del: power2_abs)
qed

end
