(* ===== verification/Service.thy ===== *)
theory Service
  imports ExpWindow WorkHistory Ranker
begin

text \<open>
  The endpoint \<open>rank_resumes\<close> of \<open>src/app.py\<close> (\<open>POST /rank\<close>) as a step function on an
  explicit store.  The two Firestore collections it touches are the fields of the record
  \<open>store\<close>: \<open>resumes\<close> (the documents, in the order the query streams them) and
  \<open>rankings\<close> (\<open>resume_rankings\<close>: a document per job id; \<open>Some None\<close> is a document without
  the key \<open>ranked_resumes\<close>).  The JSON body is an association list (\<open>None\<close> when
  \<open>request.get_json()\<close> gives nothing), its values strings.  The collaborators are the
  fields of \<open>env\<close>: the download and PDF text extraction of a URL (\<open>None\<close> where
  \<open>requests\<close> raises, which the loop's \<open>except\<close> skips), spaCy, the date parser and clock of
  the work-period extractor, the sentence encoder (only whether it raises matters: its
  similarity scores are never used) and the ceiling drawn by \<open>random.randint(91, 99)\<close>.
  Every \<open>return\<close> of the handler is a value of \<open>response\<close>; the exceptions the modelled code
  raises (the ranking's \<open>KeyError\<close>, a failing encoder) are the 500 branch of the
  \<open>except\<close> around the body.
\<close>

section \<open>State, requests and responses\<close>

record resume_doc =
  rd_jobId :: "ustr option"
  rd_url :: "ustr option"
  rd_name :: "ustr option"
  rd_email :: "ustr option"

record store =
  resumes :: "resume_doc list"
  rankings :: "ustr \<Rightarrow> cand list option option"

type_synonym json_body = "(ustr \<times> ustr) list option"

datatype response =
    Resp_ok "cand list"
  | Resp_400 ustr
  | Resp_404 ustr
  | Resp_500 ustr

record env =
  fetch_text :: "ustr \<Rightarrow> ustr option"
  nlp :: "ustr \<Rightarrow> nlp_doc"
  is_stop :: "ustr \<Rightarrow> bool"
  parse_date :: "ustr \<Rightarrow> dtime option"
  now :: dtime
  encode_fails :: "ustr list \<Rightarrow> bool"
  top_score :: nat

section \<open>The cache gate\<close>

text \<open>\<open>{r.get("email") for r in xs if r.get("email")}\<close>\<close>

definition emails_of :: "('a \<Rightarrow> ustr option) \<Rightarrow> 'a list \<Rightarrow> ustr set" where
  "emails_of get xs = set (List.map_filter (\<lambda>r. if truthy (get r) then get r else None) xs)"

text \<open>The cached ranking is returned when the email set it records equals the pool's.\<close>

definition cache_gate :: "cand list option option \<Rightarrow> resume_doc list \<Rightarrow> cand list option" where
  "cache_gate cached_data rs =
     (case cached_data of
        Some (Some ranked) \<Rightarrow> if emails_of c_email ranked = emails_of rd_email rs then Some ranked else None
      | _ \<Rightarrow> None)"

section \<open>Processing the resumes\<close>

text \<open>One iteration of the download loop: the text, name, email and URL of a resume, or
  \<open>None\<close> where the loop \<open>continue\<close>s (no URL, a failed download, blank text).\<close>

definition fetch_resume :: "env \<Rightarrow> resume_doc \<Rightarrow> (ustr \<times> ustr option \<times> ustr option \<times> ustr) option" where
  "fetch_resume e r =
     (case rd_url r of
        None \<Rightarrow> None
      | Some url \<Rightarrow>
          if url = [] then None
          else (case fetch_text e url of
                  None \<Rightarrow> None
                | Some text \<Rightarrow> if py_strip text = [] then None else Some (text, rd_name r, rd_email r, url)))"

text \<open>The job's requirements: normalized skills, normalized qualifications, the window.\<close>

definition job_requirements :: "env \<Rightarrow> ustr \<Rightarrow> ustr list \<times> ustr list \<times> nat option \<times> nat option" where
  "job_requirements e job_description =
     (map normalize_skill (extract_skills_dynamic (nlp e) (is_stop e) job_description),
      map normalize_qualification (extract_qualifications job_description),
      parse_required_experience (extract_experience job_description))"

text \<open>The body of the loop over the resumes: the raw score and the candidate entry.\<close>

definition score_resume ::
  "env \<Rightarrow> ustr list \<times> ustr list \<times> nat option \<times> nat option \<Rightarrow> ustr \<times> ustr option \<times> ustr option \<times> ustr \<Rightarrow> real \<times> cand" where
  "score_resume e job r =
     (case job of (job_skills, job_quals, job_min_exp, job_max_exp) \<Rightarrow>
      case r of (text, name, email, url) \<Rightarrow>
      let resume_skills = map normalize_skill (extract_skills_dynamic (nlp e) (is_stop e) text);
          resume_quals = map normalize_qualification (extract_qualifications text);
          work_section = extract_work_experience_section text;
          total_months = total_experience_in_months (extract_work_periods (parse_date e) (now e) work_section);
          sc = score_candidate job_skills job_quals job_min_exp job_max_exp resume_skills resume_quals total_months
      in (final_score sc,
          \<lparr>c_name = name, c_email = email, c_skills = matched_skills sc, c_quals = matched_quals sc,
           c_experience = format_months total_months, c_match = exp_match_statement (exp_verdict sc),
           c_url = url, c_score = None, c_rank = None\<rparr>))"

section \<open>The handler\<close>

definition job_resumes :: "store \<Rightarrow> ustr \<Rightarrow> resume_doc list" where
  "job_resumes st job_id = filter (\<lambda>r. rd_jobId r = Some job_id) (resumes st)"

text \<open>From the download loop to the cache write: the part of the handler that runs when
  the cache cannot be used.\<close>

definition recompute_ranking :: "env \<Rightarrow> store \<Rightarrow> ustr \<Rightarrow> ustr \<Rightarrow> resume_doc list \<Rightarrow> response \<times> store" where
  "recompute_ranking e st job_id job_description rs =
     (let processed = List.map_filter (fetch_resume e) rs in
      if processed = [] then (Resp_404 (u ''No valid resumes could be processed''), st)
      else if encode_fails e (map (\<lambda>(text, _). preprocess_text text) processed @ [preprocess_text job_description])
      then (Resp_500 (u ''Internal server error occurred while ranking resumes''), st)
      else
      let job = job_requirements e job_description;
          scored = map (score_resume e job) processed
      in case rank_candidates (top_score e) (map fst scored) (map snd scored) of
           Inl _ \<Rightarrow> (Resp_500 (u ''Internal server error occurred while ranking resumes''), st)
         | Inr sorted_results \<Rightarrow>
             (Resp_ok sorted_results, st\<lparr>rankings := (rankings st)(job_id := Some (Some sorted_results))\<rparr>))"

definition rank_resumes :: "env \<Rightarrow> store \<Rightarrow> json_body \<Rightarrow> response \<times> store" where
  "rank_resumes e st data =
     (if data = None \<or> data = Some [] then (Resp_400 (u ''No JSON data provided''), st)
      else
      let body = the data; job_id = map_of body (u ''jobId''); job_description = map_of body (u ''description'')
      in if \<not> truthy job_id \<or> \<not> truthy job_description
         then (Resp_400 (u ''jobId and jobDescription are required''), st)
      else
      let job_id = the job_id; job_description = the job_description; rs = job_resumes st job_id in
      if rs = [] then (Resp_404 (u ''No resumes found for this job''), st)
      else case cache_gate (rankings st job_id) rs of
        Some cached \<Rightarrow> (Resp_ok cached, st)
      | None \<Rightarrow> recompute_ranking e st job_id job_description rs)"

section \<open>What the service promises\<close>

text \<open>The job id and description of a request that passes the two validations.\<close>

definition request_fields :: "json_body \<Rightarrow> (ustr \<times> ustr) option" where
  "request_fields d =
     (case d of
        None \<Rightarrow> None
      | Some body \<Rightarrow>
          (case (map_of body (u ''jobId''), map_of body (u ''description'')) of
             (Some j, Some desc) \<Rightarrow> if j \<noteq> [] \<and> desc \<noteq> [] then Some (j, desc) else None
           | _ \<Rightarrow> None))"

text \<open>The URL and email of each resume that has a URL: a ranked candidate stands for one
  of them.\<close>

definition resume_keys :: "resume_doc list \<Rightarrow> (ustr \<times> ustr option) list" where
  "resume_keys rs = List.map_filter (\<lambda>r. case rd_url r of None \<Rightarrow> None
                                       | Some url \<Rightarrow> if url = [] then None else Some (url, rd_email r)) rs"

definition cand_key :: "cand \<Rightarrow> ustr \<times> ustr option" where
  "cand_key c = (c_url c, c_email c)"

text \<open>A ranked list: ranks 1..n in list order, every score set, scores non-increasing.\<close>

definition well_ranked :: "cand list \<Rightarrow> bool" where
  "well_ranked l \<longleftrightarrow> map c_rank l = map (\<lambda>i. Some (Suc i)) [0..<length l] \<and>
     list_all (\<lambda>c. c_score c \<noteq> None) l \<and> sorted_wrt (\<lambda>a b. b \<le> a) (map (\<lambda>c. the (c_score c)) l)"

definition snapshot_stale :: "store \<Rightarrow> ustr \<Rightarrow> bool" where
  "snapshot_stale st j \<longleftrightarrow>
     (\<forall>l. rankings st j = Some (Some l) \<longrightarrow> emails_of c_email l \<noteq> emails_of rd_email (job_resumes st j))"

text \<open>The contract of the endpoint (the spec's cache gate, ranker and error taxonomy): an
  invalid request is refused; a job without resumes is reported; a snapshot whose email set
  is the pool's is returned as stored; otherwise the pool is ranked afresh and the snapshot
  overwritten with the answer, or the request ends in 404 (no usable resume) or 500, and
  nothing is written.\<close>

inductive service_spec :: "store \<Rightarrow> json_body \<Rightarrow> response \<Rightarrow> store \<Rightarrow> bool" where
  rejected: "request_fields d = None \<Longrightarrow> service_spec st d (Resp_400 m) st"
| no_candidates: "request_fields d = Some (j, desc) \<Longrightarrow> job_resumes st j = [] \<Longrightarrow>
    service_spec st d (Resp_404 m) st"
| reused: "request_fields d = Some (j, desc) \<Longrightarrow> job_resumes st j \<noteq> [] \<Longrightarrow>
    rankings st j = Some (Some l) \<Longrightarrow> emails_of c_email l = emails_of rd_email (job_resumes st j) \<Longrightarrow>
    service_spec st d (Resp_ok l) st"
| recomputed: "request_fields d = Some (j, desc) \<Longrightarrow> job_resumes st j \<noteq> [] \<Longrightarrow> snapshot_stale st j \<Longrightarrow>
    l \<noteq> [] \<Longrightarrow> well_ranked l \<Longrightarrow> mset (map cand_key l) \<subseteq># mset (resume_keys (job_resumes st j)) \<Longrightarrow>
    service_spec st d (Resp_ok l) (st\<lparr>rankings := (rankings st)(j := Some (Some l))\<rparr>)"
| unusable: "request_fields d = Some (j, desc) \<Longrightarrow> job_resumes st j \<noteq> [] \<Longrightarrow> snapshot_stale st j \<Longrightarrow>
    service_spec st d (Resp_404 m) st"
| failed: "request_fields d = Some (j, desc) \<Longrightarrow> job_resumes st j \<noteq> [] \<Longrightarrow> snapshot_stale st j \<Longrightarrow>
    service_spec st d (Resp_500 m) st"

text \<open>The stores the service can meet: any resumes and no snapshot at first; then resumes
  are submitted and requests served, each with its collaborators and a ceiling from
  \<open>random.randint(91, 99)\<close>.\<close>

inductive reachable :: "store \<Rightarrow> bool" where
  init: "reachable \<lparr>resumes = rs, rankings = (\<lambda>_. None)\<rparr>"
| submit: "reachable st \<Longrightarrow> reachable (st\<lparr>resumes := resumes st @ [r]\<rparr>)"
| serve: "reachable st \<Longrightarrow> 91 \<le> top_score e \<Longrightarrow> top_score e \<le> 99 \<Longrightarrow> rank_resumes e st d = (resp, st') \<Longrightarrow>
    reachable st'"

definition displayable :: "cand list \<Rightarrow> bool" where
  "displayable l \<longleftrightarrow> well_ranked l \<and> list_all (\<lambda>c. 0 \<le> the (c_score c) \<and> the (c_score c) \<le> 99) l"

definition store_inv :: "store \<Rightarrow> bool" where
  "store_inv st \<longleftrightarrow> (\<forall>j l. rankings st j = Some (Some l) \<longrightarrow> displayable l)"

section \<open>Example data\<close>

text \<open>A job \<open>j1\<close> whose description is \<open>python\<close>; collaborators under which every text
  yields the noun chunk \<open>python\<close>, every URL downloads the text \<open>python\<close> and the encoder
  succeeds; \<open>ex_env_noskill\<close> is the same with a spaCy that finds nothing.\<close>

definition ex_env :: env where
  "ex_env = \<lparr>fetch_text = (\<lambda>_. Some (u ''python'')), nlp = (\<lambda>_. \<lparr>noun_chunks = [u ''python''], ents = []\<rparr>),
     is_stop = (\<lambda>_. False), parse_date = (\<lambda>_. None), now = (2026, 11, 9, 0), encode_fails = (\<lambda>_. False),
     top_score = 91\<rparr>"

definition ex_env_noskill :: env where
  "ex_env_noskill = ex_env\<lparr>nlp := (\<lambda>_. \<lparr>noun_chunks = [], ents = []\<rparr>)\<rparr>"

definition ex_resume_a :: resume_doc where
  "ex_resume_a = \<lparr>rd_jobId = Some (u ''j1''), rd_url = Some (u ''u1''), rd_name = Some (u ''A''), rd_email = Some (u ''a'')\<rparr>"

definition ex_resume_b :: resume_doc where
  "ex_resume_b = \<lparr>rd_jobId = Some (u ''j1''), rd_url = None, rd_name = Some (u ''B''), rd_email = Some (u ''b'')\<rparr>"

definition ex_request :: json_body where
  "ex_request = Some [(u ''jobId'', u ''j1''), (u ''description'', u ''python'')]"

definition ex_cand :: cand where
  "ex_cand = \<lparr>c_name = Some (u ''A''), c_email = Some (u ''a''), c_skills = {u ''python''}, c_quals = {},
     c_experience = u ''0 months'', c_match = u ''No experience requirement specified'', c_url = u ''u1'',
     c_score = None, c_rank = None\<rparr>"

section \<open>Lemmas\<close>

lemma job_resumes_rankings [simp]: "job_resumes (st\<lparr>rankings := x\<rparr>) j = job_resumes st j"
  by (simp add: job_resumes_def)

text \<open>The handler in the shape of its contract: validation, the pool, the gate.\<close>

lemma rank_resumes_fields:
  "rank_resumes e st d =
     (case request_fields d of
        None \<Rightarrow> (Resp_400 (if d = None \<or> d = Some [] then u ''No JSON data provided''
                          else u ''jobId and jobDescription are required''), st)
      | Some (j, desc) \<Rightarrow>
          if job_resumes st j = [] then (Resp_404 (u ''No resumes found for this job''), st)
          else case cache_gate (rankings st j) (job_resumes st j) of
                 Some cached \<Rightarrow> (Resp_ok cached, st)
               | None \<Rightarrow> recompute_ranking e st j desc (job_resumes st j))"
  by (auto simp: rank_resumes_def request_fields_def Let_def split: option.split)

lemma cache_gate_Some:
  "cache_gate c rs = Some l \<longleftrightarrow> c = Some (Some l) \<and> emails_of c_email l = emails_of rd_email rs"
  by (auto simp: cache_gate_def split: option.splits)

lemma cache_gate_None:
  "cache_gate (rankings st j) (job_resumes st j) = None \<longleftrightarrow> snapshot_stale st j"
  by (auto simp: cache_gate_def snapshot_stale_def split: option.splits)

lemma score_resume_fields:
  "0 \<le> fst (score_resume e job r) \<and> c_score (snd (score_resume e job r)) = None \<and>
   cand_key (snd (score_resume e job r)) = (case r of (_, _, m, url) \<Rightarrow> (url, m))"
  by (auto simp: score_resume_def Let_def cand_key_def final_score_eq skill_f1_nonneg split: prod.split)

lemma resume_keys_Cons:
  "resume_keys (r # rs) = (case rd_url r of None \<Rightarrow> resume_keys rs
     | Some url \<Rightarrow> if url = [] then resume_keys rs else (url, rd_email r) # resume_keys rs)"
  by (simp add: resume_keys_def split: option.split)

lemma resume_keys_Cons_sub: "mset (resume_keys rs) \<subseteq># mset (resume_keys (r # rs))"
  by (simp add: resume_keys_Cons split: option.split)

lemma fetch_resume_Some:
  "fetch_resume e r = Some (t, n, m, url) \<Longrightarrow> rd_url r = Some url \<and> url \<noteq> [] \<and> m = rd_email r"
  by (auto simp: fetch_resume_def split: option.splits if_splits)

lemma fetch_resume_keys:
  "mset (map (\<lambda>(_, _, m, url). (url, m)) (List.map_filter (fetch_resume e) rs)) \<subseteq># mset (resume_keys rs)"
proof (induction rs)
  case (Cons r rs)
  show ?case
  proof (cases "fetch_resume e r")
    case None
    then show ?thesis using Cons.IH resume_keys_Cons_sub [of rs r] by (simp add: subset_mset.order_trans)
  next
    case (Some x)
    obtain t n m url where x: "x = (t, n, m, url)" by (cases x) auto
    with Some have "rd_url r = Some url \<and> url \<noteq> [] \<and> m = rd_email r" by (simp add: fetch_resume_Some)
    then show ?thesis using Cons.IH Some x by (simp add: resume_keys_Cons)
  qed
qed (simp add: resume_keys_def)

lemma cand_key_unscored [simp]: "cand_key (unscored c) = cand_key c"
  by (simp add: cand_key_def unscored_def)

lemma mset_cand_keys:
  assumes "mset (map unscored l) = mset (map unscored cs)"
  shows "mset (map cand_key l) = mset (map cand_key cs)"
proof -
  have "mset (map cand_key l) = image_mset cand_key (mset (map unscored l))"
    by (simp add: multiset.map_comp comp_def)
  also have "\<dots> = image_mset cand_key (mset (map unscored cs))" by (simp only: assms)
  also have "\<dots> = mset (map cand_key cs)" by (simp add: multiset.map_comp comp_def)
  finally show ?thesis .
qed

lemma recompute_ranking_ok:
  assumes "recompute_ranking e st j desc rs = (Resp_ok l, st')"
  shows "st' = st\<lparr>rankings := (rankings st)(j := Some (Some l))\<rparr> \<and> l \<noteq> [] \<and> well_ranked l \<and>
    list_all (\<lambda>c. 0 \<le> the (c_score c) \<and> the (c_score c) \<le> real (top_score e)) l \<and>
    mset (map cand_key l) = mset (map (\<lambda>(_, _, m, url). (url, m)) (List.map_filter (fetch_resume e) rs))"
proof -
  let ?P = "List.map_filter (fetch_resume e) rs"
  let ?sc = "map (score_resume e (job_requirements e desc)) ?P"
  have P: "?P \<noteq> []" and rk: "rank_candidates (top_score e) (map fst ?sc) (map snd ?sc) = Inr l"
    and st': "st' = st\<lparr>rankings := (rankings st)(j := Some (Some l))\<rparr>"
    using assms by (auto simp: recompute_ranking_def Let_def split: if_splits sum.splits)
  have "list_all (\<lambda>r. 0 \<le> r) (map fst ?sc)" "list_all (\<lambda>c. c_score c = None) (map snd ?sc)"
    using score_resume_fields by (simp_all add: list_all_iff)
  from rank_candidates_Inr [OF this(1) _ this(2) rk]
  have R: "map c_rank l = map (\<lambda>i. Some (Suc i)) [0..<length l]" "list_all (\<lambda>c. c_score c \<noteq> None) l"
    "sorted_wrt (\<lambda>a b. b \<le> a) (map (\<lambda>c. the (c_score c)) l)"
    "list_all (\<lambda>c. 0 \<le> the (c_score c) \<and> the (c_score c) \<le> real (top_score e)) l"
    "mset (map unscored l) = mset (map unscored (map snd ?sc))" by simp_all
  have eq: "map cand_key (map snd ?sc) = map (\<lambda>(_, _, m, url). (url, m)) ?P"
    using score_resume_fields by (simp add: map_eq_conv)
  from mset_cand_keys [OF R(5)] have keys: "mset (map cand_key l) = mset (map (\<lambda>(_, _, m, url). (url, m)) ?P)"
    by (simp only: eq)
  then have "length l = length ?P" by (metis length_map size_mset)
  with P have "l \<noteq> []" by auto
  with st' R keys show ?thesis by (simp add: well_ranked_def)
qed

lemma recompute_ranking_other:
  "recompute_ranking e st j desc rs = (resp, st') \<Longrightarrow> \<forall>l. resp \<noteq> Resp_ok l \<Longrightarrow>
   st' = st \<and> (\<exists>m. resp = Resp_404 m \<or> resp = Resp_500 m)"
  by (auto simp: recompute_ranking_def Let_def split: if_splits sum.splits)

lemma emails_of_eq: "emails_of get xs = {e. e \<noteq> [] \<and> Some e \<in> get ` set xs}"
proof -
  have "(if truthy (get r) then get r else None) = Some e \<longleftrightarrow> get r = Some e \<and> e \<noteq> []" for r e
    by (cases "get r") auto
  then show ?thesis by (auto simp: emails_of_def set_map_filter image_iff intro: sym)
qed

lemma fetched_emails:
  "list_all (\<lambda>r. fetch_resume e r \<noteq> None) rs \<Longrightarrow>
   map (\<lambda>(_, _, m, url). m) (List.map_filter (fetch_resume e) rs) = map rd_email rs"
proof (induction rs)
  case (Cons r rs)
  from Cons.prems obtain t n m url where f: "fetch_resume e r = Some (t, n, m, url)"
    by (cases "fetch_resume e r") auto
  then have "m = rd_email r" by (simp add: fetch_resume_Some)
  with f Cons show ?case by simp
qed simp

lemma cand_emails:
  assumes "mset (map cand_key l) = mset (map (\<lambda>(_, _, m, url). (url, m)) P)"
  shows "c_email ` set l = (\<lambda>(_, _, m, url). m) ` set P"
proof -
  have "set (map cand_key l) = set (map (\<lambda>(_, _, m, url). (url, m)) P)"
    using arg_cong [OF assms, of set_mset] by (simp only: set_mset_mset)
  then have "snd ` set (map cand_key l) = snd ` set (map (\<lambda>(_, _, m, url). (url, m)) P)" by (rule arg_cong)
  then show ?thesis by (simp add: image_image cand_key_def case_prod_beta)
qed

text \<open>Every successful answer from a store whose snapshots are displayable is displayable,
  and the store stays so.\<close>

lemma rank_resumes_inv:
  assumes inv: "store_inv st" and top: "top_score e \<le> 99" and run: "rank_resumes e st d = (resp, st')"
  shows "store_inv st' \<and> (\<forall>l. resp = Resp_ok l \<longrightarrow> displayable l)"
proof (cases "request_fields d")
  case None
  with run show ?thesis using inv by (auto simp: rank_resumes_fields)
next
  case (Some f)
  obtain j desc where f: "request_fields d = Some (j, desc)" using Some by (cases f) auto
  show ?thesis
  proof (cases "job_resumes st j = []")
    case True
    with run f show ?thesis using inv by (auto simp: rank_resumes_fields)
  next
    case ne: False
    show ?thesis
    proof (cases "cache_gate (rankings st j) (job_resumes st j)")
      case (Some l)
      with run f ne have "resp = Resp_ok l" "st' = st" by (simp_all add: rank_resumes_fields)
      moreover from Some have "rankings st j = Some (Some l)" by (simp add: cache_gate_Some)
      ultimately show ?thesis using inv by (auto simp: store_inv_def)
    next
      case None
      have rc: "recompute_ranking e st j desc (job_resumes st j) = (resp, st')"
        using run f ne None by (simp add: rank_resumes_fields)
      show ?thesis
      proof (cases "\<exists>l. resp = Resp_ok l")
        case True
        then obtain l where r: "resp = Resp_ok l" by blast
        note ok = recompute_ranking_ok [OF rc [unfolded r]]
        from ok have st': "st' = st\<lparr>rankings := (rankings st)(j := Some (Some l))\<rparr>" by (rule conjunct1)
        from ok have w: "well_ranked l" by blast
        from ok have "list_all (\<lambda>c. 0 \<le> the (c_score c) \<and> the (c_score c) \<le> real (top_score e)) l" by blast
        with top have "list_all (\<lambda>c. 0 \<le> the (c_score c) \<and> the (c_score c) \<le> 99) l"
          by (auto simp: list_all_iff intro: order_trans [of _ "real (top_score e)"])
        with w have "displayable l" by (simp add: displayable_def)
        with inv r st' show ?thesis by (simp add: store_inv_def)
      next
        case False
        with recompute_ranking_other [OF rc] inv show ?thesis by auto
      qed
    qed
  qed
qed

lemma reachable_store_inv: "reachable st \<Longrightarrow> store_inv st"
proof (induction rule: reachable.induct)
  case (init rs)
  then show ?case by (simp add: store_inv_def)
next
  case (submit st r)
  then show ?case by (simp add: store_inv_def)
next
  case (serve st e d resp st')
  from rank_resumes_inv [OF serve.IH serve.hyps(3,4)] show ?case by (rule conjunct1)
qed

text \<open>With no skill in the job description every raw score is 0, so a ranking never
  succeeds.\<close>

lemma rank_candidates_unscored_fail:
  assumes "list_all (\<lambda>r. r \<le> 0) raw" "cs \<noteq> []" "list_all (\<lambda>c. c_score c = None) cs"
  shows "rank_candidates tp raw cs = Inl KeyError"
proof -
  from assms(2,3) have "list_ex (\<lambda>c. c_score c = None) cs" by (cases cs) simp_all
  then show ?thesis by (simp add: rank_candidates_def normalize_scores_no_positive [OF assms(1)] sort_by_score_def)
qed

lemma score_resume_no_skills: "fst (score_resume e ([], jq, w) r) = 0"
  by (simp add: score_resume_def Let_def final_score_eq skill_f1_def split: prod.split)

lemma recompute_ranking_no_skills:
  assumes "extract_skills_dynamic (nlp e) (is_stop e) desc = []"
  shows "snd (recompute_ranking e st j desc rs) = st \<and> (\<forall>l. fst (recompute_ranking e st j desc rs) \<noteq> Resp_ok l)"
proof -
  define P where "P = List.map_filter (fetch_resume e) rs"
  define sc where "sc = map (score_resume e (job_requirements e desc)) P"
  have z: "list_all (\<lambda>r. r \<le> 0) (map fst sc)"
    using assms by (simp add: sc_def list_all_iff job_requirements_def score_resume_no_skills)
  have n: "list_all (\<lambda>c. c_score c = None) (map snd sc)"
    using score_resume_fields by (simp add: sc_def list_all_iff)
  have "rank_candidates (top_score e) (map fst sc) (map snd sc) = Inl KeyError" if "P \<noteq> []"
    using that z n by (intro rank_candidates_unscored_fail) (simp_all add: sc_def)
  then show ?thesis
    unfolding recompute_ranking_def Let_def P_def [symmetric] sc_def [symmetric] by (auto split: sum.split)
qed

lemma recompute_ranking_processed:
  "List.map_filter (fetch_resume e) rs = List.map_filter (fetch_resume e) rs' \<Longrightarrow>
   recompute_ranking e st j desc rs = recompute_ranking e st j desc rs'"
  by (simp add: recompute_ranking_def)

lemma recompute_ranking_resumes:
  assumes "recompute_ranking e st j desc rs = (resp, st')"
  shows "resumes st' = resumes st"
proof (cases "\<exists>l. resp = Resp_ok l")
  case True
  then obtain l where "resp = Resp_ok l" by blast
  from recompute_ranking_ok [OF assms [unfolded this]] show ?thesis by (elim conjE) simp
next
  case False
  then have "\<forall>l. resp \<noteq> Resp_ok l" by blast
  from recompute_ranking_other [OF assms this] show ?thesis by simp
qed

lemma rank_resumes_resumes:
  "rank_resumes e st d = (resp, st') \<Longrightarrow> resumes st' = resumes st"
  by (auto simp: rank_resumes_fields dest: recompute_ranking_resumes split: option.splits if_splits)

text \<open>The email set of a fresh snapshot is that of the resumes that could be downloaded.\<close>

lemma recompute_snapshot_emails:
  assumes "recompute_ranking e st j desc rs = (Resp_ok l, st')"
  shows "c_email ` set l = (\<lambda>(_, _, m, url). m) ` set (List.map_filter (fetch_resume e) rs)"
proof -
  from recompute_ranking_ok [OF assms]
  have "mset (map cand_key l) = mset (map (\<lambda>(_, _, m, url). (url, m)) (List.map_filter (fetch_resume e) rs))"
    by (elim conjE)
  then show ?thesis by (rule cand_emails)
qed

lemma snapshot_email_fetched:
  assumes "recompute_ranking e st j desc rs = (Resp_ok l, st')" "Some m \<in> c_email ` set l"
  shows "\<exists>r\<in>set rs. fetch_resume e r \<noteq> None \<and> rd_email r = Some m"
proof -
  from assms(2) have "Some m \<in> (\<lambda>(_, _, m, url). m) ` set (List.map_filter (fetch_resume e) rs)"
    by (simp only: recompute_snapshot_emails [OF assms(1)])
  then obtain p where p: "p \<in> set (List.map_filter (fetch_resume e) rs)" "Some m = (\<lambda>(_, _, m, url). m) p"
    by (rule imageE)
  obtain t n m' url where pe: "p = (t, n, m', url)" by (cases p)
  from p(1) obtain r where r: "r \<in> set rs" "fetch_resume e r = Some p" by (auto simp: set_map_filter)
  with pe have "rd_email r = m'" using fetch_resume_Some [of e r t n m' url] by simp
  with r p(2) pe have "fetch_resume e r \<noteq> None \<and> rd_email r = Some m" by simp
  with r(1) show ?thesis by blast
qed

subsection \<open>Evaluating the example\<close>

lemma ex_skills: "extract_skills_dynamic (\<lambda>_. \<lparr>noun_chunks = [u ''python''], ents = []\<rparr>) (\<lambda>_. False) (u ''python'') = [u ''python'']"
  by (simp add: extract_skills_dynamic_def extract_qualifications_def rx_findall_def rx_scan.simps qual_pat_def
      qual_vocab_def rx_defs pychar py_strip_def)

lemma ex_quals: "extract_qualifications (u ''python'') = []"
  by (simp add: extract_qualifications_def rx_findall_def rx_scan.simps qual_pat_def qual_vocab_def rx_defs pychar)

lemma ex_exps: "extract_experience (u ''python'') = []"
  by (simp add: extract_experience_def rx_findall_def rx_scan.simps exp_pats rx_defs pychar)

lemma ex_section: "extract_work_experience_section (u ''python'') = []"
  by (simp add: section_eval)

lemma ex_norm: "normalize_skill (u ''python'') = u ''python''"
  by (simp add: normalize_skill_def skill_sep_def skill_char_def py_endswith_def pychar)

lemma ex_no_periods: "extract_work_periods p t [] = []"
  by (simp add: extract_work_periods_def rx_findall_def rx_scan.simps period_pat_def month_year_pat_def mm_yyyy_pat_def rx_defs)

lemma ex_job: "job_requirements ex_env (u ''python'') = ([u ''python''], [], None, None)"
  by (simp add: job_requirements_def ex_env_def ex_skills [simplified] ex_quals [simplified] ex_exps [simplified]
      ex_norm [simplified] parse_required_experience_def)

lemma ex_score: "score_resume ex_env ([u ''python''], [], None, None) (u ''python'', Some (u ''A''), Some (u ''a''), u ''u1'') =
    (3 / 10, ex_cand)"
  by (simp add: score_resume_def Let_def ex_env_def ex_skills [simplified] ex_quals [simplified] ex_section [simplified]
     ex_norm [simplified] ex_no_periods total_experience_in_months_def score_candidate_def experience_match_def skill_f1_def
     penalty_applies_def format_months_def nat_str.simps exp_match_statement_def ex_cand_def)

lemma ex_rank: "rank_candidates 91 [3 / 10] [ex_cand] = Inr [ex_cand\<lparr>c_score := Some 91, c_rank := Some 1\<rparr>]"
  by (simp add: rank_candidates_def normalize_scores_def display_score_def sort_by_score_def assign_ranks_def ex_cand_def
      py_round2_of_nat [of 91, simplified])

lemma ex_fetch: "fetch_resume ex_env ex_resume_a = Some (u ''python'', Some (u ''A''), Some (u ''a''), u ''u1'')"
    "fetch_resume e ex_resume_b = None"
  by (simp_all add: fetch_resume_def ex_env_def ex_resume_a_def ex_resume_b_def py_strip_def pychar)

lemma ex_fields: "request_fields ex_request = Some (u ''j1'', u ''python'')"
  by (simp add: request_fields_def ex_request_def)

lemma ex_recompute:
  "recompute_ranking ex_env st (u ''j1'') (u ''python'') [ex_resume_a] =
     (Resp_ok [ex_cand\<lparr>c_score := Some 91, c_rank := Some 1\<rparr>],
      st\<lparr>rankings := (rankings st)(u ''j1'' := Some (Some [ex_cand\<lparr>c_score := Some 91, c_rank := Some 1\<rparr>]))\<rparr>)"
proof -
  have "\<not> encode_fails ex_env xs" "top_score ex_env = 91" for xs by (simp_all add: ex_env_def)
  then show ?thesis
    by (simp add: recompute_ranking_def Let_def ex_fetch [simplified] ex_job [simplified] ex_score [simplified] ex_rank)
qed

lemma ex_noskill_skills: "extract_skills_dynamic (\<lambda>_. \<lparr>noun_chunks = [], ents = []\<rparr>) (\<lambda>_. False) (u ''python'') = []"
  by (simp add: extract_skills_dynamic_def)

lemma ex_run:
  "rank_resumes ex_env \<lparr>resumes = [ex_resume_a], rankings = (\<lambda>_. None)\<rparr> ex_request =
     (Resp_ok [ex_cand\<lparr>c_score := Some 91, c_rank := Some 1\<rparr>],
      \<lparr>resumes = [ex_resume_a], rankings = (\<lambda>_. None)(u ''j1'' := Some (Some [ex_cand\<lparr>c_score := Some 91, c_rank := Some 1\<rparr>]))\<rparr>)"
proof -
  have "job_resumes \<lparr>resumes = [ex_resume_a], rankings = (\<lambda>_. None)\<rparr> (u ''j1'') = [ex_resume_a]"
    by (simp add: job_resumes_def ex_resume_a_def)
  then show ?thesis by (simp add: rank_resumes_fields ex_fields cache_gate_def ex_recompute [simplified])
qed

lemma ex_run_b:
  "rank_resumes ex_env \<lparr>resumes = [ex_resume_a, ex_resume_b], rankings = (\<lambda>_. None)\<rparr> ex_request =
     (Resp_ok [ex_cand\<lparr>c_score := Some 91, c_rank := Some 1\<rparr>],
      \<lparr>resumes = [ex_resume_a, ex_resume_b],
       rankings = (\<lambda>_. None)(u ''j1'' := Some (Some [ex_cand\<lparr>c_score := Some 91, c_rank := Some 1\<rparr>]))\<rparr>)"
proof -
  let ?st = "\<lparr>resumes = [ex_resume_a, ex_resume_b], rankings = (\<lambda>_. None)\<rparr>"
  have jr: "job_resumes ?st (u ''j1'') = [ex_resume_a, ex_resume_b]"
    by (simp add: job_resumes_def ex_resume_a_def ex_resume_b_def)
  have "recompute_ranking ex_env ?st (u ''j1'') (u ''python'') [ex_resume_a, ex_resume_b] =
        recompute_ranking ex_env ?st (u ''j1'') (u ''python'') [ex_resume_a]"
    by (rule recompute_ranking_processed) (simp add: ex_fetch)
  with jr show ?thesis
    by (simp add: rank_resumes_fields ex_fields cache_gate_def ex_recompute [simplified])
qed

lemma ex_noskill_fetch: "fetch_resume ex_env_noskill ex_resume_a = Some (u ''python'', Some (u ''A''), Some (u ''a''), u ''u1'')"
  by (simp add: fetch_resume_def ex_env_noskill_def ex_env_def ex_resume_a_def py_strip_def pychar)

lemma ex_noskill_job: "job_requirements ex_env_noskill (u ''python'') = ([], [], None, None)"
  by (simp add: job_requirements_def ex_env_noskill_def ex_env_def ex_noskill_skills [simplified] ex_quals [simplified]
      ex_exps [simplified] parse_required_experience_def)

lemma ex_noskill_rank:
  "rank_candidates tp [fst (score_resume e ([], jq, w) x)] [snd (score_resume e ([], jq, w) x)] = Inl KeyError"
  by (rule rank_candidates_unscored_fail) (simp_all add: score_resume_no_skills score_resume_fields)

lemma ex_noskill_recompute:
  "recompute_ranking ex_env_noskill st (u ''j1'') (u ''python'') [ex_resume_a] =
     (Resp_500 (u ''Internal server error occurred while ranking resumes''), st)"
proof -
  have "\<not> encode_fails ex_env_noskill xs" for xs by (simp add: ex_env_noskill_def ex_env_def)
  then show ?thesis
    by (simp add: recompute_ranking_def Let_def ex_noskill_fetch [simplified] ex_noskill_job [simplified] ex_noskill_rank)
qed

lemma ex_noskill_run:
  "rank_resumes ex_env_noskill \<lparr>resumes = [ex_resume_a], rankings = (\<lambda>_. None)\<rparr> ex_request =
     (Resp_500 (u ''Internal server error occurred while ranking resumes''), \<lparr>resumes = [ex_resume_a], rankings = (\<lambda>_. None)\<rparr>)"
proof -
  have "job_resumes \<lparr>resumes = [ex_resume_a], rankings = (\<lambda>_. None)\<rparr> (u ''j1'') = [ex_resume_a]"
    by (simp add: job_resumes_def ex_resume_a_def)
  then show ?thesis by (simp add: rank_resumes_fields ex_fields cache_gate_def ex_noskill_recompute [simplified])
qed

section \<open>Properties\<close>

text \<open>C6: the handler implements the contract of the endpoint: every request it
  answers is answered as \<open>service_spec\<close> allows, in particular a fresh answer is a non-empty
  well-ranked list with one entry per distinct resume of the job (by URL and email) and is
  stored as the job's snapshot, and a reused answer is a snapshot whose email set is the
  pool's.\<close>

theorem rank_resumes_refines:
  assumes "rank_resumes e st d = (resp, st')"
  shows "service_spec st d resp st'"
proof (cases "request_fields d")
  case None
  with assms have "resp = Resp_400 (if d = None \<or> d = Some [] then u ''No JSON data provided''
      else u ''jobId and jobDescription are required'') \<and> st' = st"
    by (simp add: rank_resumes_fields)
  with None show ?thesis by (simp add: service_spec.rejected)
next
  case (Some f)
  obtain j desc where f: "request_fields d = Some (j, desc)" using Some by (cases f) auto
  show ?thesis
  proof (cases "job_resumes st j = []")
    case True
    with assms f have "resp = Resp_404 (u ''No resumes found for this job'')" "st' = st"
      by (simp_all add: rank_resumes_fields)
    with f True show ?thesis by (simp add: service_spec.no_candidates)
  next
    case ne: False
    show ?thesis
    proof (cases "cache_gate (rankings st j) (job_resumes st j)")
      case (Some l)
      with assms f ne have "resp = Resp_ok l" "st' = st" by (simp_all add: rank_resumes_fields)
      with f ne Some show ?thesis by (auto simp: cache_gate_Some intro: service_spec.reused)
    next
      case None
      then have stale: "snapshot_stale st j" by (simp add: cache_gate_None)
      have rc: "recompute_ranking e st j desc (job_resumes st j) = (resp, st')"
        using assms f ne None by (simp add: rank_resumes_fields)
      show ?thesis
      proof (cases "\<exists>l. resp = Resp_ok l")
        case True
        then obtain l where r: "resp = Resp_ok l" by blast
        note ok = recompute_ranking_ok [OF rc [unfolded r]]
        then have "mset (map cand_key l) \<subseteq># mset (resume_keys (job_resumes st j))"
          using fetch_resume_keys [of e "job_resumes st j"] by simp
        with ok f ne stale r show ?thesis by (auto intro: service_spec.recomputed)
      next
        case False
        with recompute_ranking_other [OF rc] f ne stale show ?thesis
          by (auto intro: service_spec.unusable service_spec.failed)
      qed
    qed
  qed
qed

theorem rank_resumes_refines_witness:
  "rank_resumes ex_env \<lparr>resumes = [ex_resume_a], rankings = (\<lambda>_. None)\<rparr> ex_request =
     (Resp_ok [ex_cand\<lparr>c_score := Some 91, c_rank := Some 1\<rparr>],
      \<lparr>resumes = [ex_resume_a], rankings = (\<lambda>_. None)(u ''j1'' := Some (Some [ex_cand\<lparr>c_score := Some 91, c_rank := Some 1\<rparr>]))\<rparr>) \<and>
   service_spec \<lparr>resumes = [ex_resume_a], rankings = (\<lambda>_. None)\<rparr> ex_request
     (Resp_ok [ex_cand\<lparr>c_score := Some 91, c_rank := Some 1\<rparr>])
     \<lparr>resumes = [ex_resume_a], rankings = (\<lambda>_. None)(u ''j1'' := Some (Some [ex_cand\<lparr>c_score := Some 91, c_rank := Some 1\<rparr>]))\<rparr>"
  using ex_run rank_resumes_refines [OF ex_run] by blast

text \<open>C7: in every store the service can reach, a request served with a ceiling of at
  most 99 is answered, whether from the snapshot or afresh, with a well-ranked list whose
  display scores lie in [0, 99].\<close>

theorem reachable_answers_displayable:
  assumes "reachable st" "top_score e \<le> 99" "rank_resumes e st d = (Resp_ok l, st')"
  shows "displayable l"
  using rank_resumes_inv [OF reachable_store_inv [OF assms(1)] assms(2,3)] by simp

theorem reachable_answers_displayable_witness:
  "reachable \<lparr>resumes = [ex_resume_a], rankings = (\<lambda>_. None)\<rparr> \<and> top_score ex_env \<le> 99 \<and>
   rank_resumes ex_env \<lparr>resumes = [ex_resume_a], rankings = (\<lambda>_. None)\<rparr> ex_request =
     (Resp_ok [ex_cand\<lparr>c_score := Some 91, c_rank := Some 1\<rparr>],
      \<lparr>resumes = [ex_resume_a], rankings = (\<lambda>_. None)(u ''j1'' := Some (Some [ex_cand\<lparr>c_score := Some 91, c_rank := Some 1\<rparr>]))\<rparr>) \<and>
   displayable [ex_cand\<lparr>c_score := Some 91, c_rank := Some 1\<rparr>]"
proof -
  have r: "reachable \<lparr>resumes = [ex_resume_a], rankings = (\<lambda>_. None)\<rparr>" by (rule reachable.init)
  have t: "top_score ex_env \<le> 99" by (simp add: ex_env_def)
  show ?thesis by (intro conjI r t ex_run reachable_answers_displayable [OF r t ex_run])
qed

text \<open>C8: once a request has been answered with a ranking, and every resume of the
  store could be downloaded, the same request against the resulting store is answered with the
  same ranking from the snapshot, whatever the collaborators (the ceiling drawn, the model) are
  then, and the store is left as it is.\<close>

theorem rank_resumes_repeat:
  assumes run: "rank_resumes e st d = (Resp_ok l, st')"
    and fetched: "list_all (\<lambda>r. fetch_resume e r \<noteq> None) (resumes st)"
  shows "rank_resumes e' st' d = (Resp_ok l, st')"
proof (cases "request_fields d")
  case None
  with run show ?thesis by (simp add: rank_resumes_fields)
next
  case (Some f)
  obtain j desc where f: "request_fields d = Some (j, desc)" using Some by (cases f) auto
  have ne: "job_resumes st j \<noteq> []"
  proof
    assume "job_resumes st j = []"
    with run f show False by (simp add: rank_resumes_fields)
  qed
  show ?thesis
  proof (cases "cache_gate (rankings st j) (job_resumes st j)")
    case (Some c)
    with run f ne have "l = c" "st' = st" by (simp_all add: rank_resumes_fields)
    with Some f ne show ?thesis by (simp add: rank_resumes_fields)
  next
    case None
    have rc: "recompute_ranking e st j desc (job_resumes st j) = (Resp_ok l, st')"
      using run f ne None by (simp add: rank_resumes_fields)
    from recompute_ranking_ok [OF rc]
    have st': "st' = st\<lparr>rankings := (rankings st)(j := Some (Some l))\<rparr>" by (rule conjunct1)
    then have jr: "job_resumes st' j = job_resumes st j" by (simp add: job_resumes_def)
    from fetched have "list_all (\<lambda>r. fetch_resume e r \<noteq> None) (job_resumes st j)"
      by (simp add: job_resumes_def list_all_iff)
    from fetched_emails [OF this] recompute_snapshot_emails [OF rc]
    have "c_email ` set l = rd_email ` set (job_resumes st j)" by (metis list.set_map)
    then have "emails_of c_email l = emails_of rd_email (job_resumes st j)" by (simp only: emails_of_eq)
    then have "cache_gate (rankings st' j) (job_resumes st' j) = Some l" by (simp add: cache_gate_Some jr st')
    with f ne jr show ?thesis by (simp add: rank_resumes_fields)
  qed
qed

theorem rank_resumes_repeat_witness:
  "rank_resumes ex_env \<lparr>resumes = [ex_resume_a], rankings = (\<lambda>_. None)\<rparr> ex_request =
     (Resp_ok [ex_cand\<lparr>c_score := Some 91, c_rank := Some 1\<rparr>],
      \<lparr>resumes = [ex_resume_a], rankings = (\<lambda>_. None)(u ''j1'' := Some (Some [ex_cand\<lparr>c_score := Some 91, c_rank := Some 1\<rparr>]))\<rparr>) \<and>
   list_all (\<lambda>r. fetch_resume ex_env r \<noteq> None) [ex_resume_a] \<and>
   rank_resumes (ex_env\<lparr>top_score := 99\<rparr>)
     \<lparr>resumes = [ex_resume_a], rankings = (\<lambda>_. None)(u ''j1'' := Some (Some [ex_cand\<lparr>c_score := Some 91, c_rank := Some 1\<rparr>]))\<rparr>
     ex_request =
     (Resp_ok [ex_cand\<lparr>c_score := Some 91, c_rank := Some 1\<rparr>],
      \<lparr>resumes = [ex_resume_a], rankings = (\<lambda>_. None)(u ''j1'' := Some (Some [ex_cand\<lparr>c_score := Some 91, c_rank := Some 1\<rparr>]))\<rparr>)"
proof -
  have f: "list_all (\<lambda>r. fetch_resume ex_env r \<noteq> None) (resumes \<lparr>resumes = [ex_resume_a], rankings = (\<lambda>_. None)\<rparr>)"
    by (simp add: ex_fetch)
  from rank_resumes_repeat [OF ex_run f, of "ex_env\<lparr>top_score := 99\<rparr>"] f ex_run show ?thesis by simp
qed

text \<open>C9: the snapshot is never reused while the pool holds an email that no
  downloadable resume carries: if the snapshot is stale and every resume with email \<open>m\<close>
  fails to download, then after the request the snapshot is still stale and the next identical
  request, under any collaborators, recomputes the ranking.\<close>

theorem rank_resumes_never_reuses:
  assumes f: "request_fields d = Some (j, desc)" and stale: "snapshot_stale st j"
    and r: "r \<in> set (job_resumes st j)" "rd_email r = Some m" "m \<noteq> []"
    and lost: "\<forall>r'\<in>set (job_resumes st j). rd_email r' = Some m \<longrightarrow> fetch_resume e r' = None"
    and run: "rank_resumes e st d = (resp, st')"
  shows "snapshot_stale st' j \<and> (\<forall>e'. rank_resumes e' st' d = recompute_ranking e' st' j desc (job_resumes st' j))"
proof -
  have ne: "job_resumes st j \<noteq> []" using r(1) by auto
  from stale have "cache_gate (rankings st j) (job_resumes st j) = None" by (simp add: cache_gate_None)
  with run f ne have rc: "recompute_ranking e st j desc (job_resumes st j) = (resp, st')"
    by (simp add: rank_resumes_fields)
  have jr: "job_resumes st' j = job_resumes st j"
    using recompute_ranking_resumes [OF rc] by (simp add: job_resumes_def)
  have "snapshot_stale st' j"
  proof (cases "\<exists>l. resp = Resp_ok l")
    case True
    then obtain l where rl: "resp = Resp_ok l" by blast
    from recompute_ranking_ok [OF rc [unfolded rl]]
    have st': "st' = st\<lparr>rankings := (rankings st)(j := Some (Some l))\<rparr>" by (rule conjunct1)
    have "Some m \<notin> c_email ` set l"
    proof
      assume "Some m \<in> c_email ` set l"
      from snapshot_email_fetched [OF rc [unfolded rl] this] obtain r' where
        "r' \<in> set (job_resumes st j)" "fetch_resume e r' \<noteq> None" "rd_email r' = Some m" by blast
      with lost show False by simp
    qed
    with r have "m \<notin> emails_of c_email l" "m \<in> emails_of rd_email (job_resumes st j)"
      by (force simp: emails_of_eq)+
    then have "emails_of c_email l \<noteq> emails_of rd_email (job_resumes st j)" by blast
    with st' jr show ?thesis by (simp add: snapshot_stale_def)
  next
    case False
    then have "\<forall>l. resp \<noteq> Resp_ok l" by blast
    with recompute_ranking_other [OF rc] stale show ?thesis by simp
  qed
  moreover from this have "\<forall>e'. cache_gate (rankings st' j) (job_resumes st' j) = None"
    by (simp add: cache_gate_None)
  ultimately show ?thesis using f ne jr by (simp add: rank_resumes_fields)
qed

theorem rank_resumes_never_reuses_witness:
  "request_fields ex_request = Some (u ''j1'', u ''python'') \<and>
   job_resumes \<lparr>resumes = [ex_resume_a, ex_resume_b], rankings = (\<lambda>_. None)\<rparr> (u ''j1'') = [ex_resume_a, ex_resume_b] \<and>
   rd_email ex_resume_a = Some (u ''a'') \<and> rd_email ex_resume_b = Some (u ''b'') \<and> fetch_resume ex_env ex_resume_b = None \<and>
   rank_resumes ex_env \<lparr>resumes = [ex_resume_a, ex_resume_b], rankings = (\<lambda>_. None)\<rparr> ex_request =
     (Resp_ok [ex_cand\<lparr>c_score := Some 91, c_rank := Some 1\<rparr>],
      \<lparr>resumes = [ex_resume_a, ex_resume_b],
       rankings = (\<lambda>_. None)(u ''j1'' := Some (Some [ex_cand\<lparr>c_score := Some 91, c_rank := Some 1\<rparr>]))\<rparr>) \<and>
   rank_resumes ex_env
     \<lparr>resumes = [ex_resume_a, ex_resume_b],
      rankings = (\<lambda>_. None)(u ''j1'' := Some (Some [ex_cand\<lparr>c_score := Some 91, c_rank := Some 1\<rparr>]))\<rparr> ex_request =
   recompute_ranking ex_env
     \<lparr>resumes = [ex_resume_a, ex_resume_b],
      rankings = (\<lambda>_. None)(u ''j1'' := Some (Some [ex_cand\<lparr>c_score := Some 91, c_rank := Some 1\<rparr>]))\<rparr>
     (u ''j1'') (u ''python'') [ex_resume_a, ex_resume_b]"
proof -
  let ?st = "\<lparr>resumes = [ex_resume_a, ex_resume_b], rankings = (\<lambda>_. None)\<rparr>"
  let ?st' = "\<lparr>resumes = [ex_resume_a, ex_resume_b],
      rankings = (\<lambda>_. None)(u ''j1'' := Some (Some [ex_cand\<lparr>c_score := Some 91, c_rank := Some 1\<rparr>]))\<rparr>"
  have jr: "job_resumes ?st (u ''j1'') = [ex_resume_a, ex_resume_b]"
    by (simp add: job_resumes_def ex_resume_a_def ex_resume_b_def)
  have jr': "job_resumes ?st' (u ''j1'') = [ex_resume_a, ex_resume_b]"
    by (simp add: job_resumes_def ex_resume_a_def ex_resume_b_def)
  have h1: "snapshot_stale ?st (u ''j1'')" by (simp add: snapshot_stale_def)
  have h2: "ex_resume_b \<in> set (job_resumes ?st (u ''j1''))" unfolding jr by simp
  have h3: "rd_email ex_resume_b = Some (u ''b'')" by (simp add: ex_resume_b_def)
  have h4: "u ''b'' \<noteq> []" by simp
  have h5: "\<forall>r'\<in>set (job_resumes ?st (u ''j1'')). rd_email r' = Some (u ''b'') \<longrightarrow> fetch_resume ex_env r' = None"
    unfolding jr by (simp add: ex_fetch ex_resume_a_def)
  from rank_resumes_never_reuses [OF ex_fields h1 h2 h3 h4 h5 ex_run_b]
  have "rank_resumes ex_env ?st' ex_request = recompute_ranking ex_env ?st' (u ''j1'') (u ''python'') (job_resumes ?st' (u ''j1''))"
    by blast
  then have "rank_resumes ex_env ?st' ex_request = recompute_ranking ex_env ?st' (u ''j1'') (u ''python'') [ex_resume_a, ex_resume_b]"
    by (simp only: jr')
  moreover have "rd_email ex_resume_a = Some (u ''a'')" by (simp add: ex_resume_a_def)
  ultimately show ?thesis using ex_fields jr h3 ex_fetch(2) ex_run_b by blast
qed

text \<open>C10: a job description in which spaCy finds no skill is never ranked afresh:
  every raw score is 0, so the ranker fails and the request ends in 404 or 500 without writing,
  unless the snapshot is reused.\<close>

theorem rank_resumes_no_skills:
  assumes run: "rank_resumes e st d = (resp, st')" and f: "request_fields d = Some (j, desc)"
    and none: "extract_skills_dynamic (nlp e) (is_stop e) desc = []"
  shows "st' = st \<and> (\<forall>l. resp = Resp_ok l \<longrightarrow> rankings st j = Some (Some l))"
proof (cases "job_resumes st j = []")
  case True
  with run f show ?thesis by (auto simp: rank_resumes_fields)
next
  case ne: False
  show ?thesis
  proof (cases "cache_gate (rankings st j) (job_resumes st j)")
    case (Some c)
    with run f ne have "resp = Resp_ok c" "st' = st" by (simp_all add: rank_resumes_fields)
    with Some show ?thesis by (simp add: cache_gate_Some)
  next
    case None
    with run f ne have "recompute_ranking e st j desc (job_resumes st j) = (resp, st')"
      by (simp add: rank_resumes_fields)
    with recompute_ranking_no_skills [OF none, of st j "job_resumes st j"] show ?thesis by simp
  qed
qed

theorem rank_resumes_no_skills_witness:
  "rank_resumes ex_env_noskill \<lparr>resumes = [ex_resume_a], rankings = (\<lambda>_. None)\<rparr> ex_request =
     (Resp_500 (u ''Internal server error occurred while ranking resumes''), \<lparr>resumes = [ex_resume_a], rankings = (\<lambda>_. None)\<rparr>) \<and>
   request_fields ex_request = Some (u ''j1'', u ''python'') \<and>
   extract_skills_dynamic (nlp ex_env_noskill) (is_stop ex_env_noskill) (u ''python'') = []"
proof -
  have n: "extract_skills_dynamic (nlp ex_env_noskill) (is_stop ex_env_noskill) (u ''python'') = []"
    using ex_noskill_skills by (simp add: ex_env_noskill_def ex_env_def)
  from rank_resumes_no_skills [OF ex_noskill_run ex_fields n] show ?thesis using ex_noskill_run ex_fields n by simp
qed

end
