(* ===== verification/Config.thy ===== *)
theory Config
  imports WorkHistory
begin

text \<open>
  The configuration the service reads from the process environment: the classes of
  \<open>src/config.py\<close>, whose bodies run when the module is imported, and the settings
  \<open>src/app.py\<close> reads itself (the CORS origins at start-up, the port and debug flag of its
  \<open>__main__\<close> block).  The environment is a partial map from variable names to strings;
  \<open>str.split(',')\<close> and \<open>int(str)\<close> are modelled on code points, and every \<open>raise\<close> is an
  \<open>Inl\<close> value.
\<close>

type_synonym environ = "ustr \<Rightarrow> ustr option"

section \<open>Python's str.split and int\<close>

text \<open>\<open>os.getenv(key, default)\<close>: the value when the variable is set (possibly empty).\<close>

definition getenv :: "environ \<Rightarrow> ustr \<Rightarrow> ustr \<Rightarrow> ustr" where
  "getenv g key dflt = (case g key of Some v \<Rightarrow> v | None \<Rightarrow> dflt)"

text \<open>\<open>s.split(c)\<close> for a one-character separator: the pieces between separators, one more
  than there are separators, empty pieces kept.\<close>

fun py_split :: "nat \<Rightarrow> ustr \<Rightarrow> ustr list" where
  "py_split c [] = [[]]"
| "py_split c (x # xs) = (if x = c then [] # py_split c xs
                         else (let ps = py_split c xs in (x # hd ps) # tl ps))"

text \<open>\<open>sep.join(ps)\<close>, the inverse of \<open>py_split\<close>.\<close>

fun py_join :: "ustr \<Rightarrow> ustr list \<Rightarrow> ustr" where
  "py_join sep [] = []"
| "py_join sep [p] = p"
| "py_join sep (p # q # ps) = p @ sep @ py_join sep (q # ps)"

text \<open>The digits of \<open>int(s)\<close> after the sign: ASCII digits, single underscores allowed
  between two digits (PEP 515).\<close>

fun digit_groups_ok :: "ustr \<Rightarrow> bool" where
  "digit_groups_ok [] = False"
| "digit_groups_ok [c] = is_ascii_digit c"
| "digit_groups_ok (c # d # r) =
     (is_ascii_digit c \<and> (if d = 95 then digit_groups_ok r else digit_groups_ok (d # r)))"

text \<open>\<open>int(s)\<close> in base 10: surrounding whitespace stripped, an optional sign, the digit
  groups; anything else raises \<open>ValueError\<close>.\<close>

definition py_int :: "ustr \<Rightarrow> py_exc + int" where
  "py_int s =
     (let t = py_strip s;
          (sign, ds) = (case t of [] \<Rightarrow> (1, t)
                         | c # r \<Rightarrow> if c = 45 then (-1, r) else if c = 43 then (1, r) else (1, t))
      in if digit_groups_ok ds then Inr (sign * int (digits_value (filter (\<lambda>c. c \<noteq> 95) ds)))
         else Inl ValueError)"

section \<open>src/config.py\<close>

text \<open>The attributes of a configuration class, inherited ones included; an attribute the
  class does not have (\<open>DEBUG\<close> of \<open>Config\<close>) is \<open>None\<close>.\<close>

record py_config =
  cfg_secret_key :: "ustr option"
  cfg_firebase_key_path :: ustr
  cfg_allowed_origins :: "ustr list"
  cfg_log_level :: ustr
  cfg_max_content_length :: nat
  cfg_request_timeout :: nat
  cfg_spacy_model :: ustr
  cfg_sentence_transformer_model :: ustr
  cfg_debug :: "bool option"
  cfg_flask_env :: "ustr option"
  cfg_testing :: "bool option"

definition base_config :: "environ \<Rightarrow> py_config" where
  "base_config g =
     \<lparr>cfg_secret_key = Some (getenv g (u ''SECRET_KEY'') (u ''dev-secret-key-change-in-production'')),
      cfg_firebase_key_path = getenv g (u ''FIREBASE_KEY_PATH'') (u ''firebase_key.json''),
      cfg_allowed_origins = py_split 44 (getenv g (u ''ALLOWED_ORIGINS'') (u ''http://localhost:4000'')),
      cfg_log_level = getenv g (u ''LOG_LEVEL'') (u ''INFO''),
      cfg_max_content_length = 16 * 1024 * 1024,
      cfg_request_timeout = 30,
      cfg_spacy_model = u ''en_core_web_lg'',
      cfg_sentence_transformer_model = u ''all-mpnet-base-v2'',
      cfg_debug = None, cfg_flask_env = None, cfg_testing = None\<rparr>"

definition development_config :: "py_config \<Rightarrow> py_config" where
  "development_config c = c\<lparr>cfg_debug := Some True, cfg_flask_env := Some (u ''development'')\<rparr>"

text \<open>The body of \<open>ProductionConfig\<close> reads \<open>SECRET_KEY\<close> without a default and raises
  when it is unset or empty.\<close>

definition production_config :: "environ \<Rightarrow> py_config \<Rightarrow> py_exc + py_config" where
  "production_config g c =
     (let secret = g (u ''SECRET_KEY'') in
      if \<not> truthy secret then Inl ValueError
      else Inr (c\<lparr>cfg_debug := Some False, cfg_flask_env := Some (u ''production''), cfg_secret_key := secret\<rparr>))"

definition testing_config :: "py_config \<Rightarrow> py_config" where
  "testing_config c = c\<lparr>cfg_testing := Some True, cfg_debug := Some True\<rparr>"

text \<open>Importing the module: the class bodies in order, then the \<open>config\<close> mapping.\<close>

definition config_module :: "environ \<Rightarrow> py_exc + (ustr \<times> py_config) list" where
  "config_module g =
     (let base = base_config g in
      case production_config g base of
        Inl err \<Rightarrow> Inl err
      | Inr prod_cfg \<Rightarrow> Inr [(u ''development'', development_config base), (u ''production'', prod_cfg),
                             (u ''testing'', testing_config base), (u ''default'', development_config base)])"

section \<open>Settings read by src/app.py\<close>

text \<open>The CORS origins of the application (line 38).\<close>

definition app_allowed_origins :: "environ \<Rightarrow> ustr list" where
  "app_allowed_origins g =
     py_split 44 (getenv g (u ''ALLOWED_ORIGINS'') (u ''http://localhost:4000,https://jobscout2025.netlify.app''))"

text \<open>The \<open>__main__\<close> block: \<open>int(os.getenv('PORT', 5001))\<close> (the default is the integer
  5001, so \<open>int\<close> returns it), then the debug flag.\<close>

definition main_settings :: "environ \<Rightarrow> py_exc + int \<times> bool" where
  "main_settings g =
     (case (case g (u ''PORT'') of None \<Rightarrow> Inr 5001 | Some s \<Rightarrow> py_int s) of
        Inl err \<Rightarrow> Inl err
      | Inr port \<Rightarrow> Inr (port, g (u ''FLASK_ENV'') = Some (u ''development'')))"

section \<open>Lemmas\<close>

lemma py_split_ne [simp]: "py_split c s \<noteq> []"
  by (induction s) (simp_all add: Let_def)

lemma py_split_no_sep: "p \<in> set (py_split c s) \<Longrightarrow> c \<notin> set p"
proof (induction s arbitrary: p)
  case (Cons x xs)
  then show ?case
    by (cases "py_split c xs") (auto simp: Let_def split: if_splits)
qed simp

lemma py_join_split: "py_join [c] (py_split c s) = s"
proof (induction s)
  case (Cons x xs)
  show ?case
  proof (cases "x = c")
    case True
    with Cons show ?thesis by (cases "py_split c xs") simp_all
  next
    case False
    obtain q qs where q: "py_split c xs = q # qs" by (cases "py_split c xs") simp_all
    with Cons False show ?thesis by (cases qs) simp_all
  qed
qed simp

lemma py_split_plain: "c \<notin> set p \<Longrightarrow> py_split c p = [p]"
  by (induction p) (simp_all add: Let_def)

lemma py_split_append: "c \<notin> set p \<Longrightarrow> py_split c (p @ c # s) = p # py_split c s"
  by (induction p) (simp_all add: Let_def)

lemma py_split_join: "ps \<noteq> [] \<Longrightarrow> \<forall>p\<in>set ps. c \<notin> set p \<Longrightarrow> py_split c (py_join [c] ps) = ps"
proof (induction "[c]" ps rule: py_join.induct)
  case (3 p q ps)
  then show ?case by (simp add: py_split_append)
qed (simp_all add: py_split_plain)

lemma digit_groups_ok_digits: "s \<noteq> [] \<Longrightarrow> list_all is_ascii_digit s \<Longrightarrow> digit_groups_ok s"
  by (induction s rule: digit_groups_ok.induct) (auto simp: is_ascii_digit_def)

lemma dropWhile_none: "\<forall>c\<in>set s. \<not> P c \<Longrightarrow> dropWhile P s = s"
  by (induction s) auto

lemma py_strip_digits: "list_all is_ascii_digit s \<Longrightarrow> py_strip s = s"
proof -
  assume "list_all is_ascii_digit s"
  then have "\<forall>c\<in>set s. \<not> py_isspace c" by (auto simp: list_all_iff pychar)
  then show ?thesis by (simp add: py_strip_def dropWhile_none)
qed

lemma filter_digits: "list_all is_ascii_digit s \<Longrightarrow> filter (\<lambda>c. c \<noteq> 95) s = s"
  by (induction s) (auto simp: is_ascii_digit_def)

lemma py_int_nat_str [simp]: "py_int (nat_str n) = Inr (int n)"
proof -
  from nat_str_digits [of n] obtain c r where s: "nat_str n = c # r" and d: "list_all is_ascii_digit (c # r)"
    by (cases "nat_str n") auto
  then have "c \<noteq> 45" "c \<noteq> 43" by (auto simp: is_ascii_digit_def)
  moreover have "py_strip (c # r) = c # r" "filter (\<lambda>c. c \<noteq> 95) (c # r) = c # r" "digit_groups_ok (c # r)"
    using d by (simp_all only: py_strip_digits filter_digits digit_groups_ok_digits list.distinct(2) not_False_eq_True)
  moreover have "digits_value (c # r) = n" using digits_value_nat_str [of n] by (simp only: s)
  ultimately show ?thesis by (simp add: py_int_def s del: filter.simps)
qed

lemma py_int_empty: "py_int [] = Inl ValueError"
  by (simp add: py_int_def)

lemma getenv_update [simp]:
  "getenv (g(k := Some v)) k d = v" "k \<noteq> k' \<Longrightarrow> getenv (g(k := x)) k' d = getenv g k' d"
  by (simp_all add: getenv_def)

text \<open>Unset, \<open>ALLOWED_ORIGINS\<close> means two origins to \<open>src/app.py\<close> and one to \<open>src/config.py\<close>.\<close>

lemma allowed_origins_defaults_differ:
  "app_allowed_origins (\<lambda>_. None) = [u ''http://localhost:4000'', u ''https://jobscout2025.netlify.app''] \<and>
   cfg_allowed_origins (base_config (\<lambda>_. None)) = [u ''http://localhost:4000'']"
  by (simp add: app_allowed_origins_def base_config_def getenv_def Let_def)

section \<open>Properties\<close>

text \<open>C12: importing \<open>src/config.py\<close> runs the body of \<open>ProductionConfig\<close>, so even
  the development configuration (the \<open>default\<close> entry) is only available when
  \<open>SECRET_KEY\<close> is set to a non-empty string; otherwise the import raises \<open>ValueError\<close>.\<close>

theorem config_default_needs_secret:
  "(\<exists>m. config_module g = Inr m \<and> map_of m (u ''default'') = Some (development_config (base_config g))) \<longleftrightarrow>
   truthy (g (u ''SECRET_KEY''))"
  by (auto simp: config_module_def production_config_def Let_def)

text \<open>\<open>ALLOWED_ORIGINS\<close> is read back exactly: a non-empty list of origins
  without commas, joined with commas into the variable, is the configured list, and joining
  the configured list gives back the variable (or its default).\<close>

theorem allowed_origins_roundtrip:
  assumes "origins \<noteq> []" "\<forall>p\<in>set origins. 44 \<notin> set p"
  shows "cfg_allowed_origins (base_config (g(u ''ALLOWED_ORIGINS'' := Some (py_join [44] origins)))) = origins \<and>
    py_join [44] (cfg_allowed_origins (base_config g)) = getenv g (u ''ALLOWED_ORIGINS'') (u ''http://localhost:4000'')"
  using assms by (simp add: base_config_def py_split_join py_join_split)

theorem allowed_origins_roundtrip_witness:
  "cfg_allowed_origins (base_config ((\<lambda>_. None)(u ''ALLOWED_ORIGINS'' :=
      Some (u ''http://localhost:4000,https://jobscout2025.netlify.app'')))) =
     [u ''http://localhost:4000'', u ''https://jobscout2025.netlify.app''] \<and>
   py_join [44] (cfg_allowed_origins (base_config (\<lambda>_. None))) = u ''http://localhost:4000''"
proof -
  have j: "py_join [44] [u ''http://localhost:4000'', u ''https://jobscout2025.netlify.app''] =
      u ''http://localhost:4000,https://jobscout2025.netlify.app''" by simp
  have "[u ''http://localhost:4000'', u ''https://jobscout2025.netlify.app''] \<noteq> []"
    "\<forall>p\<in>set [u ''http://localhost:4000'', u ''https://jobscout2025.netlify.app'']. 44 \<notin> set p" by simp_all
  from allowed_origins_roundtrip [OF this, of "\<lambda>_. None"] show ?thesis by (simp only: j) (simp add: getenv_def)
qed

text \<open>The port of the \<open>__main__\<close> block is read back from its decimal text; an
  unset \<open>PORT\<close> gives 5001 and an empty one makes \<open>int\<close> raise \<open>ValueError\<close>; the debug flag
  is set exactly when \<open>FLASK_ENV\<close> is \<open>development\<close>.\<close>

theorem main_port_roundtrip:
  "main_settings (g(u ''PORT'' := Some (nat_str n))) = Inr (int n, g (u ''FLASK_ENV'') = Some (u ''development'')) \<and>
   main_settings (g(u ''PORT'' := None)) = Inr (5001, g (u ''FLASK_ENV'') = Some (u ''development'')) \<and>
   main_settings (g(u ''PORT'' := Some [])) = Inl ValueError"
  by (simp add: main_settings_def py_int_empty)

end
