(* ===== verification/Api.thy ===== *)
theory Api
  imports Service Config
begin

text \<open>
  The rest of the HTTP surface and its client: \<open>extract_text_from_pdf\<close>
  (\<open>src/utils/resume_utils.py\<close>) and the download of the handler's loop, which together are
  the collaborator \<open>fetch_text\<close> of theory \<open>Service\<close>; the endpoints \<open>home\<close> and
  \<open>health_check\<close> and the error handlers of \<open>src/app.py\<close>; and the smoke test
  \<open>src/test_api.py\<close>, run against the modelled endpoints.  PyPDF2 is a collaborator: a
  document is the list of its pages as the reader yields them, each page's
  \<open>extract_text()\<close> returning a string, \<open>None\<close>, or raising.
\<close>

section \<open>PDF text\<close>

datatype pdf_page = Page_text "ustr option" | Page_raises

text \<open>The loop over \<open>reader.pages\<close>; an exception leaves it with the text so far.\<close>

fun pdf_pages_text :: "pdf_page list \<Rightarrow> ustr \<Rightarrow> ustr" where
  "pdf_pages_text [] text = text"
| "pdf_pages_text (Page_raises # _) text = text"
| "pdf_pages_text (Page_text content # ps) text =
     pdf_pages_text ps (case content of Some s \<Rightarrow> if s \<noteq> [] then text @ s @ [32] else text | None \<Rightarrow> text)"

text \<open>\<open>None\<close> is a document \<open>PdfReader\<close> cannot open (the \<open>except\<close> returns \<open>""\<close>).\<close>

definition extract_text_from_pdf :: "pdf_page list option \<Rightarrow> ustr" where
  "extract_text_from_pdf doc = (case doc of None \<Rightarrow> [] | Some pages \<Rightarrow> pdf_pages_text pages [])"

text \<open>The download in the handler's loop: \<open>requests.get\<close> (\<open>None\<close> when it raises) gives a
  status and the document; \<open>raise_for_status\<close> rejects 4xx and 5xx; any exception is the
  loop's \<open>continue\<close>.\<close>

definition pdf_fetch :: "(ustr \<Rightarrow> (nat \<times> pdf_page list option) option) \<Rightarrow> ustr \<Rightarrow> ustr option" where
  "pdf_fetch get url =
     (case get url of
        None \<Rightarrow> None
      | Some (status, doc) \<Rightarrow> if 400 \<le> status then None else Some (extract_text_from_pdf doc))"

text \<open>The text the pages give, as a reference: the non-empty page texts before the first page
  that raises, each followed by a space.\<close>

definition page_content :: "pdf_page \<Rightarrow> ustr option" where
  "page_content p = (case p of Page_text c \<Rightarrow> c | Page_raises \<Rightarrow> None)"

definition pdf_text_ref :: "pdf_page list \<Rightarrow> ustr" where
  "pdf_text_ref pages =
     concat (map (\<lambda>s. s @ [32]) (filter (\<lambda>s. s \<noteq> []) (List.map_filter page_content (takeWhile (\<lambda>p. p \<noteq> Page_raises) pages))))"

section \<open>Endpoints\<close>

datatype json = JStr ustr | JObj "(ustr \<times> json) list"

definition home :: "nat \<times> json" where
  "home = (200, JObj [(u ''status'', JStr (u ''healthy'')), (u ''message'', JStr (u ''Flask ML API is running!'')),
                      (u ''version'', JStr (u ''1.0.0''))])"

text \<open>\<open>firebase_ok\<close>: the test query on the collection \<open>test\<close> returns.\<close>

definition health_check :: "bool \<Rightarrow> nat \<times> json" where
  "health_check firebase_ok =
     (let firebase_status = if firebase_ok then u ''healthy'' else u ''unhealthy'' in
      (200, JObj [(u ''status'', JStr (if firebase_status = u ''healthy'' then u ''healthy'' else u ''degraded'')),
                  (u ''services'', JObj [(u ''firebase'', JStr firebase_status), (u ''ml_models'', JStr (u ''healthy''))])]))"

definition not_found :: "nat \<times> json" where
  "not_found = (404, JObj [(u ''error'', JStr (u ''Endpoint not found''))])"

definition internal_error :: "nat \<times> json" where
  "internal_error = (500, JObj [(u ''error'', JStr (u ''Internal server error''))])"

section \<open>The smoke test\<close>

text \<open>\<open>data[key]\<close> on a decoded body (\<open>None\<close> where it raises).\<close>

definition json_get :: "json \<Rightarrow> ustr \<Rightarrow> json option" where
  "json_get j key = (case j of JObj kvs \<Rightarrow> map_of kvs key | _ \<Rightarrow> None)"

definition test_health_check :: "nat \<times> json \<Rightarrow> bool" where
  "test_health_check r = (fst r = 200 \<and> json_get (snd r) (u ''status'') \<noteq> None)"

definition test_basic_endpoint :: "nat \<times> json \<Rightarrow> bool" where
  "test_basic_endpoint r = (fst r = 200 \<and> json_get (snd r) (u ''message'') \<noteq> None)"

text \<open>A 404 body of \<open>/rank\<close> carries its text under \<open>message\<close>.\<close>

definition test_rank_endpoint :: "response \<Rightarrow> bool" where
  "test_rank_endpoint r =
     (case r of Resp_ok _ \<Rightarrow> True | Resp_404 m \<Rightarrow> py_in (u ''No resumes found'') m | _ \<Rightarrow> False)"

definition test_data :: json_body where
  "test_data = Some [(u ''jobId'', u ''test-job-123''),
     (u ''description'', u ''We are looking for a Python developer with experience in machine learning and Flask. Bachelor's degree required. 2-3 years experience preferred.'')]"

definition smoke_main :: "bool list \<Rightarrow> nat" where
  "smoke_main results = (if length (filter id results) = length results then 0 else 1)"

text \<open>\<open>main()\<close>: the three tests in order against a server whose Firebase test query
  succeeds or not; the exit status and the store after the ranking request.\<close>

definition smoke_test :: "bool \<Rightarrow> env \<Rightarrow> store \<Rightarrow> nat \<times> store" where
  "smoke_test firebase_ok e st =
     (let basic = test_basic_endpoint home;
          health = test_health_check (health_check firebase_ok);
          (resp, st') = rank_resumes e st test_data
      in (smoke_main [basic, health, test_rank_endpoint resp], st'))"

section \<open>Lemmas\<close>

lemma pdf_pages_text_ref: "pdf_pages_text pages acc = acc @ pdf_text_ref pages"
proof (induction pages acc rule: pdf_pages_text.induct)
  case (3 content ps acc)
  then show ?case by (cases content) (simp_all add: pdf_text_ref_def page_content_def)
qed (simp_all add: pdf_text_ref_def)

lemma health_check_status:
  "fst (health_check firebase_ok) = 200 \<and>
   json_get (snd (health_check firebase_ok)) (u ''status'') = Some (JStr (if firebase_ok then u ''healthy'' else u ''degraded''))"
  by (simp add: health_check_def json_get_def Let_def)

lemma smoke_basic_health: "test_basic_endpoint home" "test_health_check (health_check firebase_ok)"
  by (simp add: test_basic_endpoint_def home_def json_get_def) (simp add: test_health_check_def health_check_def json_get_def Let_def)

lemma test_data_fields:
  "request_fields test_data = Some (u ''test-job-123'',
     u ''We are looking for a Python developer with experience in machine learning and Flask. Bachelor's degree required. 2-3 years experience preferred.'')"
  by (simp add: request_fields_def test_data_def)

lemma recompute_ranking_404:
  "recompute_ranking e st j desc rs = (Resp_404 m, st') \<Longrightarrow> m = u ''No valid resumes could be processed''"
  by (auto simp: recompute_ranking_def Let_def split: if_splits sum.splits)

lemma rank_messages:
  "py_in (u ''No resumes found'') (u ''No resumes found for this job'')"
  "\<not> py_in (u ''No resumes found'') (u ''No valid resumes could be processed'')"
  by simp_all

section \<open>Properties\<close>

text \<open>C13: \<open>extract_text_from_pdf\<close> is the concatenation of the non-empty page texts,
  each followed by a space, of the pages before the first page whose extraction raises: a
  document that fails on a later page is kept with the text of its first pages, and one that
  cannot be opened, or fails on its first page, gives the empty text the handler skips.\<close>

theorem extract_text_from_pdf_ref:
  "extract_text_from_pdf doc = (case doc of None \<Rightarrow> [] | Some pages \<Rightarrow> pdf_text_ref pages)"
  by (simp add: extract_text_from_pdf_def pdf_pages_text_ref split: option.split)

text \<open>C11: run against the modelled service, \<open>src/test_api.py\<close> exits with status 0
  exactly when the ranking request is answered with a ranking or the test job has no resume
  at all, whether or not Firebase answers the health query: a degraded health check passes,
  and the 404 of a pool in which no resume could be processed fails the test.\<close>

theorem smoke_test_passes_iff:
  "fst (smoke_test firebase_ok e st) = 0 \<longleftrightarrow>
   (\<exists>l. fst (rank_resumes e st test_data) = Resp_ok l) \<or> job_resumes st (u ''test-job-123'') = []"
proof -
  obtain resp st' where r: "rank_resumes e st test_data = (resp, st')" by (cases "rank_resumes e st test_data")
  define j where "j = u ''test-job-123''"
  define desc where "desc = u ''We are looking for a Python developer with experience in machine learning and Flask. Bachelor's degree required. 2-3 years experience preferred.''"
  have f: "request_fields test_data = Some (j, desc)" by (simp only: test_data_fields j_def desc_def)
  have "test_rank_endpoint resp \<longleftrightarrow> (\<exists>l. resp = Resp_ok l) \<or> job_resumes st j = []"
  proof (cases "job_resumes st j = []")
    case True
    with r f have "resp = Resp_404 (u ''No resumes found for this job'')" by (auto simp: rank_resumes_fields)
    with True show ?thesis by (simp add: test_rank_endpoint_def)
  next
    case ne: False
    show ?thesis
    proof (cases "cache_gate (rankings st j) (job_resumes st j)")
      case (Some l)
      with r f ne have "resp = Resp_ok l" by (simp add: rank_resumes_fields)
      then show ?thesis by (simp add: test_rank_endpoint_def)
    next
      case None
      with r f ne have "recompute_ranking e st j desc (job_resumes st j) = (resp, st')"
        by (simp add: rank_resumes_fields)
      with ne show ?thesis by (cases resp) (auto simp: test_rank_endpoint_def dest: recompute_ranking_404)
    qed
  qed
  then show ?thesis by (simp add: smoke_test_def r smoke_basic_health smoke_main_def j_def)
qed

end
