(* ===== verification/Spec2Isabelle.thy ===== *)
theory Spec2Isabelle
  imports ExpWindow WorkHistory Ranker Service Config Api
begin

text \<open>
  \<^bold>\<open>A verification model of the resume ranking service (ML_model_Finalized).\<close>

  The program ranks the resumes submitted for a job against the job description.  Its
  parts, leaf first, and where the development models them:

  \<^item> \<^emph>\<open>Python's str and re\<close> (the runtime the code relies on): theory \<open>Prelude\<close> models a
    string as a list of Unicode code points (\<open>ustr\<close>) with the character classes of
    \<open>str.isspace\<close>, \<open>\w\<close>, \<open>str.lower\<close> and the ASCII classes; theory \<open>PyRe\<close> models
    \<open>re.search\<close>, \<open>re.findall\<close> and \<open>re.sub\<close> as list-of-successes parsers that list the
    matches in the order of Python's backtracking, so each regular expression of the source
    is written as a term of the same shape.  \<open>re.sub\<close> of a class and of a repeated class
    are proved equal to \<open>filter\<close> and to a run-collapsing function.
  \<^item> \<^emph>\<open>Text normalizers\<close> (\<open>src/utils/resume_utils.py\<close>: \<open>preprocess_text\<close>,
    \<open>normalize_skill\<close>, \<open>normalize_qualification\<close>): theory \<open>TextNorm\<close>, one definition per
    function, each \<open>re.sub\<close> as an \<open>rx_sub\<close> of its pattern.
  \<^item> \<^emph>\<open>Signal extractors\<close> (\<open>src/utils/resume_utils.py\<close>:
    \<open>extract_qualifications\<close>, \<open>extract_experience\<close>, \<open>extract_skills_dynamic\<close>):
    theory \<open>Extract\<close>, each \<open>re.findall\<close> of the source's pattern written with the
    combinators of \<open>PyRe\<close>; \<open>list(set(xs))\<close> is \<open>remdups xs\<close>.  spaCy is a collaborator:
    the document it returns (noun chunks, labelled entities) and its stop-word test are
    parameters of \<open>extract_skills_dynamic\<close>.
  \<^item> \<^emph>\<open>Experience window parser\<close> (\<open>parse_required_experience\<close>): theory
    \<open>ExpWindow\<close>; the loop over the phrases is a \<open>foldl\<close> of \<open>parse_step\<close>, each
    \<open>if ... continue\<close> branch of the source one branch of \<open>parse_step\<close>, \<open>re.search\<close>
    with its groups as \<open>rx_search\<close> of a parser returning the groups.
  \<^item> \<^emph>\<open>Work-period extractor\<close> (\<open>extract_work_experience_section\<close>,
    \<open>extract_work_periods\<close>, \<open>total_experience_in_months\<close>, \<open>format_months\<close>): theory
    \<open>WorkHistory\<close>.  The section is two \<open>re.search\<close>es; the periods are two \<open>re.findall\<close>es
    whose pairs go through \<open>period_months\<close>, the body of the loop (parse, \<open>continue\<close> when
    the end precedes the start, \<open>relativedelta\<close>, the \<open>[0, 600]\<close> filter; a parse error is
    \<open>None\<close>, as the \<open>except\<close> skips the pair).  \<open>dateutil\<close>'s parser and
    \<open>datetime.today()\<close> are parameters; \<open>parse_month_year\<close> models the parser on the two date
    shapes the patterns accept, and \<open>rd_months\<close> the month loop of \<open>relativedelta\<close>
    as a \<open>while_option\<close>, so that its termination is a theorem rather than an assumption.
  \<^item> \<^emph>\<open>Scorer\<close> (\<open>src/app.py\<close>, \<open>rank_resumes\<close>, the body of the loop over the resumes):
    theory \<open>Scorer\<close>: \<open>experience_match\<close> (the verdict), \<open>skill_f1\<close> (precision, recall and
    their harmonic mean over the normalized skill lists), \<open>score_candidate\<close> (matched sets,
    the single 0.3 penalty).  Python floats are exact reals here.
  \<^item> \<^emph>\<open>Ranker\<close> (\<open>src/app.py\<close>, after the loop): theory \<open>Ranker\<close>: the candidate dictionary
    as the record \<open>cand\<close> (keys \<open>score\<close> and \<open>rank\<close> optional), \<open>normalize_scores\<close>
    (square-root rescaling to the ceiling; \<open>math.sqrt\<close> raising \<open>ValueError\<close> on a
    negative score is a branch), \<open>py_round2\<close> (\<open>round(x, 2)\<close>, ties to even),
    \<open>sort_by_score\<close> (the stable descending sort, raising \<open>KeyError\<close> when a score was never
    set), \<open>assign_ranks\<close> and their composition \<open>rank_candidates\<close>.  The ceiling
    \<open>random.randint(91, 99)\<close> is a parameter; every theorem holds for all its values.
  \<^item> \<^emph>\<open>Request handler and cache gate\<close> (\<open>src/app.py\<close>, the route \<open>/rank\<close>,
    function \<open>rank_resumes\<close>): theory \<open>Service\<close>.  The two Firestore collections are
    the record \<open>store\<close> (\<open>resumes\<close>, the documents of \<open>resumes\<close>; \<open>rankings\<close>, the
    \<open>ranked_resumes\<close> field of each document of \<open>resume_rankings\<close>, absent, present
    without the field, or present); the collaborators (\<open>requests.get\<close> with
    \<open>extract_text_from_pdf\<close>, spaCy, \<open>model.encode\<close>, \<open>datetime.today()\<close> and the
    ceiling drawn by \<open>random.randint(91, 99)\<close>) are the record \<open>env\<close>.  The handler is
    the step function \<open>rank_resumes\<close> from a store and a JSON body to a response and the
    new store, one branch per early return: the two 400s, the 404 of an empty pool,
    \<open>cache_gate\<close> (lines 114-128: the email sets compared as sets), and
    \<open>recompute_ranking\<close> (lines 130-254): \<open>fetch_resume\<close> is one iteration of the download
    loop (each \<open>continue\<close> is \<open>None\<close>), \<open>job_requirements\<close> and \<open>score_resume\<close> call the
    extractors, normalizers, the work-period extractor and the scorer, and
    \<open>rank_candidates\<close> of theory \<open>Ranker\<close> ends in the 500 of the \<open>except\<close> or in the
    write of the snapshot.  The contract of the endpoint is the inductive relation
    \<open>service_spec\<close>; the stores the service meets are the inductive \<open>reachable\<close> (resumes
    submitted, requests served); \<open>store_inv\<close> says every snapshot is displayable.
  \<^item> \<^emph>\<open>The rest of the HTTP surface\<close>: theory \<open>Api\<close>.  \<open>extract_text_from_pdf\<close>
    (\<open>src/utils/resume_utils.py\<close>) is the loop \<open>pdf_pages_text\<close> over the pages PyPDF2 yields
    (\<open>pdf_page\<close>: a text, \<open>None\<close>, or an extraction that raises), and \<open>pdf_fetch\<close> composes
    it with \<open>requests.get\<close> and \<open>raise_for_status\<close> into the collaborator \<open>fetch_text\<close> of
    \<open>Service\<close>.  The endpoints \<open>home\<close> and \<open>health_check\<close> (the Firebase test query a
    parameter) and the 404 and 500 handlers return a status and a \<open>json\<close> body.
  \<^item> \<^emph>\<open>The smoke test\<close> (\<open>src/test_api.py\<close>): theory \<open>Api\<close>; each test is a predicate
    on the response it receives (\<open>test_basic_endpoint\<close>, \<open>test_health_check\<close>,
    \<open>test_rank_endpoint\<close>), and \<open>smoke_test\<close> runs \<open>main()\<close> against the modelled
    endpoints and \<open>rank_resumes\<close>, giving the exit status and the store.
  \<^item> \<^emph>\<open>Configuration\<close> (\<open>src/config.py\<close>, and what \<open>src/app.py\<close> reads from the
    environment itself): theory \<open>Config\<close>.  The environment is a map \<open>environ\<close>;
    \<open>os.getenv\<close>, \<open>str.split(',')\<close> (\<open>py_split\<close>) and \<open>int(str)\<close> (\<open>py_int\<close>, raising
    \<open>ValueError\<close>) are modelled on code points; each class is a \<open>py_config\<close> record
    (\<open>base_config\<close>, \<open>development_config\<close>, \<open>production_config\<close>,
    \<open>testing_config\<close>), and \<open>config_module\<close> runs the class bodies in order as the import
    does; \<open>app_allowed_origins\<close> and \<open>main_settings\<close> are lines 38 and 269-271 of
    \<open>src/app.py\<close>.

  \<^bold>\<open>Loops, bounds and fuel.\<close>  No definition uses fuel.  The scans of \<open>re.findall\<close>
  and \<open>re.sub\<close> terminate by the length of the remaining input, \<open>str(n)\<close> by \<open>n\<close>; the
  source's \<open>for\<close> loops are \<open>map\<close>, \<open>foldl\<close> and \<open>List.map_filter\<close> over finite lists; the
  one loop whose termination is not structural, the month loop of \<open>relativedelta\<close>, is a
  \<open>while_option\<close> (\<open>None\<close> would be divergence) and \<open>rd_months_terminates\<close> proves that it
  returns on every pair of valid ordered dates.  Concrete examples fix the current date
  (9 November 2026) and the display ceiling only where a theorem is an example.

  Errors are values: \<open>py_exc + 'a\<close> with \<open>Inl KeyError\<close> or \<open>Inl ValueError\<close> for the
  exceptions the modelled code raises.

  \<^bold>\<open>What the theorems show.\<close>  The score of a candidate is the Dice coefficient of the job's
  and the candidate's skill lists, times 0.3 once under the penalty, and lies in \<open>[0, 1]\<close>;
  the ranking, when some score is positive, assigns ranks 1..n to a permutation of the
  candidates in non-increasing score order, keeps ties in input order, displays the leader
  at exactly the ceiling and every score within \<open>[0, ceiling]\<close>.  They also establish
  where the code departs from its specification: a pool in which nobody scores above 0 is
  never ranked (\<open>KeyError\<close>, HTTP 500); the order of the ranking can change with the random
  ceiling (rounding makes ties appear and disappear); \<open>normalize_skill\<close> is not idempotent;
  the precision divides by a list in which two raw phrases with one key count twice; the
  abbreviation fix-up of \<open>preprocess_text\<close> is a no-op; \<open>B.Tech\<close> is not a bachelor's degree
  for the matcher although \<open>M.Tech\<close> is a master's.  On the job side the experience window
  equals the spec's examples, depends only on the set of phrases (so the unspecified order of
  \<open>list(set(...))\<close> is harmless) and never has a maximum without a minimum; but a descending
  range such as \<open>5-3 years\<close> is kept inverted so that nobody matches, \<open>2+ years\<close> is not
  recognised at all, and the qualification vocabulary matches the pronoun \<open>it\<close> and the
  \<open>MS\<close> of \<open>MS Office\<close> while missing \<open>B.Sc\<close>.  On the candidate side the spec's
  example gives 23 months, a period counts the calendar month difference whatever the day
  of the month, \<open>relativedelta\<close>'s loop ends, every kept period is at most 600 months,
  the fallback search of the section extractor is dead code and \<open>format_months\<close> can be
  read back; but the section ends at any \<open>Label:\<close> line (the pattern is matched
  ignoring case), which can hide most of a candidate's history from the verdict.

  \<^bold>\<open>The handler.\<close>  \<open>rank_resumes\<close> refines \<open>service_spec\<close>: every answer is one the
  contract allows, and a fresh answer is a non-empty well-ranked list with one entry per
  distinct resume of the job that was stored as the job's snapshot (a simulation proved by
  cases on the handler's branches).  By rule induction every reachable store keeps only
  displayable snapshots, so every answer has ranks 1..n and scores in [0, 99].  When every
  resume of the store downloads, a request repeated after a successful one is answered from
  the snapshot, unchanged, whatever the collaborators do then (the spec's cache example).
  They also establish two departures from the spec: a resume whose email is in the pool but
  whose download fails keeps every snapshot stale, so an unchanged pool is ranked afresh on
  each request (and with a new random ceiling); and a job description in which no skill is
  found can never be ranked, since every raw score is 0 (the spec treats empty extraction
  as a normal case).

  \<^bold>\<open>Around the handler.\<close>  \<open>extract_text_from_pdf\<close> equals a reference definition:
  the non-empty page texts before the first page that raises, so a document that fails on a
  later page is ranked on a prefix of its text.  Run against the model, the smoke test exits
  0 exactly when the ranking request returns a ranking or the test job has no resume, so
  it passes with Firebase unreachable (the health check answers 200, \<open>degraded\<close>) and fails
  on the 404 of a pool in which no resume could be processed.  Importing \<open>config.py\<close>
  raises \<open>ValueError\<close> unless \<open>SECRET_KEY\<close> is set, for every configuration, because the
  check of \<open>ProductionConfig\<close> runs in its class body; \<open>ALLOWED_ORIGINS\<close> and \<open>PORT\<close>
  are read back exactly (round trips through \<open>py_split\<close>/\<open>py_join\<close> and
  \<open>str\<close>/\<open>int\<close>), and the two files disagree on the default origins.

  \<^bold>\<open>Not modelled.\<close>  PyPDF2, \<open>requests\<close>, spaCy and the sentence encoder are
  collaborators, not code of the repository: they are parameters (the pages of a document,
  the status and document of a download, the spaCy document, \<open>encode_fails\<close>).  Model
  loading (\<open>load_models\<close>), the creation of the Flask and CORS objects, the Firebase
  credentials and client, and the logging configuration are process start-up and I/O with
  no logic of their own beyond raising, and are not modelled.  In the handler, logging is
  omitted; the similarity scores are computed by the source but never read, so only the
  failure of \<open>model.encode\<close> is modelled; a failure of the Firestore calls themselves (which
  would also end in the 500) is not.  The smoke test runs against the modelled service,
  without network errors.  Non-ASCII case mapping and non-ASCII decimal digits are outside
  the character model (see \<open>Prelude\<close>).
\<close>

section \<open>Properties across components\<close>

text \<open>Two distinct raw skill phrases of a resume with the same key count twice
  in \<open>len(resume_skills)\<close>: a resume listing \<open>React.js\<close> and \<open>ReactJS\<close> against a job asking
  for \<open>react\<close> gets precision 1/2 and F1 2/3 instead of 1.\<close>

theorem duplicate_skill_keys_lower_precision:
  "map normalize_skill [u ''React.js'', u ''ReactJS''] = [u ''react'', u ''react''] \<and>
   skill_f1 [u ''react''] (map normalize_skill [u ''React.js'', u ''ReactJS'']) = 2 / 3"
  by (simp add: normalize_skill_def skill_sep_def skill_char_def pychar py_endswith_def skill_f1_def)

text \<open>The job side of the pipeline, \<open>extract_experience\<close> then
  \<open>parse_required_experience\<close>: a description asking for \<open>1-2 years\<close> sets the window to
  12 to 24 months (the duration \<open>2 years\<close> found inside the range does not narrow it).\<close>

theorem job_window_from_description:
  "extract_experience (u ''Need 1-2 years'') = [u ''1-2 years'', u ''2 years''] \<and>
   parse_required_experience (extract_experience (u ''Need 1-2 years'')) = (Some 12, Some 24)"
proof -
  have e: "extract_experience (u ''Need 1-2 years'') = [u ''1-2 years'', u ''2 years'']"
    by (simp add: extract_experience_def rx_findall_def rx_scan.simps exp_pats rx_defs pychar)
  have "parse_required_experience [u ''1-2 years'', u ''2 years''] = (Some 12, Some 24)"
    by (simp add: window_eval)
  with e show ?thesis by simp
qed

text \<open>C5: a job asking for \<open>5-3 years\<close> gets the inverted window 60 to 36
  months, so no candidate's experience matches, whatever it is, and every final score carries
  the 0.3 penalty.\<close>

theorem inverted_window_matches_nobody:
  "exp_verdict (score_candidate js jq (fst (parse_required_experience [u ''5-3 years'']))
      (snd (parse_required_experience [u ''5-3 years''])) rs rq t) = Experience_not_matched \<and>
   final_score (score_candidate js jq (fst (parse_required_experience [u ''5-3 years'']))
      (snd (parse_required_experience [u ''5-3 years''])) rs rq t) = skill_f1 js rs * (3 / 10)"
proof -
  have w: "parse_required_experience [u ''5-3 years''] = (Some 60, Some 36)"
    by (simp add: window_eval)
  show ?thesis
    unfolding w by (simp add: score_candidate_def Let_def experience_match_def penalty_applies_def)
qed

text \<open>The section cut-off at a \<open>Role:\<close> line reaches the verdict: a resume
  whose experience section holds \<open>Jan 2020 - Dec 2021\<close>, a \<open>Role: dev\<close> line and
  \<open>Mar 2022 - Present\<close> (79 months on 9 November 2026) is credited with 23 months, so it
  fails a job asking for \<open>5-7 years\<close> (60 to 84 months) that its full history meets.\<close>

theorem label_line_hides_experience:
  "parse_required_experience (extract_experience (u ''5-7 years'')) = (Some 60, Some 84) \<and>
   total_experience_in_months (extract_work_periods (parse_month_year (2026, 11, 9, 36000)) (2026, 11, 9, 36000)
     (extract_work_experience_section (u ''EXPERIENCE'' @ [10] @ u ''Jan 2020 - Dec 2021'' @ [10] @
        u ''Role: dev'' @ [10] @ u ''Mar 2022 - Present''))) = 23 \<and>
   total_experience_in_months (extract_work_periods (parse_month_year (2026, 11, 9, 36000)) (2026, 11, 9, 36000)
     (u ''Jan 2020 - Dec 2021'' @ [10] @ u ''Mar 2022 - Present'')) = 79 \<and>
   exp_verdict (score_candidate js jq (Some 60) (Some 84) rs rq 23) = Experience_not_matched \<and>
   exp_verdict (score_candidate js jq (Some 60) (Some 84) rs rq 79) = Experience_matched"
proof -
  have w: "extract_experience (u ''5-7 years'') = [u ''5-7 years'', u ''7 years'']"
    by (simp add: extract_experience_def rx_findall_def rx_scan.simps exp_pats rx_defs pychar)
  have "parse_required_experience [u ''5-7 years'', u ''7 years''] = (Some 60, Some 84)"
    by (simp add: window_eval)
  moreover have "extract_work_experience_section (u ''EXPERIENCE'' @ [10] @ u ''Jan 2020 - Dec 2021'' @ [10] @
        u ''Role: dev'' @ [10] @ u ''Mar 2022 - Present'') = u ''Jan 2020 - Dec 2021''"
    by (simp add: section_eval)
  moreover have "total_experience_in_months (extract_work_periods (parse_month_year (2026, 11, 9, 36000))
      (2026, 11, 9, 36000) (u ''Jan 2020 - Dec 2021'')) = 23"
    by (simp add: work_eval)
  moreover have "total_experience_in_months (extract_work_periods (parse_month_year (2026, 11, 9, 36000))
      (2026, 11, 9, 36000) (u ''Jan 2020 - Dec 2021'' @ [10] @ u ''Mar 2022 - Present'')) = 79"
    by (simp add: work_eval)
  moreover have "exp_verdict (score_candidate js jq (Some 60) (Some 84) rs rq 23) = Experience_not_matched"
    "exp_verdict (score_candidate js jq (Some 60) (Some 84) rs rq 79) = Experience_matched"
    by (simp_all add: matched_sets_eq experience_match_def)
  ultimately show ?thesis using w by (simp only:)
qed

end
